theory Spec2Isabelle
  imports Main "HOL-Library.Word" "HOL-Library.Sublist"
begin

unbundle bit_operations_syntax

section \<open>Machine integers\<close>

text \<open>
  The C types of PINoF.c: \<open>u8\<close>, \<open>u16\<close>, \<open>u32\<close> and \<open>size_t\<close> (64 bits) are words, so
  that \<open>+\<close> and \<open>-\<close> wrap as in C. A C \<open>int\<close> that only holds a return value or a small
  length (\<open>ret\<close>, \<open>left\<close>) is an \<open>int\<close>, read from a word with \<open>sint\<close> and stored
  back with \<open>of_int\<close>.
\<close>

type_synonym u8 = "8 word"
type_synonym u16 = "16 word"
type_synonym u32 = "32 word"
type_synonym u64 = "64 word"

section \<open>Constants\<close>

subsection \<open>The macros of PINoF.c\<close>

definition I10_CARAVAN_CAPACITY :: u64 where
  "I10_CARAVAN_CAPACITY = 65536"

definition I10_CARAVAN2_CAPACITY :: u64 where
  "I10_CARAVAN2_CAPACITY = 256"

definition I10_TARGET_RECV_BUDGET :: nat where
  "I10_TARGET_RECV_BUDGET = 16"

definition I10_TARGET_SEND_BUDGET :: nat where
  "I10_TARGET_SEND_BUDGET = 16"

definition I10_TARGET_IO_WORK_BUDGET :: int where
  "I10_TARGET_IO_WORK_BUDGET = 64"

definition I10_TARGET_F_INIT_FAILED :: u32 where
  "I10_TARGET_F_INIT_FAILED = 1"

subsection \<open>Constants of the kernel headers that PINoF.c includes\<close>

text \<open>
  \<open>linux/nvme-tcp.h\<close>, \<open>linux/nvme.h\<close>, the errno values and \<open>PAGE_SIZE\<close> are not part of
  the repository. Their values are the ones of the NVMe/TCP wire format and of Linux on
  x86-64.
\<close>

definition NVME_TCP_DIGEST_LENGTH :: nat where "NVME_TCP_DIGEST_LENGTH = 4"
definition sizeof_hdr :: nat where "sizeof_hdr = 8"
definition sizeof_icreq_pdu :: nat where "sizeof_icreq_pdu = 128"
definition sizeof_icresp_pdu :: nat where "sizeof_icresp_pdu = 128"
definition sizeof_cmd_pdu :: nat where "sizeof_cmd_pdu = 72"
definition sizeof_rsp_pdu :: nat where "sizeof_rsp_pdu = 24"
definition sizeof_data_pdu :: nat where "sizeof_data_pdu = 24"
definition sizeof_r2t_pdu :: nat where "sizeof_r2t_pdu = 24"
definition sizeof_pdu_union :: nat where "sizeof_pdu_union = 128"
definition PAGE_SIZE :: u32 where "PAGE_SIZE = 4096"

definition nvme_tcp_icreq :: u8 where "nvme_tcp_icreq = 0"
definition nvme_tcp_icresp :: u8 where "nvme_tcp_icresp = 1"
definition nvme_tcp_cmd :: u8 where "nvme_tcp_cmd = 4"
definition nvme_tcp_rsp :: u8 where "nvme_tcp_rsp = 5"
definition nvme_tcp_h2c_data :: u8 where "nvme_tcp_h2c_data = 6"
definition nvme_tcp_c2h_data :: u8 where "nvme_tcp_c2h_data = 7"
definition nvme_tcp_r2t :: u8 where "nvme_tcp_r2t = 9"

definition NVME_TCP_F_HDGST :: u8 where "NVME_TCP_F_HDGST = 1"
definition NVME_TCP_F_DDGST :: u8 where "NVME_TCP_F_DDGST = 2"
definition NVME_TCP_F_DATA_LAST :: u8 where "NVME_TCP_F_DATA_LAST = 4"
definition NVME_TCP_HDR_DIGEST_ENABLE :: u8 where "NVME_TCP_HDR_DIGEST_ENABLE = 1"
definition NVME_TCP_DATA_DIGEST_ENABLE :: u8 where "NVME_TCP_DATA_DIGEST_ENABLE = 2"
definition NVME_TCP_PFV_1_0 :: u16 where "NVME_TCP_PFV_1_0 = 0"

definition nvme_fabrics_command :: u8 where "nvme_fabrics_command = 0x7f"
definition NVME_SGL_FMT_DATA_DESC :: u8 where "NVME_SGL_FMT_DATA_DESC = 0"
definition NVME_SGL_FMT_OFFSET :: u8 where "NVME_SGL_FMT_OFFSET = 1"
definition NVME_SC_INVALID_FIELD :: u16 where "NVME_SC_INVALID_FIELD = 0x2"
definition NVME_SC_INTERNAL :: u16 where "NVME_SC_INTERNAL = 0x6"
definition NVME_SC_SGL_INVALID_OFFSET :: u16 where "NVME_SC_SGL_INVALID_OFFSET = 0x16"
definition NVME_SC_DNR :: u16 where "NVME_SC_DNR = 0x4000"

definition EIO :: int where "EIO = 5"
definition EAGAIN :: int where "EAGAIN = 11"
definition ENOMEM :: int where "ENOMEM = 12"
definition EINVAL :: int where "EINVAL = 22"
definition EPIPE :: int where "EPIPE = 32"
definition EPROTO :: int where "EPROTO = 71"
definition ECONNRESET :: int where "ECONNRESET = 104"

definition MSG_DONTWAIT :: int where "MSG_DONTWAIT = 0x40"
definition MSG_EOR :: int where "MSG_EOR = 0x80"
definition MSG_MORE :: int where "MSG_MORE = 0x8000"

section \<open>Data model\<close>

datatype i10_target_send_state =
  I10_TARGET_SEND_DATA_PDU
  | I10_TARGET_SEND_DATA
  | I10_TARGET_SEND_R2T
  | I10_TARGET_SEND_DDGST
  | I10_TARGET_SEND_RESPONSE

datatype i10_target_recv_state =
  I10_TARGET_RECV_PDU
  | I10_TARGET_RECV_DATA
  | I10_TARGET_RECV_DDGST
  | I10_TARGET_RECV_ERR

datatype i10_target_queue_state =
  I10_TARGET_Q_CONNECTING
  | I10_TARGET_Q_LIVE
  | I10_TARGET_Q_DISCONNECTING

text \<open>
  A pointer to a command is either the queue's embedded \<open>connect\<close> command or the
  address of a slot of the array \<open>queue->cmds\<close>. A pointer that may be \<open>NULL\<close> is an
  option.
\<close>

datatype cmd_ref = Connect | Slot nat

text \<open>
  The buffers whose addresses the code hands to the socket or to a caravan;
  \<open>Buf_uninit\<close> stands in a \<open>kvec\<close> that was allocated and not yet written.
\<close>

datatype buf =
  Buf_data_pdu cmd_ref
  | Buf_rsp_pdu cmd_ref
  | Buf_r2t_pdu cmd_ref
  | Buf_exp_ddgst cmd_ref
  | Buf_sg_page cmd_ref nat
  | Buf_icresp
  | Buf_uninit

text \<open>\<open>struct kvec\<close>: the base is a buffer and a byte offset into it.\<close>

record kvec =
  iov_base :: "buf \<times> nat"
  iov_len :: u64

text \<open>The fields of \<open>struct nvme_command\<close> that PINoF.c reads.\<close>

record nvme_command =
  opcode :: u8
  fctype :: u8
  command_id :: u16
  sgl_length :: u32
  sgl_type :: u8

record nvme_tcp_hdr =
  hdr_type :: u8
  hdr_flags :: u8
  hdr_hlen :: u8
  hdr_pdo :: u8
  hdr_plen :: u32

record nvme_tcp_rsp_pdu =
  rsp_hdr :: nvme_tcp_hdr
  cqe_result :: u64
  cqe_sq_head :: u16
  cqe_sq_id :: u16
  cqe_command_id :: u16
  cqe_status :: u16

record nvme_tcp_data_pdu =
  data_hdr :: nvme_tcp_hdr
  data_command_id :: u16
  data_ttag :: u16
  data_offset :: u32
  data_length :: u32

record nvme_tcp_r2t_pdu =
  r2t_hdr :: nvme_tcp_hdr
  r2t_command_id :: u16
  ttag :: u16
  r2t_offset :: u32
  r2t_length :: u32

text \<open>
  \<open>struct i10_target_cmd\<close>. The embedded \<open>struct nvmet_req\<close> is flattened into the
  fields \<open>req_*\<close> and the completion entry of \<open>rsp_pdu\<close>; the scatterlist \<open>req.sg\<close> is
  the list of its entries' lengths, \<open>sg_data\<close> the bytes stored in its pages since
  \<open>sgl_alloc\<close> returned them (empty for fresh pages), and \<open>cur_sg\<close>
  an index into it (\<open>None\<close> is \<open>NULL\<close>). Each PDU buffer is allocated with room for a
  header digest, kept in \<open>*_hdgst\<close>. \<open>recv_left\<close> is \<open>msg_data_left(&cmd->recv_msg)\<close>,
  and \<open>recv_ddgst\<close> the four bytes of that field in memory.
\<close>

record i10_target_cmd =
  req_cmd :: nvme_command
  req_data_len :: u32
  req_transfer_len :: u32
  req_sg :: "u32 list"
  sg_data :: "u8 list"
  rsp_pdu :: nvme_tcp_rsp_pdu
  rsp_hdgst :: u32
  data_pdu :: nvme_tcp_data_pdu
  data_hdgst :: u32
  r2t_pdu :: nvme_tcp_r2t_pdu
  r2t_hdgst :: u32
  rbytes_done :: u32
  wbytes_done :: u32
  pdu_len :: u32
  pdu_recv :: u32
  sg_idx :: int
  nr_mapped :: int
  recv_left :: u64
  iov :: "kvec list option"
  flags :: u32
  offset :: u32
  cur_sg :: "nat option"
  state :: i10_target_send_state
  exp_ddgst :: u32
  recv_ddgst :: "u8 list"

text \<open>
  \<open>struct i10_target_queue\<close>. The lists are lists of command pointers, head first. A
  caravan's arrays are filled from index 0 and emptied by resetting their counters, so
  each array with its counter is the list of its live entries: \<open>nr_iovs\<close> is the length
  of \<open>caravan_iovs\<close>, and so on. The receive scratch fields \<open>offset\<close>, \<open>left\<close>, \<open>cmd\<close>
  and the queue's \<open>state\<close> carry a prefix, since the command has fields of the same
  names.
\<close>

record i10_target_queue =
  cpu :: int
  nvme_sq_qid :: u16
  nvme_sq_ctrl :: bool
  cmds :: "i10_target_cmd list"
  nr_cmds :: nat
  free_list :: "cmd_ref list"
  resp_list :: "cmd_ref list"
  resp_send_list :: "cmd_ref list"
  send_list_len :: int
  snd_cmd :: "cmd_ref option"
  caravan_iovs :: "kvec list"
  caravan_len :: u64
  caravan_cmds :: "cmd_ref list"
  send_now :: bool
  caravan_mapped :: "buf list"
  caravan2_iovs :: "kvec list"
  caravan2_len :: u64
  caravan2_cmds :: "cmd_ref list"
  send_now2 :: bool
  caravan2_mapped :: "buf list"
  rcv_offset :: int
  rcv_left :: int
  rcv_state :: i10_target_recv_state
  rcv_cmd :: "cmd_ref option"
  pdu :: "u8 list"
  hdr_digest :: bool
  data_digest :: bool
  q_state :: i10_target_queue_state
  idx :: int
  connect :: i10_target_cmd
  inline_data_size :: int

abbreviation nr_iovs :: "i10_target_queue \<Rightarrow> nat" where
  "nr_iovs q \<equiv> length (caravan_iovs q)"

abbreviation nr_caravan_cmds :: "i10_target_queue \<Rightarrow> nat" where
  "nr_caravan_cmds q \<equiv> length (caravan_cmds q)"

abbreviation nr_caravan_mapped :: "i10_target_queue \<Rightarrow> nat" where
  "nr_caravan_mapped q \<equiv> length (caravan_mapped q)"

abbreviation nr_iovs2 :: "i10_target_queue \<Rightarrow> nat" where
  "nr_iovs2 q \<equiv> length (caravan2_iovs q)"

abbreviation nr_caravan2_cmds :: "i10_target_queue \<Rightarrow> nat" where
  "nr_caravan2_cmds q \<equiv> length (caravan2_cmds q)"

abbreviation nr_caravan2_mapped :: "i10_target_queue \<Rightarrow> nat" where
  "nr_caravan2_mapped q \<equiv> length (caravan2_mapped q)"

section \<open>The kernel and the peer\<close>

text \<open>
  Everything outside PINoF.c is the world: the socket, the NVMe command executor, the
  allocator and the CRC32C transform. The world is scripted: each call of a socket send
  function takes the next entry of \<open>tx_script\<close>, each receive call the next entry of
  \<open>rx_script\<close> and its bytes from \<open>rx_stream\<close>; an exhausted script answers \<open>-EAGAIN\<close>.
  Each allocation takes the next entry of \<open>alloc_script\<close> and succeeds when the script
  is exhausted; \<open>nvmet_req_init\<close> and \<open>nvmet_req_execute\<close> take the next entries of
  \<open>req_script\<close> and \<open>exec_script\<close>.
  The calls that leave PINoF.c are appended to \<open>trace\<close> in program order.
\<close>

datatype tx_ev = Tx_accept nat | Tx_err nat

datatype rx_ev = Rx_upto nat | Rx_err nat

datatype event =
  Sendpage "buf \<times> nat" int int int
  | Sendmsg "kvec list" u64 int int
  | Sock_shutdown
  | Ctrl_fatal_error
  | Req_execute cmd_ref
  | Req_complete cmd_ref u16
  | Req_uninit cmd_ref
  | Queue_work int
  | Kfree_iov cmd_ref
  | Sgl_free cmd_ref
  | Kmap buf
  | Kunmap buf
  | Set_nospace
  | Flush_scheduled_work

text \<open>
  The answers of the NVMe command executor. \<open>nvmet_req_init\<close> parses the command and
  either accepts it, with the data length the command asks for, or completes it with an
  error status. \<open>nvmet_req_execute\<close> leaves the request pending, or completes it before
  it returns; for a fabrics connect it first attaches the controller and the queue id to
  the submission queue and calls \<open>i10_target_install_queue\<close>.
\<close>

datatype req_init_result = Req_ok u32 | Req_fail u16

datatype exec_effect = Exec_pending | Exec_complete u16 | Exec_connect u16 u16

record world =
  tx_script :: "tx_ev list"
  rx_script :: "rx_ev list"
  rx_stream :: "u8 list"
  wspace :: int
  crc32c :: "u8 list \<Rightarrow> u32"
  connect_tag :: u16
  alloc_script :: "bool list"
  req_script :: "req_init_result list"
  exec_script :: "exec_effect list"
  trace :: "event list"

definition emit :: "event \<Rightarrow> world \<Rightarrow> world" where
  "emit e w = w\<lparr>trace := trace w @ [e]\<rparr>"

text \<open>
  The answer of the socket to a request to send \<open>n\<close> bytes: it accepts at most the
  scripted count, or fails with the scripted errno.
\<close>

definition sock_send :: "world \<Rightarrow> int \<Rightarrow> int \<times> world" where
  "sock_send w n =
     (case tx_script w of
        [] \<Rightarrow> (- EAGAIN, w)
      | Tx_err e # rest \<Rightarrow> (- int e, w\<lparr>tx_script := rest\<rparr>)
      | Tx_accept k # rest \<Rightarrow> (max 0 (min (int k) n), w\<lparr>tx_script := rest\<rparr>))"

definition kernel_sendpage :: "world \<Rightarrow> buf \<times> nat \<Rightarrow> int \<Rightarrow> int \<Rightarrow> int \<times> world" where
  "kernel_sendpage w base sz flgs =
     (let (ret, w1) = sock_send w sz
      in (ret, emit (Sendpage base sz flgs ret) w1))"

definition kernel_sendmsg :: "world \<Rightarrow> kvec list \<Rightarrow> u64 \<Rightarrow> int \<Rightarrow> int \<times> world" where
  "kernel_sendmsg w iovs len flgs =
     (let (ret, w1) = sock_send w (uint len)
      in (ret, emit (Sendmsg iovs len flgs ret) w1))"

text \<open>
  The answer of the socket to a request to receive \<open>n\<close> bytes: at most the scripted
  count, and at most what the peer has sent, from the head of the stream.
\<close>

definition sock_recv :: "world \<Rightarrow> int \<Rightarrow> int \<times> u8 list \<times> world" where
  "sock_recv w n =
     (case rx_script w of
        [] \<Rightarrow> (- EAGAIN, [], w)
      | Rx_err e # rest \<Rightarrow> (- int e, [], w\<lparr>rx_script := rest\<rparr>)
      | Rx_upto k # rest \<Rightarrow>
          (let m = min (min k (nat n)) (length (rx_stream w))
           in (int m, take m (rx_stream w),
               w\<lparr>rx_script := rest, rx_stream := drop m (rx_stream w)\<rparr>)))"

section \<open>Commands and queues\<close>

definition the_cmd :: "i10_target_queue \<Rightarrow> cmd_ref \<Rightarrow> i10_target_cmd" where
  "the_cmd q c = (case c of Connect \<Rightarrow> connect q | Slot n \<Rightarrow> cmds q ! n)"

definition upd_cmd ::
  "i10_target_queue \<Rightarrow> cmd_ref \<Rightarrow> (i10_target_cmd \<Rightarrow> i10_target_cmd) \<Rightarrow> i10_target_queue" where
  "upd_cmd q c f =
     (case c of
        Connect \<Rightarrow> q\<lparr>connect := f (connect q)\<rparr>
      | Slot n \<Rightarrow> q\<lparr>cmds := (cmds q)[n := f (cmds q ! n)]\<rparr>)"

text \<open>A command pointer is valid when it is \<open>&queue->connect\<close> or points into the array.\<close>

definition valid_ref :: "i10_target_queue \<Rightarrow> cmd_ref \<Rightarrow> bool" where
  "valid_ref q c = (case c of Connect \<Rightarrow> True | Slot n \<Rightarrow> n < length (cmds q))"

text \<open>
  \<open>cmd - queue->cmds\<close>, truncated to the \<open>u16\<close> the function returns. For a slot of
  the array it is the slot's index. For the embedded \<open>connect\<close> command the difference
  depends on where the queue and the array were allocated: the world's \<open>connect_tag\<close>.
\<close>

definition i10_target_cmd_tag :: "world \<Rightarrow> cmd_ref \<Rightarrow> u16" where
  "i10_target_cmd_tag w c = (case c of Slot n \<Rightarrow> of_nat n | Connect \<Rightarrow> connect_tag w)"

text \<open>\<open>nvme_is_write\<close> of \<open>linux/nvme.h\<close>: bit 0 of the opcode, or of the fabrics type.\<close>

definition nvme_is_write :: "nvme_command \<Rightarrow> bool" where
  "nvme_is_write c =
     (if opcode c = nvme_fabrics_command then fctype c AND 1 \<noteq> 0 else opcode c AND 1 \<noteq> 0)"

definition i10_target_has_data_in :: "i10_target_cmd \<Rightarrow> bool" where
  "i10_target_has_data_in cmd =
     (nvme_is_write (req_cmd cmd) \<and> rbytes_done cmd < req_transfer_len cmd)"

definition i10_target_need_data_in :: "i10_target_cmd \<Rightarrow> bool" where
  "i10_target_need_data_in cmd =
     (i10_target_has_data_in cmd \<and> cqe_status (rsp_pdu cmd) = 0)"

definition i10_target_need_data_out :: "i10_target_cmd \<Rightarrow> bool" where
  "i10_target_need_data_out cmd =
     (if nvme_is_write (req_cmd cmd) then False
      else 0 < req_transfer_len cmd \<and> cqe_status (rsp_pdu cmd) = 0)"

definition i10_target_has_inline_data :: "i10_target_cmd \<Rightarrow> bool" where
  "i10_target_has_inline_data cmd =
     (nvme_is_write (req_cmd cmd) \<and> pdu_len cmd \<noteq> 0 \<and> rbytes_done cmd = 0)"

definition i10_target_get_cmd :: "i10_target_queue \<Rightarrow> cmd_ref option \<times> i10_target_queue" where
  "i10_target_get_cmd q =
     (case free_list q of
        [] \<Rightarrow> (None, q)
      | c # rest \<Rightarrow>
          (Some c,
           upd_cmd (q\<lparr>free_list := rest\<rparr>) c
             (\<lambda>x. x\<lparr>rbytes_done := 0, wbytes_done := 0, pdu_len := 0, pdu_recv := 0,
                    iov := None, flags := 0\<rparr>)))"

text \<open>
  \<open>i10_target_put_cmd\<close>: \<open>list_add_tail(&cmd->entry, &queue->free_list)\<close>, except for
  the \<open>connect\<close> command. The lists are modelled by the sequence of their entries, which
  is what \<open>list_add_tail\<close> yields only for a command whose \<open>entry\<close> is not linked: one
  that is neither on \<open>free_list\<close> nor on \<open>resp_send_list\<close> (the two lists that are
  threaded through \<open>cmd->entry\<close>). Adding a linked entry corrupts the lists in C; what
  is proved of the free list below is proved for unlinked commands.
\<close>

definition entry_unlinked :: "i10_target_queue \<Rightarrow> cmd_ref \<Rightarrow> bool" where
  "entry_unlinked q c = (c \<notin> set (free_list q) \<and> c \<notin> set (resp_send_list q))"

definition i10_target_put_cmd :: "i10_target_queue \<Rightarrow> cmd_ref \<Rightarrow> i10_target_queue" where
  "i10_target_put_cmd q c =
     (if c = Connect then q else q\<lparr>free_list := free_list q @ [c]\<rparr>)"

definition i10_target_hdgst_len :: "i10_target_queue \<Rightarrow> nat" where
  "i10_target_hdgst_len q = (if hdr_digest q then NVME_TCP_DIGEST_LENGTH else 0)"

definition i10_target_ddgst_len :: "i10_target_queue \<Rightarrow> nat" where
  "i10_target_ddgst_len q = (if data_digest q then NVME_TCP_DIGEST_LENGTH else 0)"

section \<open>Framing codec: the PDUs the target sends\<close>

definition le_bytes :: "nat \<Rightarrow> 'a::len word \<Rightarrow> u8 list" where
  "le_bytes n x = map (\<lambda>i. ucast (drop_bit (8 * i) x)) [0..<n]"

definition hdr_bytes :: "nvme_tcp_hdr \<Rightarrow> u8 list" where
  "hdr_bytes h = [hdr_type h, hdr_flags h, hdr_hlen h, hdr_pdo h] @ le_bytes 4 (hdr_plen h)"

definition rsp_pdu_bytes :: "nvme_tcp_rsp_pdu \<Rightarrow> u8 list" where
  "rsp_pdu_bytes p =
     hdr_bytes (rsp_hdr p) @ le_bytes 8 (cqe_result p) @ le_bytes 2 (cqe_sq_head p) @
     le_bytes 2 (cqe_sq_id p) @ le_bytes 2 (cqe_command_id p) @ le_bytes 2 (cqe_status p)"

definition data_pdu_bytes :: "nvme_tcp_data_pdu \<Rightarrow> u8 list" where
  "data_pdu_bytes p =
     hdr_bytes (data_hdr p) @ le_bytes 2 (data_command_id p) @ le_bytes 2 (data_ttag p) @
     le_bytes 4 (data_offset p) @ le_bytes 4 (data_length p) @ replicate 4 0"

definition r2t_pdu_bytes :: "nvme_tcp_r2t_pdu \<Rightarrow> u8 list" where
  "r2t_pdu_bytes p =
     hdr_bytes (r2t_hdr p) @ le_bytes 2 (r2t_command_id p) @ le_bytes 2 (ttag p) @
     le_bytes 4 (r2t_offset p) @ le_bytes 4 (r2t_length p) @ replicate 4 0"

text \<open>
  \<open>i10_target_ddgst\<close>: the digest of the first \<open>transfer_len\<close> bytes of the request's
  scatterlist, stored in \<open>exp_ddgst\<close>.
\<close>

definition i10_target_ddgst :: "world \<Rightarrow> i10_target_cmd \<Rightarrow> i10_target_cmd" where
  "i10_target_ddgst w cmd =
     cmd\<lparr>exp_ddgst := crc32c w (take (unat (req_transfer_len cmd)) (sg_data cmd))\<rparr>"

definition i10_target_setup_c2h_data_pdu ::
  "i10_target_queue \<Rightarrow> world \<Rightarrow> i10_target_cmd \<Rightarrow> i10_target_cmd" where
  "i10_target_setup_c2h_data_pdu q w cmd0 =
     (let hdgst = i10_target_hdgst_len q;
          ddgst = i10_target_ddgst_len q;
          cmd = cmd0\<lparr>offset := 0, state := I10_TARGET_SEND_DATA_PDU\<rparr>;
          hlen = of_nat sizeof_data_pdu :: u8;
          h = \<lparr>hdr_type = nvme_tcp_c2h_data, hdr_flags = NVME_TCP_F_DATA_LAST,
               hdr_hlen = hlen, hdr_pdo = hlen + of_nat hdgst,
               hdr_plen = ucast hlen + of_nat hdgst + req_transfer_len cmd + of_nat ddgst\<rparr>;
          p = \<lparr>data_hdr = h, data_command_id = cqe_command_id (rsp_pdu cmd),
               data_ttag = data_ttag (data_pdu cmd),
               data_offset = wbytes_done cmd, data_length = req_transfer_len cmd\<rparr>;
          cmd1 = cmd\<lparr>data_pdu := p\<rparr>;
          cmd2 = (if data_digest q
                  then i10_target_ddgst w
                         (cmd1\<lparr>data_pdu := p\<lparr>data_hdr := h\<lparr>hdr_flags := hdr_flags h OR NVME_TCP_F_DDGST\<rparr>\<rparr>\<rparr>)
                  else cmd1)
      in if hdr_digest q
         then (let p2 = data_pdu cmd2;
                   p3 = p2\<lparr>data_hdr := (data_hdr p2)\<lparr>hdr_flags := hdr_flags (data_hdr p2) OR NVME_TCP_F_HDGST\<rparr>\<rparr>
               in cmd2\<lparr>data_pdu := p3, data_hdgst := crc32c w (data_pdu_bytes p3)\<rparr>)
         else cmd2)"

definition i10_target_setup_r2t_pdu ::
  "i10_target_queue \<Rightarrow> world \<Rightarrow> cmd_ref \<Rightarrow> i10_target_cmd \<Rightarrow> i10_target_cmd" where
  "i10_target_setup_r2t_pdu q w c cmd0 =
     (let hdgst = i10_target_hdgst_len q;
          cmd = cmd0\<lparr>offset := 0, state := I10_TARGET_SEND_R2T\<rparr>;
          hlen = of_nat sizeof_r2t_pdu :: u8;
          h = \<lparr>hdr_type = nvme_tcp_r2t, hdr_flags = 0, hdr_hlen = hlen, hdr_pdo = 0,
               hdr_plen = ucast hlen + of_nat hdgst\<rparr>;
          p = \<lparr>r2t_hdr = h, r2t_command_id = command_id (req_cmd cmd),
               ttag = i10_target_cmd_tag w c,
               r2t_offset = rbytes_done cmd,
               r2t_length = req_transfer_len cmd - rbytes_done cmd\<rparr>
      in if hdr_digest q
         then (let p2 = p\<lparr>r2t_hdr := h\<lparr>hdr_flags := hdr_flags h OR NVME_TCP_F_HDGST\<rparr>\<rparr>
               in cmd\<lparr>r2t_pdu := p2, r2t_hdgst := crc32c w (r2t_pdu_bytes p2)\<rparr>)
         else cmd\<lparr>r2t_pdu := p\<rparr>)"

definition i10_target_setup_response_pdu ::
  "i10_target_queue \<Rightarrow> world \<Rightarrow> i10_target_cmd \<Rightarrow> i10_target_cmd" where
  "i10_target_setup_response_pdu q w cmd0 =
     (let hdgst = i10_target_hdgst_len q;
          cmd = cmd0\<lparr>offset := 0, state := I10_TARGET_SEND_RESPONSE\<rparr>;
          hlen = of_nat sizeof_rsp_pdu :: u8;
          h = \<lparr>hdr_type = nvme_tcp_rsp, hdr_flags = 0, hdr_hlen = hlen, hdr_pdo = 0,
               hdr_plen = ucast hlen + of_nat hdgst\<rparr>;
          p = (rsp_pdu cmd)\<lparr>rsp_hdr := h\<rparr>
      in if hdr_digest q
         then (let p2 = p\<lparr>rsp_hdr := h\<lparr>hdr_flags := hdr_flags h OR NVME_TCP_F_HDGST\<rparr>\<rparr>
               in cmd\<lparr>rsp_pdu := p2, rsp_hdgst := crc32c w (rsp_pdu_bytes p2)\<rparr>)
         else cmd\<lparr>rsp_pdu := p\<rparr>)"

section \<open>Send state machine\<close>

text \<open>
  \<open>i10_target_process_resp_list\<close>: the lock-free list is walked from its newest entry,
  and each entry is added at the head of \<open>resp_send_list\<close>.
\<close>

definition i10_target_process_resp_list :: "i10_target_queue \<Rightarrow> i10_target_queue" where
  "i10_target_process_resp_list q =
     q\<lparr>resp_list := [],
       resp_send_list := rev (resp_list q) @ resp_send_list q,
       send_list_len := send_list_len q + int (length (resp_list q))\<rparr>"

definition i10_target_is_admin_queue :: "i10_target_queue \<Rightarrow> bool" where
  "i10_target_is_admin_queue q = (nvme_sq_qid q = 0)"

definition i10_target_is_caravan_full :: "i10_target_queue \<Rightarrow> bool" where
  "i10_target_is_caravan_full q =
     (I10_CARAVAN_CAPACITY \<le> caravan_len q \<or>
      I10_TARGET_SEND_BUDGET * 3 \<le> nr_iovs q \<or>
      I10_TARGET_SEND_BUDGET \<le> nr_caravan_cmds q \<or>
      I10_TARGET_SEND_BUDGET \<le> nr_caravan_mapped q)"

definition i10_target_is_caravan2_full :: "i10_target_queue \<Rightarrow> bool" where
  "i10_target_is_caravan2_full q =
     (I10_CARAVAN2_CAPACITY \<le> caravan2_len q \<or>
      I10_TARGET_SEND_BUDGET * 3 \<le> nr_iovs2 q \<or>
      I10_TARGET_SEND_BUDGET \<le> nr_caravan2_cmds q \<or>
      I10_TARGET_SEND_BUDGET \<le> nr_caravan2_mapped q)"

text \<open>The setup that \<open>i10_target_fetch_cmd\<close> chooses for the command it took.\<close>

definition setup_fetched ::
  "i10_target_queue \<Rightarrow> world \<Rightarrow> cmd_ref \<Rightarrow> i10_target_cmd \<Rightarrow> i10_target_cmd" where
  "setup_fetched q w c cmd =
     (if i10_target_need_data_out cmd then i10_target_setup_c2h_data_pdu q w cmd
      else if i10_target_need_data_in cmd
      then i10_target_setup_r2t_pdu q w c cmd
      else i10_target_setup_response_pdu q w cmd)"

definition i10_target_fetch_cmd ::
  "i10_target_queue \<Rightarrow> world \<Rightarrow> cmd_ref option \<times> i10_target_queue" where
  "i10_target_fetch_cmd q0 w =
     (let q = (case resp_send_list q0 of
                 [] \<Rightarrow> i10_target_process_resp_list q0
               | c # rest \<Rightarrow> q0)
      in case resp_send_list q of
           [] \<Rightarrow> (None, q\<lparr>snd_cmd := None\<rparr>)
         | c # rest \<Rightarrow>
             (let q1 = q\<lparr>snd_cmd := Some c, resp_send_list := rest,
                         send_list_len := send_list_len q - 1\<rparr>
              in (Some c, upd_cmd q1 c (setup_fetched q1 w c))))"

definition i10_target_queue_response ::
  "cmd_ref \<Rightarrow> i10_target_queue \<Rightarrow> world \<Rightarrow> i10_target_queue \<times> world" where
  "i10_target_queue_response c q w =
     (q\<lparr>resp_list := c # resp_list q\<rparr>, emit (Queue_work (cpu q)) w)"

definition i10_target_try_send_data_pdu ::
  "cmd_ref \<Rightarrow> i10_target_queue \<Rightarrow> world \<Rightarrow> int \<times> i10_target_queue \<times> world" where
  "i10_target_try_send_data_pdu c q w =
     (let cmd = the_cmd q c;
          hdgst = i10_target_hdgst_len q;
          left = sint (of_nat sizeof_data_pdu - offset cmd + of_nat hdgst :: u32)
      in if \<not> i10_target_is_admin_queue q \<and> i10_target_is_caravan_full q
         then (1, q\<lparr>send_now := True\<rparr>, w)
         else
           (let (ret, q1, w1) =
                  (if \<not> i10_target_is_admin_queue q
                   then (left,
                         q\<lparr>caravan_iovs := caravan_iovs q @
                              [\<lparr>iov_base = (Buf_data_pdu c, unat (offset cmd) * sizeof_data_pdu),
                                iov_len = of_int left\<rparr>],
                            caravan_len := caravan_len q + of_int left\<rparr>,
                         w)
                   else (let (r, w') = kernel_sendpage w (Buf_data_pdu c, unat (offset cmd)) left
                                         (MSG_DONTWAIT OR MSG_MORE)
                         in (r, q, w')))
            in if ret \<le> 0 then (ret, q1, w1)
               else
                 (let q2 = upd_cmd q1 c (\<lambda>x. x\<lparr>offset := offset x + of_int ret\<rparr>)
                  in if left - ret \<noteq> 0 then (- EAGAIN, q2, w1)
                     else (1, upd_cmd q2 c (\<lambda>x. x\<lparr>state := I10_TARGET_SEND_DATA, offset := 0\<rparr>),
                           w1))))"

text \<open>
  What becomes of a run in which the C code dereferences a pointer that is \<open>NULL\<close> or
  out of its array, or reads or writes past the end of a receive buffer: it stops with a
  fault, and nothing is said about what follows.
\<close>

datatype fault =
  Bad_cmd_ref cmd_ref
  | Bad_cmds_index nat
  | Bad_sg_entry cmd_ref nat
  | Null_iov cmd_ref
  | Null_rcv_cmd
  | Buffer_overrun

definition sg_next :: "u32 list \<Rightarrow> nat \<Rightarrow> nat option" where
  "sg_next sg i = (if Suc i < length sg then Some (Suc i) else None)"

text \<open>
  One round of the \<open>while (cmd->cur_sg)\<close> loop of \<open>i10_target_try_send_data\<close>: \<open>Inl\<close> is
  the function's return (the code after the loop included), \<open>Inr\<close> the state with which
  the loop goes round again.
\<close>

definition try_send_data_step ::
  "cmd_ref \<Rightarrow> i10_target_queue \<Rightarrow> world \<Rightarrow>
   (fault + int \<times> i10_target_queue \<times> world) + (i10_target_queue \<times> world)" where
  "try_send_data_step c q w =
     (let cmd = the_cmd q c
      in if \<not> valid_ref q c then Inl (Inl (Bad_cmd_ref c))
         else case cur_sg cmd of
           None \<Rightarrow>
             Inl (Inr (1,
                  (if data_digest q
                   then upd_cmd q c (\<lambda>x. x\<lparr>state := I10_TARGET_SEND_DDGST, offset := 0\<rparr>)
                   else upd_cmd q c (i10_target_setup_response_pdu q w)),
                  w))
         | Some i \<Rightarrow>
             if length (req_sg cmd) \<le> i then Inl (Inl (Bad_sg_entry c i))
             else
               (let left = req_sg cmd ! i - offset cmd
                in if \<not> i10_target_is_admin_queue q \<and> i10_target_is_caravan_full q
                   then Inl (Inr (1, q\<lparr>send_now := True\<rparr>, w))
                   else
                     (let (ret, q1, w1) =
                            (if \<not> i10_target_is_admin_queue q
                             then (sint left,
                                   q\<lparr>caravan_iovs := caravan_iovs q @
                                        [\<lparr>iov_base = (Buf_sg_page c i, unat (offset cmd)),
                                          iov_len = ucast left\<rparr>],
                                      caravan_mapped := caravan_mapped q @ [Buf_sg_page c i],
                                      caravan_len := caravan_len q + ucast left\<rparr>,
                                   emit (Kmap (Buf_sg_page c i)) w)
                             else (let (r, w') = kernel_sendpage w
                                                   (Buf_sg_page c i, unat (offset cmd)) (uint left)
                                                   (MSG_DONTWAIT OR MSG_MORE)
                                   in (r, q, w')))
                      in if ret \<le> 0 then Inl (Inr (ret, q1, w1))
                         else
                           (let q2 = upd_cmd q1 c
                                       (\<lambda>x. x\<lparr>offset := offset x + of_int ret,
                                              wbytes_done := wbytes_done x + of_int ret\<rparr>)
                            in if offset (the_cmd q2 c) = req_sg cmd ! i
                               then Inr (upd_cmd q2 c
                                           (\<lambda>x. x\<lparr>cur_sg := sg_next (req_sg cmd) i, offset := 0\<rparr>),
                                         w1)
                               else Inr (q2, w1)))))"

text \<open>
  The loop ends: a round that goes on either took an entry of the send script or
  finished an entry of the scatterlist.
\<close>

definition send_data_measure :: "cmd_ref \<Rightarrow> i10_target_queue \<Rightarrow> world \<Rightarrow> nat" where
  "send_data_measure c q w =
     length (tx_script w) +
     (case cur_sg (the_cmd q c) of None \<Rightarrow> 0 | Some i \<Rightarrow> length (req_sg (the_cmd q c)) - i)"

lemma sock_send_pos:
  "sock_send w n = (ret, w') \<Longrightarrow> 0 < ret \<Longrightarrow> length (tx_script w') < length (tx_script w)"
  by (auto simp: sock_send_def EAGAIN_def split: list.splits tx_ev.splits)

lemma kernel_sendpage_pos:
  "kernel_sendpage w b n f = (ret, w') \<Longrightarrow> 0 < ret \<Longrightarrow>
   length (tx_script w') < length (tx_script w)"
  by (auto simp: kernel_sendpage_def emit_def split: prod.splits dest: sock_send_pos)

lemma try_send_data_step_decreases:
  assumes "try_send_data_step c q w = Inr (q', w')"
  shows "send_data_measure c q' w' < send_data_measure c q w"
proof (cases c)
  case Connect
  with assms show ?thesis
    unfolding try_send_data_step_def send_data_measure_def Let_def
    by (auto simp: the_cmd_def upd_cmd_def valid_ref_def sg_next_def emit_def
        split: if_splits option.splits prod.splits dest: kernel_sendpage_pos)
next
  case (Slot n)
  with assms show ?thesis
    unfolding try_send_data_step_def send_data_measure_def Let_def
    by (auto simp: the_cmd_def upd_cmd_def valid_ref_def sg_next_def emit_def
        split: if_splits option.splits prod.splits dest: kernel_sendpage_pos)
qed

function i10_target_try_send_data ::
  "cmd_ref \<Rightarrow> i10_target_queue \<Rightarrow> world \<Rightarrow> fault + int \<times> i10_target_queue \<times> world" where
  "i10_target_try_send_data c q w =
     (case try_send_data_step c q w of
        Inl r \<Rightarrow> r
      | Inr (q', w') \<Rightarrow> i10_target_try_send_data c q' w')"
  by pat_completeness auto
termination
  by (relation "measure (\<lambda>(c, q, w). send_data_measure c q w)")
     (auto dest: try_send_data_step_decreases)

declare i10_target_try_send_data.simps [simp del]

text \<open>
  \<open>i10_target_try_send_response\<close>. On a queue that is not the admin queue the response
  goes to the first caravan when \<open>nvme_is_write\<close> is false, to the second when it is
  true.
\<close>

definition i10_target_try_send_response ::
  "cmd_ref \<Rightarrow> bool \<Rightarrow> i10_target_queue \<Rightarrow> world \<Rightarrow> int \<times> i10_target_queue \<times> world" where
  "i10_target_try_send_response c last_in_batch q w =
     (let cmd = the_cmd q c;
          hdgst = i10_target_hdgst_len q;
          left = sint (of_nat sizeof_rsp_pdu - offset cmd + of_nat hdgst :: u32);
          flgs = (if \<not> last_in_batch \<and> send_list_len q \<noteq> 0
                  then MSG_DONTWAIT OR MSG_MORE else MSG_DONTWAIT OR MSG_EOR);
          seg = \<lparr>iov_base = (Buf_rsp_pdu c, unat (offset cmd) * sizeof_rsp_pdu),
                 iov_len = of_int left\<rparr>
      in if \<not> i10_target_is_admin_queue q
         then
           (if \<not> nvme_is_write (req_cmd cmd)
            then
              (if i10_target_is_caravan_full q then (1, q\<lparr>send_now := True\<rparr>, w)
               else (1,
                     upd_cmd
                       (q\<lparr>caravan_iovs := caravan_iovs q @ [seg],
                          caravan_cmds := caravan_cmds q @ [c],
                          caravan_len := caravan_len q + of_int left,
                          snd_cmd := None\<rparr>)
                       c (\<lambda>x. x\<lparr>offset := offset x + of_int left\<rparr>),
                     w))
            else
              (if i10_target_is_caravan2_full q then (1, q\<lparr>send_now2 := True\<rparr>, w)
               else (1,
                     upd_cmd
                       (q\<lparr>caravan2_iovs := caravan2_iovs q @ [seg],
                          caravan2_cmds := caravan2_cmds q @ [c],
                          caravan2_len := caravan2_len q + of_int left,
                          snd_cmd := None\<rparr>)
                       c (\<lambda>x. x\<lparr>offset := offset x + of_int left\<rparr>),
                     w)))
         else
           (let (ret, w1) = kernel_sendpage w (Buf_rsp_pdu c, unat (offset cmd)) left flgs
            in if ret \<le> 0 then (ret, q, w1)
               else
                 (let q1 = upd_cmd q c (\<lambda>x. x\<lparr>offset := offset x + of_int ret\<rparr>)
                  in if left - ret \<noteq> 0 then (- EAGAIN, q1, w1)
                     else (1, i10_target_put_cmd (q1\<lparr>snd_cmd := None\<rparr>) c,
                           emit (Sgl_free c) (emit (Kfree_iov c) w1)))))"

definition i10_target_try_send_r2t ::
  "cmd_ref \<Rightarrow> bool \<Rightarrow> i10_target_queue \<Rightarrow> world \<Rightarrow> int \<times> i10_target_queue \<times> world" where
  "i10_target_try_send_r2t c last_in_batch q w =
     (let cmd = the_cmd q c;
          hdgst = i10_target_hdgst_len q;
          left = sint (of_nat sizeof_r2t_pdu - offset cmd + of_nat hdgst :: u32);
          flgs = (if \<not> last_in_batch \<and> send_list_len q \<noteq> 0
                  then MSG_DONTWAIT OR MSG_MORE else MSG_DONTWAIT OR MSG_EOR)
      in if \<not> i10_target_is_admin_queue q \<and> i10_target_is_caravan2_full q
         then (1, q\<lparr>send_now2 := True\<rparr>, w)
         else
           (let (ret, q1, w1) =
                  (if \<not> i10_target_is_admin_queue q
                   then (left,
                         q\<lparr>caravan2_iovs := caravan2_iovs q @
                              [\<lparr>iov_base = (Buf_r2t_pdu c, unat (offset cmd) * sizeof_r2t_pdu),
                                iov_len = of_int left\<rparr>],
                            caravan2_len := caravan2_len q + of_int left\<rparr>,
                         w)
                   else (let (r, w') = kernel_sendpage w (Buf_r2t_pdu c, unat (offset cmd)) left
                                         flgs
                         in (r, q, w')))
            in if ret \<le> 0 then (ret, q1, w1)
               else
                 (let q2 = upd_cmd q1 c (\<lambda>x. x\<lparr>offset := offset x + of_int ret\<rparr>)
                  in if left - ret \<noteq> 0 then (- EAGAIN, q2, w1)
                     else (1, q2\<lparr>snd_cmd := None\<rparr>, w1))))"

text \<open>
  \<open>i10_target_try_send_ddgst\<close>: the digest goes to the socket with \<open>kernel_sendmsg\<close>, on
  every queue, and the response PDU is set up after any positive return.
\<close>

definition i10_target_try_send_ddgst ::
  "cmd_ref \<Rightarrow> i10_target_queue \<Rightarrow> world \<Rightarrow> int \<times> i10_target_queue \<times> world" where
  "i10_target_try_send_ddgst c q w =
     (let cmd = the_cmd q c;
          seg = \<lparr>iov_base = (Buf_exp_ddgst c, unat (offset cmd) * 4),
                 iov_len = ucast (of_nat NVME_TCP_DIGEST_LENGTH - offset cmd :: u32)\<rparr>;
          (ret, w1) = kernel_sendmsg w [seg] (iov_len seg) MSG_DONTWAIT
      in if ret \<le> 0 then (ret, q, w1)
         else (1,
               upd_cmd q c
                 (\<lambda>x. i10_target_setup_response_pdu q w1 (x\<lparr>offset := offset x + of_int ret\<rparr>)),
               w1))"

text \<open>
  One \<open>if (cmd->state == ...)\<close> block of \<open>i10_target_try_send_one\<close>. The first component
  says that an earlier block jumped to \<open>done_send\<close>.
\<close>

definition send_stage ::
  "i10_target_send_state \<Rightarrow>
   (cmd_ref \<Rightarrow> i10_target_queue \<Rightarrow> world \<Rightarrow> fault + int \<times> i10_target_queue \<times> world) \<Rightarrow>
   cmd_ref \<Rightarrow> bool \<times> int \<times> i10_target_queue \<times> world \<Rightarrow>
   fault + bool \<times> int \<times> i10_target_queue \<times> world" where
  "send_stage st f c s =
     (case s of (stop, ret, q, w) \<Rightarrow>
        if stop then Inr s
        else if state (the_cmd q c) = st
        then (case f c q w of
                Inl e \<Rightarrow> Inl e
              | Inr (ret', q', w') \<Rightarrow> Inr (ret' \<le> 0, ret', q', w'))
        else Inr s)"

definition bind_fault :: "fault + 'a \<Rightarrow> ('a \<Rightarrow> fault + 'b) \<Rightarrow> fault + 'b" where
  "bind_fault m f = (case m of Inl e \<Rightarrow> Inl e | Inr x \<Rightarrow> f x)"

definition i10_target_try_send_one ::
  "i10_target_queue \<Rightarrow> world \<Rightarrow> bool \<Rightarrow> fault + int \<times> i10_target_queue \<times> world" where
  "i10_target_try_send_one q0 w last_in_batch =
     (let (co, q) = (if snd_cmd q0 = None \<or> q_state q0 = I10_TARGET_Q_DISCONNECTING
                     then i10_target_fetch_cmd q0 w else (snd_cmd q0, q0))
      in case co of
           None \<Rightarrow> Inr (0, q, w)
         | Some c \<Rightarrow>
             if \<not> valid_ref q c then Inl (Bad_cmd_ref c)
             else
               bind_fault
                 (send_stage I10_TARGET_SEND_DATA_PDU
                    (\<lambda>c q w. Inr (i10_target_try_send_data_pdu c q w)) c (False, 0, q, w))
               (\<lambda>s1. bind_fault (send_stage I10_TARGET_SEND_DATA i10_target_try_send_data c s1)
               (\<lambda>s2. bind_fault
                 (send_stage I10_TARGET_SEND_DDGST
                    (\<lambda>c q w. Inr (i10_target_try_send_ddgst c q w)) c s2)
               (\<lambda>s3. bind_fault
                 (send_stage I10_TARGET_SEND_R2T
                    (\<lambda>c q w. Inr (i10_target_try_send_r2t c last_in_batch q w)) c s3)
               (\<lambda>s4. bind_fault
                 (send_stage I10_TARGET_SEND_RESPONSE
                    (\<lambda>c q w. Inr (i10_target_try_send_response c last_in_batch q w)) c s4)
               (\<lambda>(stop, ret, q5, w5).
                  if ret < 0 then (if ret = - EAGAIN then Inr (0, q5, w5) else Inr (ret, q5, w5))
                  else Inr (1, q5, w5)))))))"

text \<open>\<open>i10_target_sndbuf_nospace\<close>: the length is passed as an \<open>int\<close>.\<close>

definition i10_target_sndbuf_nospace :: "world \<Rightarrow> u64 \<Rightarrow> bool" where
  "i10_target_sndbuf_nospace w len = (wspace w < sint (ucast len :: u32))"

text \<open>
  The two blocks of \<open>i10_target_try_send\<close> that send a caravan. The first component of
  the result says that the block returned 0 for want of space in the send buffer.
\<close>

definition send_caravan :: "i10_target_queue \<Rightarrow> world \<Rightarrow> bool \<times> i10_target_queue \<times> world" where
  "send_caravan q w =
     (if i10_target_sndbuf_nospace w (caravan_len q) then (True, q, emit Set_nospace w)
      else
        (let (i10_ret, w1) = kernel_sendmsg w (caravan_iovs q) (caravan_len q)
                               (MSG_DONTWAIT OR MSG_EOR);
             w2 = fold (\<lambda>c. emit (Sgl_free c) \<circ> emit (Kfree_iov c)) (caravan_cmds q) w1;
             q1 = fold (\<lambda>c q'. i10_target_put_cmd q' c) (caravan_cmds q) q;
             w3 = fold (\<lambda>p. emit (Kunmap p)) (caravan_mapped q) w2
         in (False,
             q1\<lparr>caravan_iovs := [], caravan_cmds := [], caravan_mapped := [],
                caravan_len := 0, send_now := False\<rparr>,
             w3)))"

definition send_caravan2 :: "i10_target_queue \<Rightarrow> world \<Rightarrow> bool \<times> i10_target_queue \<times> world" where
  "send_caravan2 q w =
     (if i10_target_sndbuf_nospace w (caravan2_len q) then (True, q, emit Set_nospace w)
      else
        (let (i10_ret2, w1) = kernel_sendmsg w (caravan2_iovs q) (caravan2_len q)
                                (MSG_DONTWAIT OR MSG_EOR);
             w2 = fold (\<lambda>c. emit (Sgl_free c) \<circ> emit (Kfree_iov c)) (caravan2_cmds q) w1;
             q1 = fold (\<lambda>c q'. i10_target_put_cmd q' c) (caravan2_cmds q) q;
             w3 = fold (\<lambda>p. emit (Kunmap p)) (caravan2_mapped q) w2
         in (False,
             q1\<lparr>caravan2_iovs := [], caravan2_cmds := [], caravan2_mapped := [],
                caravan2_len := 0, send_now2 := False\<rparr>,
             w3)))"

text \<open>
  The \<open>for\<close> loop of \<open>i10_target_try_send\<close>, by the number of rounds left: \<open>i\<close> is
  \<open>budget - 1\<close> in the round that leaves none.
\<close>

fun try_send_loop ::
  "nat \<Rightarrow> int \<Rightarrow> i10_target_queue \<Rightarrow> world \<Rightarrow> int \<Rightarrow>
   fault + int \<times> i10_target_queue \<times> world \<times> int" where
  "try_send_loop 0 ret q w sends = Inr (ret, q, w, sends)"
| "try_send_loop (Suc n) ret0 q w sends =
     (case i10_target_try_send_one q w (n = 0) of
        Inl e \<Rightarrow> Inl e
      | Inr (ret, q1, w1) \<Rightarrow>
          (let (stop1, q2, w2) =
                 (if (send_now q1 \<or> ret \<le> 0 \<or> n = 0) \<and> caravan_len q1 \<noteq> 0
                  then send_caravan q1 w1 else (False, q1, w1))
           in if stop1 then Inr (0, q2, w2, sends)
              else
                (let (stop2, q3, w3) =
                       (if (send_now2 q2 \<or> ret \<le> 0 \<or> n = 0) \<and> caravan2_len q2 \<noteq> 0
                        then send_caravan2 q2 w2 else (False, q2, w2))
                 in if stop2 then Inr (0, q3, w3, sends)
                    else if ret \<le> 0 then Inr (ret, q3, w3, sends)
                    else try_send_loop n ret q3 w3 (sends + 1))))"

definition i10_target_try_send ::
  "i10_target_queue \<Rightarrow> int \<Rightarrow> int \<Rightarrow> world \<Rightarrow>
   fault + int \<times> i10_target_queue \<times> world \<times> int" where
  "i10_target_try_send q budget sends w = try_send_loop (nat budget) 0 q w sends"

section \<open>Command slot pool and queue set-up\<close>

definition pop_alloc :: "world \<Rightarrow> bool \<times> world" where
  "pop_alloc w =
     (case alloc_script w of [] \<Rightarrow> (True, w) | b # rest \<Rightarrow> (b, w\<lparr>alloc_script := rest\<rparr>))"

text \<open>Memory that \<open>kzalloc\<close> or \<open>kcalloc\<close> returned: every field is zero.\<close>

definition zero_hdr :: nvme_tcp_hdr where
  "zero_hdr = \<lparr>hdr_type = 0, hdr_flags = 0, hdr_hlen = 0, hdr_pdo = 0, hdr_plen = 0\<rparr>"

definition zero_cmd :: i10_target_cmd where
  "zero_cmd =
     \<lparr>req_cmd = \<lparr>opcode = 0, fctype = 0, command_id = 0, sgl_length = 0, sgl_type = 0\<rparr>,
      req_data_len = 0, req_transfer_len = 0, req_sg = [], sg_data = [],
      rsp_pdu = \<lparr>rsp_hdr = zero_hdr, cqe_result = 0, cqe_sq_head = 0, cqe_sq_id = 0,
                 cqe_command_id = 0, cqe_status = 0\<rparr>,
      rsp_hdgst = 0,
      data_pdu = \<lparr>data_hdr = zero_hdr, data_command_id = 0, data_ttag = 0, data_offset = 0,
                  data_length = 0\<rparr>,
      data_hdgst = 0,
      r2t_pdu = \<lparr>r2t_hdr = zero_hdr, r2t_command_id = 0, ttag = 0, r2t_offset = 0,
                 r2t_length = 0\<rparr>,
      r2t_hdgst = 0,
      rbytes_done = 0, wbytes_done = 0, pdu_len = 0, pdu_recv = 0, sg_idx = 0, nr_mapped = 0,
      recv_left = 0, iov = None, flags = 0, offset = 0, cur_sg = None,
      state = I10_TARGET_SEND_DATA_PDU, exp_ddgst = 0, recv_ddgst = [0, 0, 0, 0]\<rparr>"

text \<open>
  \<open>i10_target_alloc_cmd\<close>: four buffers are allocated; the command joins the free list
  when all four exist.
\<close>

definition i10_target_alloc_cmd ::
  "i10_target_queue \<Rightarrow> world \<Rightarrow> cmd_ref \<Rightarrow> int \<times> i10_target_queue \<times> world" where
  "i10_target_alloc_cmd q w c =
     (let (ok1, w1) = pop_alloc w
      in if \<not> ok1 then (- ENOMEM, q, w1)
         else
           (let (ok2, w2) = pop_alloc w1
            in if \<not> ok2 then (- ENOMEM, q, w2)
               else
                 (let (ok3, w3) = pop_alloc w2
                  in if \<not> ok3 then (- ENOMEM, q, w3)
                     else
                       (let (ok4, w4) = pop_alloc w3
                        in if \<not> ok4 then (- ENOMEM, q, w4)
                           else (0, q\<lparr>free_list := free_list q @ [c]\<rparr>, w4)))))"

text \<open>
  The loop of \<open>i10_target_alloc_cmds\<close> over the slots \<open>i, ..., i + n - 1\<close> of the new
  array.
\<close>

fun alloc_cmds_loop ::
  "nat \<Rightarrow> nat \<Rightarrow> i10_target_queue \<Rightarrow> world \<Rightarrow> int \<times> i10_target_queue \<times> world" where
  "alloc_cmds_loop 0 i q w = (0, q, w)"
| "alloc_cmds_loop (Suc n) i q w =
     (let (ret, q1, w1) = i10_target_alloc_cmd q w (Slot i)
      in if ret \<noteq> 0 then (ret, q1, w1) else alloc_cmds_loop n (Suc i) q1 w1)"

text \<open>
  \<open>i10_target_alloc_cmds\<close>. \<open>queue->cmds\<close> is assigned only when every slot was set up;
  on a failure the array is freed again.
\<close>

definition i10_target_alloc_cmds ::
  "i10_target_queue \<Rightarrow> world \<Rightarrow> int \<times> i10_target_queue \<times> world" where
  "i10_target_alloc_cmds q w =
     (let (ok, w1) = pop_alloc w
      in if \<not> ok then (- EINVAL, q, w1)
         else
           (let (ret, q1, w2) = alloc_cmds_loop (nr_cmds q) 0 q w1
            in if ret \<noteq> 0 then (ret, q1, w2)
               else (0, q1\<lparr>cmds := replicate (nr_cmds q) zero_cmd\<rparr>, w2)))"

text \<open>\<open>i10_target_install_queue\<close>, for a submission queue of \<open>sq_size\<close> entries.\<close>

definition i10_target_install_queue ::
  "u16 \<Rightarrow> i10_target_queue \<Rightarrow> world \<Rightarrow> u16 \<times> i10_target_queue \<times> world" where
  "i10_target_install_queue sq_size q w =
     (let w1 = (if nvme_sq_qid q = 0 then emit Flush_scheduled_work w else w);
          q1 = q\<lparr>nr_cmds := unat sq_size * 2\<rparr>;
          (ret, q2, w2) = i10_target_alloc_cmds q1 w1
      in if ret \<noteq> 0 then (NVME_SC_INTERNAL, q2, w2) else (0, q2, w2))"

definition i10_target_prepare_receive_pdu :: "i10_target_queue \<Rightarrow> i10_target_queue" where
  "i10_target_prepare_receive_pdu q =
     q\<lparr>rcv_offset := 0, rcv_left := int sizeof_hdr, rcv_cmd := None,
       rcv_state := I10_TARGET_RECV_PDU\<rparr>"

text \<open>
  The queue that \<open>i10_target_alloc_queue\<close> builds when none of its allocations fails:
  zeroed memory, empty lists and caravans, the \<open>connect\<close> command on the free list, the
  receive state prepared for a PDU header.
\<close>

definition i10_target_alloc_queue :: "int \<Rightarrow> int \<Rightarrow> int \<Rightarrow> i10_target_queue" where
  "i10_target_alloc_queue queue_idx queue_cpu port_inline_data_size =
     i10_target_prepare_receive_pdu
       \<lparr>cpu = queue_cpu, nvme_sq_qid = 0, nvme_sq_ctrl = False, cmds = [], nr_cmds = 0,
        free_list = [Connect], resp_list = [], resp_send_list = [], send_list_len = 0,
        snd_cmd = None,
        caravan_iovs = [], caravan_len = 0, caravan_cmds = [], send_now = False,
        caravan_mapped = [],
        caravan2_iovs = [], caravan2_len = 0, caravan2_cmds = [], send_now2 = False,
        caravan2_mapped = [],
        rcv_offset = 0, rcv_left = 0, rcv_state = I10_TARGET_RECV_PDU, rcv_cmd = None,
        pdu = replicate sizeof_pdu_union 0, hdr_digest = False, data_digest = False,
        q_state = I10_TARGET_Q_CONNECTING, idx = queue_idx, connect = zero_cmd,
        inline_data_size = port_inline_data_size\<rparr>"

section \<open>Receive state machine\<close>

definition i10_target_fatal_error :: "i10_target_queue \<Rightarrow> world \<Rightarrow> i10_target_queue \<times> world" where
  "i10_target_fatal_error q w =
     (q\<lparr>rcv_state := I10_TARGET_RECV_ERR\<rparr>,
      if nvme_sq_ctrl q then emit Ctrl_fatal_error w else emit Sock_shutdown w)"

subsection \<open>The scratch PDU\<close>

text \<open>
  \<open>queue->pdu\<close> is a union of the inbound PDU shapes: a buffer of bytes, read at the
  offsets of the wire format. The common header has \<open>type\<close> at byte 0, \<open>flags\<close> at 1,
  \<open>hlen\<close> at 2, \<open>pdo\<close> at 3 and \<open>plen\<close> at 4.
\<close>

definition le16_at :: "u8 list \<Rightarrow> nat \<Rightarrow> u16" where
  "le16_at p i = ucast (p ! i) OR push_bit 8 (ucast (p ! (i + 1)))"

definition le32_at :: "u8 list \<Rightarrow> nat \<Rightarrow> u32" where
  "le32_at p i =
     ucast (p ! i) OR push_bit 8 (ucast (p ! (i + 1))) OR push_bit 16 (ucast (p ! (i + 2))) OR
     push_bit 24 (ucast (p ! (i + 3)))"

definition pdu_hdr_type :: "u8 list \<Rightarrow> u8" where "pdu_hdr_type p = p ! 0"
definition pdu_hdr_flags :: "u8 list \<Rightarrow> u8" where "pdu_hdr_flags p = p ! 1"
definition pdu_hdr_hlen :: "u8 list \<Rightarrow> u8" where "pdu_hdr_hlen p = p ! 2"
definition pdu_hdr_plen :: "u8 list \<Rightarrow> u32" where "pdu_hdr_plen p = le32_at p 4"

text \<open>Writing \<open>bs\<close> at byte \<open>i\<close> of a buffer; \<open>None\<close> when it does not fit.\<close>

definition store :: "u8 list \<Rightarrow> nat \<Rightarrow> u8 list \<Rightarrow> u8 list option" where
  "store p i bs =
     (if i + length bs \<le> length p then Some (take i p @ bs @ drop (i + length bs) p)
      else None)"

text \<open>
  \<open>i10_target_hdgst(hash, pdu, len)\<close>: the digest of the first \<open>len\<close> bytes of the buffer
  is written at \<open>pdu + len\<close>.
\<close>

definition i10_target_hdgst :: "world \<Rightarrow> u8 list \<Rightarrow> nat \<Rightarrow> u8 list option" where
  "i10_target_hdgst w p len = store p len (le_bytes 4 (crc32c w (take len p)))"

text \<open>
  \<open>i10_target_verify_hdgst\<close>: the four bytes at \<open>pdu + hdr->hlen\<close> are read before and
  after the digest is computed, and compared.
\<close>

definition i10_target_verify_hdgst ::
  "world \<Rightarrow> u8 list \<Rightarrow> nat \<Rightarrow> fault + int \<times> u8 list" where
  "i10_target_verify_hdgst w p len =
     (if pdu_hdr_flags p AND NVME_TCP_F_HDGST = 0 then Inr (- EPROTO, p)
      else if length p < unat (pdu_hdr_hlen p) + 4 then Inl Buffer_overrun
      else
        (let recv_digest = take 4 (drop (unat (pdu_hdr_hlen p)) p)
         in case i10_target_hdgst w p len of
              None \<Rightarrow> Inl Buffer_overrun
            | Some p' \<Rightarrow>
                (let exp_digest = take 4 (drop (unat (pdu_hdr_hlen p)) p')
                 in if recv_digest \<noteq> exp_digest then Inr (- EPROTO, p') else Inr (0, p'))))"

definition i10_target_check_ddgst :: "i10_target_queue \<Rightarrow> u8 list \<Rightarrow> int" where
  "i10_target_check_ddgst q p =
     (let digest_len = of_nat (i10_target_hdgst_len q) :: u32;
          len = pdu_hdr_plen p - ucast (pdu_hdr_hlen p) -
                (if pdu_hdr_flags p AND NVME_TCP_F_HDGST \<noteq> 0 then digest_len else 0)
      in if len \<noteq> 0 \<and> pdu_hdr_flags p AND NVME_TCP_F_DDGST = 0 then - EPROTO else 0)"

text \<open>\<open>nvme_tcp_pdu_sizes\<close> has seven entries, three of them set.\<close>

definition i10_target_pdu_size :: "u8 \<Rightarrow> u8" where
  "i10_target_pdu_size t =
     (if t = nvme_tcp_icreq then of_nat sizeof_icreq_pdu
      else if t = nvme_tcp_cmd then of_nat sizeof_cmd_pdu
      else if t = nvme_tcp_h2c_data then of_nat sizeof_data_pdu
      else 0)"

definition i10_target_pdu_valid :: "u8 \<Rightarrow> bool" where
  "i10_target_pdu_valid t = (t = nvme_tcp_icreq \<or> t = nvme_tcp_cmd \<or> t = nvme_tcp_h2c_data)"

subsection \<open>The executor\<close>

text \<open>
  \<open>nvmet_req_complete\<close> stores the status in the completion entry and hands the request
  to \<open>queue_response\<close>.
\<close>

definition nvmet_req_complete ::
  "cmd_ref \<Rightarrow> u16 \<Rightarrow> i10_target_queue \<Rightarrow> world \<Rightarrow> i10_target_queue \<times> world" where
  "nvmet_req_complete c status q w =
     i10_target_queue_response c
       (upd_cmd q c
          (\<lambda>x. x\<lparr>rsp_pdu := (rsp_pdu x)\<lparr>cqe_status := push_bit 1 status,
                                          cqe_command_id := command_id (req_cmd x)\<rparr>\<rparr>))
       (emit (Req_complete c status) w)"

text \<open>
  \<open>nvmet_req_init\<close> resets the request and answers from the script; without an entry it
  accepts the command with the length of its SGL descriptor as data length.
\<close>

definition nvmet_req_init ::
  "cmd_ref \<Rightarrow> i10_target_queue \<Rightarrow> world \<Rightarrow> bool \<times> i10_target_queue \<times> world" where
  "nvmet_req_init c q w =
     (let q1 = upd_cmd q c
                 (\<lambda>x. x\<lparr>req_transfer_len := 0, req_sg := [],
                        rsp_pdu := (rsp_pdu x)\<lparr>cqe_status := 0\<rparr>\<rparr>);
          (r, w1) = (case req_script w of
                       [] \<Rightarrow> (Req_ok (sgl_length (req_cmd (the_cmd q c))), w)
                     | r # rest \<Rightarrow> (r, w\<lparr>req_script := rest\<rparr>))
      in case r of
           Req_ok dl \<Rightarrow> (True, upd_cmd q1 c (\<lambda>x. x\<lparr>req_data_len := dl\<rparr>), w1)
         | Req_fail status \<Rightarrow>
             (let (q2, w2) = nvmet_req_complete c status q1 w1 in (False, q2, w2)))"

definition nvmet_req_execute ::
  "cmd_ref \<Rightarrow> i10_target_queue \<Rightarrow> world \<Rightarrow> i10_target_queue \<times> world" where
  "nvmet_req_execute c q w0 =
     (let w = emit (Req_execute c) w0
      in case exec_script w of
           [] \<Rightarrow> (q, w)
         | Exec_pending # rest \<Rightarrow> (q, w\<lparr>exec_script := rest\<rparr>)
         | Exec_complete status # rest \<Rightarrow> nvmet_req_complete c status q (w\<lparr>exec_script := rest\<rparr>)
         | Exec_connect qid sq_size # rest \<Rightarrow>
             (let (status, q1, w1) =
                    i10_target_install_queue sq_size
                      (q\<lparr>nvme_sq_qid := qid, nvme_sq_ctrl := True\<rparr>) (w\<lparr>exec_script := rest\<rparr>)
              in nvmet_req_complete c status q1 w1))"

subsection \<open>Payload mapping\<close>

text \<open>
  \<open>sgl_alloc(len)\<close> of \<open>lib/scatterlist.c\<close>: one entry per page, the last one with what
  is left of the length.
\<close>

definition sgl_alloc :: "u32 \<Rightarrow> u32 list" where
  "sgl_alloc len =
     replicate (unat (len div PAGE_SIZE)) PAGE_SIZE @
     (if len mod PAGE_SIZE = 0 then [] else [len mod PAGE_SIZE])"

text \<open>
  \<open>DIV_ROUND_UP(n, PAGE_SIZE)\<close> for a \<open>u32\<close>: \<open>PAGE_SIZE\<close> is an \<open>unsigned long\<close>, so the
  sum does not wrap.
\<close>

definition DIV_ROUND_UP_PAGE :: "u32 \<Rightarrow> nat" where
  "DIV_ROUND_UP_PAGE n = (unat n + unat PAGE_SIZE - 1) div unat PAGE_SIZE"

definition i10_target_map_data ::
  "cmd_ref \<Rightarrow> i10_target_queue \<Rightarrow> world \<Rightarrow> u16 \<times> i10_target_queue \<times> world" where
  "i10_target_map_data c q w =
     (let cmd = the_cmd q c;
          len = sgl_length (req_cmd cmd)
      in if req_data_len cmd = 0 then (0, q, w)
         else if sgl_type (req_cmd cmd) = (push_bit 4 NVME_SGL_FMT_DATA_DESC OR NVME_SGL_FMT_OFFSET)
                 \<and> \<not> nvme_is_write (req_cmd cmd)
         then (NVME_SC_INVALID_FIELD OR NVME_SC_DNR, q, w)
         else if sgl_type (req_cmd cmd) = (push_bit 4 NVME_SGL_FMT_DATA_DESC OR NVME_SGL_FMT_OFFSET)
                 \<and> of_int (inline_data_size q) < len
         then (NVME_SC_SGL_INVALID_OFFSET OR NVME_SC_DNR, q, w)
         else
           (let q1 = (if sgl_type (req_cmd cmd) =
                         (push_bit 4 NVME_SGL_FMT_DATA_DESC OR NVME_SGL_FMT_OFFSET)
                      then upd_cmd q c (\<lambda>x. x\<lparr>pdu_len := len\<rparr>) else q);
                q2 = upd_cmd q1 c (\<lambda>x. x\<lparr>req_transfer_len := req_transfer_len x + len\<rparr>);
                (ok, w1) = pop_alloc w
            in if \<not> ok then (NVME_SC_INTERNAL, q2, w1)
               else
                 (let q3 = upd_cmd q2 c
                             (\<lambda>x. x\<lparr>req_sg := sgl_alloc len, sg_data := [], cur_sg := Some 0\<rparr>)
                  in if i10_target_has_data_in (the_cmd q3 c)
                     then
                       (let (ok2, w2) = pop_alloc w1
                        in if \<not> ok2 then (NVME_SC_INTERNAL, q3, emit (Sgl_free c) w2)
                           else (0,
                                 upd_cmd q3 c
                                   (\<lambda>x. x\<lparr>iov := Some (replicate (length (req_sg x))
                                                         \<lparr>iov_base = (Buf_uninit, 0), iov_len = 0\<rparr>)\<rparr>),
                                 w2))
                     else (0, q3, w1))))"

text \<open>
  The \<open>while (length)\<close> loop of \<open>i10_target_map_pdu_iovec\<close>, over the entries of the
  scatterlist from \<open>sg\<close> on: \<open>j\<close> is the index of the entry at hand. \<open>sg_offset\<close> is not
  reset after the first entry, and \<open>sg->length - sg_offset\<close> is a subtraction of \<open>u32\<close>.
  When the list is exhausted and \<open>length\<close> is not, the code reads \<open>sg->length\<close> through
  the \<open>NULL\<close> that \<open>sg_next\<close> returned (or past the array). The segments go to
  \<open>cmd->iov\<close>, which is \<open>NULL\<close> for a command that \<open>i10_target_map_data\<close> found without
  data to take in.
\<close>

fun map_iovec_loop ::
  "cmd_ref \<Rightarrow> u32 list \<Rightarrow> nat \<Rightarrow> u32 \<Rightarrow> u32 \<Rightarrow> fault + kvec list" where
  "map_iovec_loop c [] j len sg_offset = (if len = 0 then Inr [] else Inl (Bad_sg_entry c j))"
| "map_iovec_loop c (e # es) j len sg_offset =
     (if len = 0 then Inr []
      else
        (let iov_len = min len (e - sg_offset)
         in case map_iovec_loop c es (Suc j) (len - iov_len) sg_offset of
              Inl f \<Rightarrow> Inl f
            | Inr rest \<Rightarrow>
                Inr (\<lparr>iov_base = (Buf_sg_page c j, unat sg_offset), iov_len = ucast iov_len\<rparr> #
                     rest)))"

definition i10_target_map_pdu_iovec ::
  "cmd_ref \<Rightarrow> i10_target_queue \<Rightarrow> world \<Rightarrow> fault + i10_target_queue \<times> world" where
  "i10_target_map_pdu_iovec c q w =
     (let cmd = the_cmd q c;
          len = pdu_len cmd;
          off = rbytes_done cmd;
          idx = DIV_ROUND_UP_PAGE off;
          sg_offset = off mod PAGE_SIZE
      in case map_iovec_loop c (drop idx (req_sg cmd)) idx len sg_offset of
           Inl f \<Rightarrow> Inl f
         | Inr segs \<Rightarrow>
             (case iov cmd of
                None \<Rightarrow>
                  if segs \<noteq> [] then Inl (Null_iov c)
                  else Inr (upd_cmd q c
                              (\<lambda>x. x\<lparr>nr_mapped := int (DIV_ROUND_UP_PAGE len),
                                     sg_idx := int idx, recv_left := ucast len\<rparr>),
                            w)
              | Some a \<Rightarrow>
                  Inr (upd_cmd q c
                         (\<lambda>x. x\<lparr>nr_mapped := int (DIV_ROUND_UP_PAGE len), sg_idx := int idx,
                                iov := Some (segs @ drop (length segs) a),
                                recv_left := ucast len\<rparr>),
                       fold (\<lambda>s. emit (Kmap (fst (iov_base s)))) segs w)))"

text \<open>
  \<open>i10_target_unmap_pdu_iovec\<close> reads the page of the entries
  \<open>sg_idx, ..., sg_idx + nr_mapped - 1\<close> of the scatterlist.
\<close>

definition i10_target_unmap_pdu_iovec ::
  "cmd_ref \<Rightarrow> i10_target_queue \<Rightarrow> world \<Rightarrow> fault + world" where
  "i10_target_unmap_pdu_iovec c q w =
     (let cmd = the_cmd q c;
          first = nat (sg_idx cmd);
          n = nat (nr_mapped cmd)
      in if n \<noteq> 0 \<and> length (req_sg cmd) < first + n
         then Inl (Bad_sg_entry c (length (req_sg cmd)))
         else Inr (fold (\<lambda>i. emit (Kunmap (Buf_sg_page c i))) [first..<first + n] w))"

subsection \<open>PDU handlers\<close>

text \<open>
  The fields of the connection request in the scratch PDU: \<open>pfv\<close> at byte 8, \<open>hpda\<close> at
  10, \<open>digest\<close> at 11, \<open>maxr2t\<close> at 12. The response is built in the same bytes.
\<close>

definition icresp_bytes :: "bool \<Rightarrow> bool \<Rightarrow> u8 list" where
  "icresp_bytes hdg ddg =
     [nvme_tcp_icresp, 0, of_nat sizeof_icresp_pdu, 0] @ le_bytes 4 (of_nat sizeof_icresp_pdu :: u32) @
     le_bytes 2 NVME_TCP_PFV_1_0 @
     [0, (if hdg then NVME_TCP_HDR_DIGEST_ENABLE else 0) OR
         (if ddg then NVME_TCP_DATA_DIGEST_ENABLE else 0)] @
     le_bytes 4 (0xffff :: u32) @ replicate (sizeof_icresp_pdu - 16) 0"

text \<open>\<open>i10_target_alloc_crypto\<close>: the transform and the two hash requests.\<close>

definition i10_target_alloc_crypto :: "world \<Rightarrow> int \<times> world" where
  "i10_target_alloc_crypto w =
     (let (ok1, w1) = pop_alloc w
      in if \<not> ok1 then (- ENOMEM, w1)
         else
           (let (ok2, w2) = pop_alloc w1
            in if \<not> ok2 then (- ENOMEM, w2)
               else (let (ok3, w3) = pop_alloc w2 in if \<not> ok3 then (- ENOMEM, w3) else (0, w3))))"

definition i10_target_handle_icreq ::
  "i10_target_queue \<Rightarrow> world \<Rightarrow> int \<times> i10_target_queue \<times> world" where
  "i10_target_handle_icreq q0 w0 =
     (let (q, w) = (if pdu_hdr_plen (pdu q0) \<noteq> of_nat sizeof_icreq_pdu
                    then i10_target_fatal_error q0 w0 else (q0, w0));
          p = pdu q
      in if le16_at p 8 \<noteq> NVME_TCP_PFV_1_0 then (- EPROTO, q, w)
         else if p ! 10 \<noteq> 0 then (- EPROTO, q, w)
         else if le32_at p 12 \<noteq> 0 then (- EPROTO, q, w)
         else
           (let hdg = (p ! 11 AND NVME_TCP_HDR_DIGEST_ENABLE \<noteq> 0);
                ddg = (p ! 11 AND NVME_TCP_DATA_DIGEST_ENABLE \<noteq> 0);
                q1 = q\<lparr>hdr_digest := hdg, data_digest := ddg\<rparr>;
                (ret, w1) = (if hdg \<or> ddg then i10_target_alloc_crypto w else (0, w))
            in if ret \<noteq> 0 then (ret, q1, w1)
               else
                 (let q2 = q1\<lparr>pdu := icresp_bytes hdg ddg @ drop sizeof_icresp_pdu p\<rparr>;
                      (ret2, w2) = kernel_sendmsg w1
                                     [\<lparr>iov_base = (Buf_icresp, 0),
                                       iov_len = of_nat sizeof_icresp_pdu\<rparr>]
                                     (of_nat sizeof_icresp_pdu) 0
                  in if ret2 < 0 then (ret2, q2, w2)
                     else (0,
                           i10_target_prepare_receive_pdu (q2\<lparr>q_state := I10_TARGET_Q_LIVE\<rparr>),
                           w2))))"

text \<open>
  \<open>i10_target_handle_h2c_data_pdu\<close>. The data PDU has \<open>ttag\<close> at byte 10, \<open>data_offset\<close>
  at 12 and \<open>data_length\<close> at 16. \<open>&queue->cmds[data->ttag]\<close> is computed from the wire's
  \<open>ttag\<close> as it is; the first read through it is that of \<open>cmd->rbytes_done\<close>.
\<close>

definition i10_target_handle_h2c_data_pdu ::
  "i10_target_queue \<Rightarrow> world \<Rightarrow> fault + int \<times> i10_target_queue \<times> world" where
  "i10_target_handle_h2c_data_pdu q w =
     (let p = pdu q;
          t = unat (le16_at p 10)
      in if length (cmds q) \<le> t then Inl (Bad_cmds_index t)
         else
           (let c = Slot t;
                cmd = the_cmd q c
            in if le32_at p 12 \<noteq> rbytes_done cmd
               then (let (q1, w1) = nvmet_req_complete c (NVME_SC_INVALID_FIELD OR NVME_SC_DNR) q w
                     in Inr (- EPROTO, q1, w1))
               else
                 (let q1 = upd_cmd q c (\<lambda>x. x\<lparr>pdu_len := le32_at p 16, pdu_recv := 0\<rparr>)
                  in case i10_target_map_pdu_iovec c q1 w of
                       Inl f \<Rightarrow> Inl f
                     | Inr (q2, w2) \<Rightarrow>
                         Inr (0, q2\<lparr>rcv_cmd := Some c, rcv_state := I10_TARGET_RECV_DATA\<rparr>, w2))))"

definition i10_target_handle_req_failure ::
  "cmd_ref \<Rightarrow> i10_target_queue \<Rightarrow> world \<Rightarrow> fault + i10_target_queue \<times> world" where
  "i10_target_handle_req_failure c q0 w =
     (let q = upd_cmd q0 c (\<lambda>x. x\<lparr>req_data_len := sgl_length (req_cmd x)\<rparr>);
          cmd = the_cmd q c
      in if \<not> nvme_is_write (req_cmd cmd) then Inr (i10_target_prepare_receive_pdu q, w)
         else if of_int (inline_data_size q) < req_data_len cmd
         then Inr (i10_target_prepare_receive_pdu q, w)
         else
           (let (ret, q1, w1) = i10_target_map_data c q w
            in if ret \<noteq> 0 then Inr (i10_target_fatal_error q1 w1)
               else
                 (case i10_target_map_pdu_iovec c (q1\<lparr>rcv_state := I10_TARGET_RECV_DATA\<rparr>) w1 of
                    Inl f \<Rightarrow> Inl f
                  | Inr (q2, w2) \<Rightarrow>
                      Inr (upd_cmd q2 c (\<lambda>x. x\<lparr>flags := flags x OR I10_TARGET_F_INIT_FAILED\<rparr>),
                           w2))))"

text \<open>
  The command capsule has the NVMe command at byte 8 of the PDU: \<open>opcode\<close> at 8, the
  fabrics command type at 12, \<open>command_id\<close> at 10, and the SGL descriptor's \<open>length\<close> at
  40 and \<open>type\<close> at 47.
\<close>

definition pdu_nvme_cmd :: "u8 list \<Rightarrow> nvme_command" where
  "pdu_nvme_cmd p =
     \<lparr>opcode = p ! 8, fctype = p ! 12, command_id = le16_at p 10, sgl_length = le32_at p 40,
      sgl_type = p ! 47\<rparr>"

definition i10_target_done_recv_pdu ::
  "i10_target_queue \<Rightarrow> world \<Rightarrow> fault + int \<times> i10_target_queue \<times> world" where
  "i10_target_done_recv_pdu q w =
     (if q_state q = I10_TARGET_Q_CONNECTING
      then
        (if pdu_hdr_type (pdu q) \<noteq> nvme_tcp_icreq
         then (let (q1, w1) = i10_target_fatal_error q w in Inr (- EPROTO, q1, w1))
         else Inr (i10_target_handle_icreq q w))
      else if pdu_hdr_type (pdu q) = nvme_tcp_h2c_data then i10_target_handle_h2c_data_pdu q w
      else
        (case i10_target_get_cmd q of
           (None, q1) \<Rightarrow>
             (let (q2, w2) = i10_target_fatal_error (q1\<lparr>rcv_cmd := None\<rparr>) w
              in Inr (- ENOMEM, q2, w2))
         | (Some c, q1) \<Rightarrow>
             if \<not> valid_ref q1 c then Inl (Bad_cmd_ref c)
             else
               (let q2 = upd_cmd (q1\<lparr>rcv_cmd := Some c\<rparr>) c
                           (\<lambda>x. x\<lparr>req_cmd := pdu_nvme_cmd (pdu q)\<rparr>);
                    (ok, q3, w3) = nvmet_req_init c q2 w
                in if \<not> ok
                   then (case i10_target_handle_req_failure c q3 w3 of
                           Inl f \<Rightarrow> Inl f
                         | Inr (q4, w4) \<Rightarrow> Inr (- EAGAIN, q4, w4))
                   else
                     (let (ret, q4, w4) = i10_target_map_data c q3 w3
                      in if ret \<noteq> 0
                         then
                           (let (q5, w5) =
                                  (if i10_target_has_inline_data (the_cmd q4 c)
                                   then i10_target_fatal_error q4 w4
                                   else nvmet_req_complete c ret q4 w4)
                            in Inr (- EAGAIN, i10_target_prepare_receive_pdu q5, w5))
                         else if i10_target_need_data_in (the_cmd q4 c)
                         then
                           (if i10_target_has_inline_data (the_cmd q4 c)
                            then (case i10_target_map_pdu_iovec c
                                         (q4\<lparr>rcv_state := I10_TARGET_RECV_DATA\<rparr>) w4 of
                                    Inl f \<Rightarrow> Inl f
                                  | Inr (q5, w5) \<Rightarrow> Inr (0, q5, w5))
                            else (let (q5, w5) = i10_target_queue_response c q4 w4
                                  in Inr (0, i10_target_prepare_receive_pdu q5, w5)))
                         else
                           (let (q5, w5) = nvmet_req_execute c q4 w4
                            in Inr (0, i10_target_prepare_receive_pdu q5, w5))))))"

subsection \<open>The receive states\<close>

text \<open>
  One pass of \<open>i10_target_try_recv_pdu\<close> from the label \<open>recv\<close>: \<open>Inl\<close> is the function's
  return, \<open>Inr\<close> the state with which it jumps back to \<open>recv\<close> after the common header.
\<close>

definition try_recv_pdu_step ::
  "i10_target_queue \<Rightarrow> world \<Rightarrow>
   (fault + int \<times> i10_target_queue \<times> world) + (i10_target_queue \<times> world)" where
  "try_recv_pdu_step q w =
     (let (len, bytes, w1) = sock_recv w (rcv_left q)
      in if len < 0 then Inl (Inr (len, q, w1))
         else case store (pdu q) (nat (rcv_offset q)) bytes of
           None \<Rightarrow> Inl (Inl Buffer_overrun)
         | Some p \<Rightarrow>
             (let q1 = q\<lparr>pdu := p, rcv_offset := rcv_offset q + len, rcv_left := rcv_left q - len\<rparr>
              in if rcv_left q1 \<noteq> 0 then Inl (Inr (- EAGAIN, q1, w1))
                 else if rcv_offset q1 = int sizeof_hdr
                 then
                   (if \<not> i10_target_pdu_valid (pdu_hdr_type p)
                    then (let (q2, w2) = i10_target_fatal_error q1 w1 in Inl (Inr (- EIO, q2, w2)))
                    else if pdu_hdr_hlen p \<noteq> i10_target_pdu_size (pdu_hdr_type p)
                    then Inl (Inr (- EIO, q1, w1))
                    else Inr (q1\<lparr>rcv_left := uint (pdu_hdr_hlen p) - rcv_offset q1 +
                                               int (i10_target_hdgst_len q1)\<rparr>,
                              w1))
                 else
                   (case (if hdr_digest q1
                          then i10_target_verify_hdgst w1 p (nat (rcv_offset q1))
                          else Inr (0, p)) of
                      Inl f \<Rightarrow> Inl (Inl f)
                    | Inr (v, p') \<Rightarrow>
                        (let q2 = q1\<lparr>pdu := p'\<rparr>
                         in if v \<noteq> 0
                            then (let (q3, w3) = i10_target_fatal_error q2 w1
                                  in Inl (Inr (- EPROTO, q3, w3)))
                            else if data_digest q2 \<and> i10_target_check_ddgst q2 p' \<noteq> 0
                            then (let (q3, w3) = i10_target_fatal_error q2 w1
                                  in Inl (Inr (- EPROTO, q3, w3)))
                            else Inl (i10_target_done_recv_pdu q2 w1)))))"

lemma sock_recv_pops:
  "sock_recv w n = (len, bytes, w') \<Longrightarrow> rx_script w \<noteq> [] \<Longrightarrow>
   length (rx_script w') < length (rx_script w)"
  by (auto simp: sock_recv_def Let_def split: list.splits rx_ev.splits)

lemma sock_recv_pos:
  "sock_recv w n = (len, bytes, w') \<Longrightarrow> 0 < len \<Longrightarrow>
   length (rx_script w') < length (rx_script w)"
  by (auto simp: sock_recv_def EAGAIN_def Let_def split: list.splits rx_ev.splits)

lemma sock_recv_empty:
  "rx_script w = [] \<Longrightarrow> sock_recv w n = (- EAGAIN, [], w)"
  by (simp add: sock_recv_def)

lemma try_recv_pdu_step_decreases:
  assumes "try_recv_pdu_step q w = Inr (q', w')"
  shows "length (rx_script w') < length (rx_script w)"
proof (cases "rx_script w = []")
  case True
  with assms show ?thesis
    by (simp add: try_recv_pdu_step_def sock_recv_empty EAGAIN_def)
next
  case False
  obtain len bytes w1 where r: "sock_recv w (rcv_left q) = (len, bytes, w1)"
    by (cases "sock_recv w (rcv_left q)")
  from r False have "length (rx_script w1) < length (rx_script w)"
    by (rule sock_recv_pops)
  moreover from assms r have "w' = w1"
    by (auto simp: try_recv_pdu_step_def Let_def i10_target_fatal_error_def
        split: if_splits option.splits prod.splits sum.splits)
  ultimately show ?thesis by simp
qed

function i10_target_try_recv_pdu ::
  "i10_target_queue \<Rightarrow> world \<Rightarrow> fault + int \<times> i10_target_queue \<times> world" where
  "i10_target_try_recv_pdu q w =
     (case try_recv_pdu_step q w of
        Inl r \<Rightarrow> r
      | Inr (q', w') \<Rightarrow> i10_target_try_recv_pdu q' w')"
  by pat_completeness auto
termination
  by (relation "measure (\<lambda>(q, w). length (rx_script w))")
     (auto dest: try_recv_pdu_step_decreases)

declare i10_target_try_recv_pdu.simps [simp del]

definition i10_target_prep_recv_ddgst :: "cmd_ref \<Rightarrow> i10_target_queue \<Rightarrow> world \<Rightarrow> i10_target_queue" where
  "i10_target_prep_recv_ddgst c q w =
     (upd_cmd q c (i10_target_ddgst w))
       \<lparr>rcv_offset := 0, rcv_left := int NVME_TCP_DIGEST_LENGTH,
        rcv_state := I10_TARGET_RECV_DDGST\<rparr>"

text \<open>
  The \<open>while (msg_data_left(&cmd->recv_msg))\<close> loop of \<open>i10_target_try_recv_data\<close>. The
  first component of the result is the value the function returns from inside the loop,
  or \<open>None\<close> when the loop has run to its end. The bytes received go to the pages of the
  request, which \<open>i10_target_map_data\<close> allocated afresh for it.
\<close>

function recv_data_loop ::
  "cmd_ref \<Rightarrow> i10_target_queue \<Rightarrow> world \<Rightarrow> int option \<times> i10_target_queue \<times> world" where
  "recv_data_loop c q w =
     (if recv_left (the_cmd q c) = 0 then (None, q, w)
      else
        (let (ret, bytes, w1) = sock_recv w (uint (recv_left (the_cmd q c)))
         in if ret \<le> 0 then (Some ret, q, w1)
            else recv_data_loop c
                   (upd_cmd q c
                      (\<lambda>x. x\<lparr>pdu_recv := pdu_recv x + of_int ret,
                             rbytes_done := rbytes_done x + of_int ret,
                             recv_left := recv_left x - of_int ret,
                             sg_data := sg_data x @ bytes\<rparr>))
                   w1))"
  by pat_completeness auto
termination
  by (relation "measure (\<lambda>(c, q, w). length (rx_script w))")
     (auto dest: sock_recv_pos [OF sym])

declare recv_data_loop.simps [simp del]

definition i10_target_try_recv_data ::
  "i10_target_queue \<Rightarrow> world \<Rightarrow> fault + int \<times> i10_target_queue \<times> world" where
  "i10_target_try_recv_data q w =
     (case rcv_cmd q of
        None \<Rightarrow> Inl Null_rcv_cmd
      | Some c \<Rightarrow>
          if \<not> valid_ref q c then Inl (Bad_cmd_ref c)
          else
            (case recv_data_loop c q w of
               (Some ret, q1, w1) \<Rightarrow> Inr (ret, q1, w1)
             | (None, q1, w1) \<Rightarrow>
                 (case i10_target_unmap_pdu_iovec c q1 w1 of
                    Inl f \<Rightarrow> Inl f
                  | Inr w2 \<Rightarrow>
                      if flags (the_cmd q1 c) AND I10_TARGET_F_INIT_FAILED = 0 \<and>
                         rbytes_done (the_cmd q1 c) = req_transfer_len (the_cmd q1 c)
                      then
                        (if data_digest q1 then Inr (0, i10_target_prep_recv_ddgst c q1 w2, w2)
                         else (let (q2, w3) = nvmet_req_execute c q1 w2
                               in Inr (0, i10_target_prepare_receive_pdu q2, w3)))
                      else Inr (0, i10_target_prepare_receive_pdu q1, w2))))"

text \<open>\<open>i10_target_finish_cmd\<close>.\<close>

definition i10_target_finish_cmd :: "cmd_ref \<Rightarrow> i10_target_queue \<Rightarrow> world \<Rightarrow> fault + world" where
  "i10_target_finish_cmd c q w =
     (case i10_target_unmap_pdu_iovec c q (emit (Req_uninit c) w) of
        Inl f \<Rightarrow> Inl f
      | Inr w1 \<Rightarrow> Inr (emit (Sgl_free c) w1))"

definition i10_target_try_recv_ddgst ::
  "i10_target_queue \<Rightarrow> world \<Rightarrow> fault + int \<times> i10_target_queue \<times> world" where
  "i10_target_try_recv_ddgst q w =
     (case rcv_cmd q of
        None \<Rightarrow> Inl Null_rcv_cmd
      | Some c \<Rightarrow>
          if \<not> valid_ref q c then Inl (Bad_cmd_ref c)
          else
            (let (ret, bytes, w1) = sock_recv w (rcv_left q)
             in if ret < 0 then Inr (ret, q, w1)
                else case store (recv_ddgst (the_cmd q c)) (nat (rcv_offset q)) bytes of
                  None \<Rightarrow> Inl Buffer_overrun
                | Some d \<Rightarrow>
                    (let q1 = (upd_cmd q c (\<lambda>x. x\<lparr>recv_ddgst := d\<rparr>))
                                \<lparr>rcv_offset := rcv_offset q + ret, rcv_left := rcv_left q - ret\<rparr>;
                         cmd = the_cmd q1 c
                     in if rcv_left q1 \<noteq> 0 then Inr (- EAGAIN, q1, w1)
                        else if data_digest q1 \<and> le_bytes 4 (exp_ddgst cmd) \<noteq> recv_ddgst cmd
                        then
                          (case i10_target_finish_cmd c q1 w1 of
                             Inl f \<Rightarrow> Inl f
                           | Inr w2 \<Rightarrow>
                               (let (q2, w3) = i10_target_fatal_error q1 w2
                                in Inr (- EPROTO, i10_target_prepare_receive_pdu q2, w3)))
                        else if flags cmd AND I10_TARGET_F_INIT_FAILED = 0 \<and>
                                rbytes_done cmd = req_transfer_len cmd
                        then (let (q2, w2) = nvmet_req_execute c q1 w1
                              in Inr (0, i10_target_prepare_receive_pdu q2, w2))
                        else Inr (0, i10_target_prepare_receive_pdu q1, w1))))"

text \<open>
  One \<open>if (queue->rcv_state == ...)\<close> block of \<open>i10_target_try_recv_one\<close>. The first
  component says that an earlier block jumped to \<open>done_recv\<close>.
\<close>

definition recv_stage ::
  "i10_target_recv_state \<Rightarrow>
   (i10_target_queue \<Rightarrow> world \<Rightarrow> fault + int \<times> i10_target_queue \<times> world) \<Rightarrow>
   bool \<times> int \<times> i10_target_queue \<times> world \<Rightarrow>
   fault + bool \<times> int \<times> i10_target_queue \<times> world" where
  "recv_stage st f s =
     (case s of (stop, result, q, w) \<Rightarrow>
        if stop then Inr s
        else if rcv_state q = st
        then (case f q w of
                Inl e \<Rightarrow> Inl e
              | Inr (result', q', w') \<Rightarrow> Inr (result' \<noteq> 0, result', q', w'))
        else Inr s)"

definition i10_target_try_recv_one ::
  "i10_target_queue \<Rightarrow> world \<Rightarrow> fault + int \<times> i10_target_queue \<times> world" where
  "i10_target_try_recv_one q w =
     (if rcv_state q = I10_TARGET_RECV_ERR then Inr (0, q, w)
      else
        bind_fault (recv_stage I10_TARGET_RECV_PDU i10_target_try_recv_pdu (False, 0, q, w))
        (\<lambda>s1. bind_fault (recv_stage I10_TARGET_RECV_DATA i10_target_try_recv_data s1)
        (\<lambda>s2. bind_fault (recv_stage I10_TARGET_RECV_DDGST i10_target_try_recv_ddgst s2)
        (\<lambda>(stop, result, q3, w3).
           if result < 0
           then (if result = - EAGAIN then Inr (0, q3, w3) else Inr (result, q3, w3))
           else Inr (1, q3, w3)))))"

fun try_recv_loop ::
  "nat \<Rightarrow> int \<Rightarrow> i10_target_queue \<Rightarrow> world \<Rightarrow> int \<Rightarrow>
   fault + int \<times> i10_target_queue \<times> world \<times> int" where
  "try_recv_loop 0 ret q w recvs = Inr (ret, q, w, recvs)"
| "try_recv_loop (Suc n) ret0 q w recvs =
     (case i10_target_try_recv_one q w of
        Inl e \<Rightarrow> Inl e
      | Inr (ret, q1, w1) \<Rightarrow>
          if ret \<le> 0 then Inr (ret, q1, w1, recvs)
          else try_recv_loop n ret q1 w1 (recvs + 1))"

definition i10_target_try_recv ::
  "i10_target_queue \<Rightarrow> int \<Rightarrow> int \<Rightarrow> world \<Rightarrow>
   fault + int \<times> i10_target_queue \<times> world \<times> int" where
  "i10_target_try_recv q budget recvs w = try_recv_loop (nat budget) 0 q w recvs"

section \<open>Queue scheduler\<close>

text \<open>
  What the two budgeted loops do to the operation count: it never decreases, and a
  positive return means that every round of the budget ran and counted.
\<close>

lemma try_recv_loop_ops:
  "try_recv_loop n r q w s = Inr (ret, q', w', s') \<Longrightarrow>
   s \<le> s' \<and> (0 < ret \<longrightarrow> s' = s + int n \<and> (n = 0 \<longrightarrow> 0 < r))"
proof (induction n arbitrary: r q w s)
  case 0
  then show ?case by simp
next
  case (Suc n)
  then show ?case
    by (fastforce split: sum.splits prod.splits if_splits)
qed

lemma try_send_loop_ops:
  "try_send_loop n r q w s = Inr (ret, q', w', s') \<Longrightarrow>
   s \<le> s' \<and> (0 < ret \<longrightarrow> s' = s + int n \<and> (n = 0 \<longrightarrow> 0 < r))"
proof (induction n arbitrary: r q w s)
  case 0
  then show ?case by simp
next
  case (Suc n)
  then show ?case
    by (fastforce simp: Let_def split: sum.splits prod.splits if_splits)
qed

lemma try_recv_ops:
  "i10_target_try_recv q budget s w = Inr (ret, q', w', s') \<Longrightarrow>
   s \<le> s' \<and> (0 < ret \<longrightarrow> s' = s + budget \<and> 0 < budget)"
  by (auto simp: i10_target_try_recv_def dest!: try_recv_loop_ops)

lemma try_send_ops:
  "i10_target_try_send q budget s w = Inr (ret, q', w', s') \<Longrightarrow>
   s \<le> s' \<and> (0 < ret \<longrightarrow> s' = s + budget \<and> 0 < budget)"
  by (auto simp: i10_target_try_send_def dest!: try_send_loop_ops)

text \<open>The two error branches of \<open>i10_target_io_work\<close>, which return from the function.\<close>

definition io_work_teardown :: "int \<Rightarrow> i10_target_queue \<Rightarrow> world \<Rightarrow> i10_target_queue \<times> world" where
  "io_work_teardown ret q w =
     (if ret = - EPIPE \<or> ret = - ECONNRESET then (q, emit Sock_shutdown w)
      else i10_target_fatal_error q w)"

text \<open>
  How the \<open>do ... while\<close> loop of \<open>i10_target_io_work\<close> is left: through one of the two
  \<open>return\<close>s, or at the loop condition, with the value of \<open>pending\<close>.
\<close>

datatype io_exit = Io_return | Io_loop_end bool

text \<open>
  The loop, from its first statement. The result carries the final \<open>ops\<close> and the number
  of rounds the loop made.
\<close>

function io_work_loop ::
  "i10_target_queue \<Rightarrow> world \<Rightarrow> int \<Rightarrow> nat \<Rightarrow>
   fault + io_exit \<times> i10_target_queue \<times> world \<times> int \<times> nat" where
  "io_work_loop q w ops rounds =
     (case i10_target_try_recv q (int I10_TARGET_RECV_BUDGET) ops w of
        Inl f \<Rightarrow> Inl f
      | Inr (ret, q1, w1, ops1) \<Rightarrow>
          if ret < 0
          then (let (q2, w2) = io_work_teardown ret q1 w1
                in Inr (Io_return, q2, w2, ops1, Suc rounds))
          else
            (case i10_target_try_send q1 (int I10_TARGET_SEND_BUDGET) ops1 w1 of
               Inl f \<Rightarrow> Inl f
             | Inr (ret2, q2, w2, ops2) \<Rightarrow>
                 if ret2 < 0
                 then (let (q3, w3) = io_work_teardown ret2 q2 w2
                       in Inr (Io_return, q3, w3, ops2, Suc rounds))
                 else if (0 < ret \<or> 0 < ret2) \<and> ops2 < I10_TARGET_IO_WORK_BUDGET
                 then io_work_loop q2 w2 ops2 (Suc rounds)
                 else Inr (Io_loop_end (0 < ret \<or> 0 < ret2), q2, w2, ops2, Suc rounds)))"
  by pat_completeness auto
termination
proof (relation "measure (\<lambda>(q, w, ops, rounds). nat (I10_TARGET_IO_WORK_BUDGET - ops))")
  show "wf (measure (\<lambda>(q, w, ops, rounds). nat (I10_TARGET_IO_WORK_BUDGET - ops)))"
    by simp
next
  fix q w ops rounds x2 ret y q1 ya w1 ops1 x2a ret2 yb q2 yc w2 ops2
  assume r: "i10_target_try_recv q (int I10_TARGET_RECV_BUDGET) ops w = Inr x2"
    "(ret, y) = x2" "(q1, ya) = y" "(w1, ops1) = ya"
    and s: "i10_target_try_send q1 (int I10_TARGET_SEND_BUDGET) ops1 w1 = Inr x2a"
    "(ret2, yb) = x2a" "(q2, yc) = yb" "(w2, ops2) = yc"
    and c: "(0 < ret \<or> 0 < ret2) \<and> ops2 < I10_TARGET_IO_WORK_BUDGET"
  from r have "i10_target_try_recv q (int I10_TARGET_RECV_BUDGET) ops w = Inr (ret, q1, w1, ops1)"
    by auto
  from try_recv_ops [OF this]
  have a: "ops \<le> ops1" "0 < ret \<longrightarrow> ops1 = ops + int I10_TARGET_RECV_BUDGET" by auto
  from s have "i10_target_try_send q1 (int I10_TARGET_SEND_BUDGET) ops1 w1 =
               Inr (ret2, q2, w2, ops2)"
    by auto
  from try_send_ops [OF this]
  have b: "ops1 \<le> ops2" "0 < ret2 \<longrightarrow> ops2 = ops1 + int I10_TARGET_SEND_BUDGET" by auto
  from a b c have "ops < ops2"
    by (auto simp: I10_TARGET_RECV_BUDGET_def I10_TARGET_SEND_BUDGET_def)
  with c show "((q2, w2, ops2, Suc rounds), q, w, ops, rounds)
               \<in> measure (\<lambda>(q, w, ops, rounds). nat (I10_TARGET_IO_WORK_BUDGET - ops))"
    by simp
qed

declare io_work_loop.simps [simp del]

text \<open>
  \<open>i10_target_io_work\<close>: the loop from \<open>ops = 0\<close>, and after it the work item is queued
  again on the queue's CPU when \<open>pending\<close> is set.
\<close>

definition i10_target_io_work ::
  "i10_target_queue \<Rightarrow> world \<Rightarrow> fault + i10_target_queue \<times> world" where
  "i10_target_io_work q w =
     (case io_work_loop q w 0 0 of
        Inl f \<Rightarrow> Inl f
      | Inr (Io_return, q', w', ops, rounds) \<Rightarrow> Inr (q', w')
      | Inr (Io_loop_end pending, q', w', ops, rounds) \<Rightarrow>
          Inr (q', if pending then emit (Queue_work (cpu q')) w' else w'))"

section \<open>Concrete queues and worlds\<close>

text \<open>
  The CRC32C transform is a service of the kernel. The concrete runs below use a byte
  sum in its place; no result depends on the function chosen.
\<close>

definition byte_sum :: "u8 list \<Rightarrow> u32" where
  "byte_sum bs = fold (\<lambda>b c. c + ucast b) bs 0"

definition idle_world :: world where
  "idle_world =
     \<lparr>tx_script = [], rx_script = [], rx_stream = [], wspace = 8388608, crc32c = byte_sum,
      connect_tag = 0, alloc_script = [], req_script = [], exec_script = [], trace = []\<rparr>"

text \<open>
  A live I/O queue (\<open>qid = 1\<close>) with a controller, after \<open>i10_target_install_queue\<close> for
  a submission queue of two entries: four command slots, all free.
\<close>

definition io_queue :: i10_target_queue where
  "io_queue =
     fst (snd (i10_target_install_queue 2
       ((i10_target_alloc_queue 1 0 16384)
          \<lparr>nvme_sq_qid := 1, nvme_sq_ctrl := True, q_state := I10_TARGET_Q_LIVE,
           free_list := []\<rparr>)
       idle_world))"

text \<open>The same for the admin queue (\<open>qid = 0\<close>).\<close>

definition admin_queue :: i10_target_queue where
  "admin_queue =
     fst (snd (i10_target_install_queue 2
       ((i10_target_alloc_queue 0 0 16384)
          \<lparr>nvme_sq_ctrl := True, q_state := I10_TARGET_Q_LIVE, free_list := []\<rparr>)
       idle_world))"

text \<open>
  A write of 512 bytes in slot 0 of the I/O queue: its data has arrived, it was
  executed, and the send state machine holds it in \<open>SEND_RESPONSE\<close>.
\<close>

definition write_done_queue :: i10_target_queue where
  "write_done_queue =
     (upd_cmd io_queue (Slot 0)
        (\<lambda>x. x\<lparr>req_cmd := (req_cmd x)\<lparr>opcode := 1, command_id := 7\<rparr>,
               req_transfer_len := 512, rbytes_done := 512, req_sg := [512],
               state := I10_TARGET_SEND_RESPONSE\<rparr>))
     \<lparr>free_list := [Slot 1, Slot 2, Slot 3], snd_cmd := Some (Slot 0)\<rparr>"

text \<open>The two queues, written out, and the equations that evaluate a run on them.\<close>

lemma io_queue_eq:
  "io_queue =
     (i10_target_alloc_queue 1 0 16384)
       \<lparr>nvme_sq_qid := 1, nvme_sq_ctrl := True, cmds := [zero_cmd, zero_cmd, zero_cmd, zero_cmd],
        nr_cmds := 4, free_list := [Slot 0, Slot 1, Slot 2, Slot 3],
        q_state := I10_TARGET_Q_LIVE\<rparr>"
  by code_simp

lemma admin_queue_eq:
  "admin_queue =
     (i10_target_alloc_queue 0 0 16384)
       \<lparr>nvme_sq_ctrl := True, cmds := [zero_cmd, zero_cmd, zero_cmd, zero_cmd], nr_cmds := 4,
        free_list := [Slot 0, Slot 1, Slot 2, Slot 3], q_state := I10_TARGET_Q_LIVE\<rparr>"
  by code_simp

lemmas fixture_defs = io_queue_eq admin_queue_eq i10_target_alloc_queue_def
  i10_target_prepare_receive_pdu_def idle_world_def zero_cmd_def zero_hdr_def upd_cmd_def
  the_cmd_def

lemmas send_defs = i10_target_try_send_data.simps i10_target_try_send_def i10_target_try_send_one_def i10_target_fetch_cmd_def
  i10_target_process_resp_list_def setup_fetched_def i10_target_need_data_out_def
  i10_target_need_data_in_def i10_target_has_data_in_def nvme_is_write_def
  nvme_fabrics_command_def i10_target_setup_c2h_data_pdu_def i10_target_setup_r2t_pdu_def
  i10_target_setup_response_pdu_def i10_target_ddgst_def i10_target_hdgst_len_def
  i10_target_ddgst_len_def send_stage_def bind_fault_def valid_ref_def
  i10_target_try_send_data_pdu_def try_send_data_step_def i10_target_try_send_ddgst_def
  i10_target_try_send_r2t_def i10_target_try_send_response_def i10_target_is_admin_queue_def
  i10_target_is_caravan_full_def i10_target_is_caravan2_full_def I10_CARAVAN_CAPACITY_def
  I10_CARAVAN2_CAPACITY_def I10_TARGET_SEND_BUDGET_def sg_next_def send_caravan_def
  send_caravan2_def i10_target_sndbuf_nospace_def i10_target_put_cmd_def kernel_sendmsg_def
  kernel_sendpage_def sock_send_def emit_def Let_def NVME_TCP_DIGEST_LENGTH_def
  sizeof_data_pdu_def sizeof_rsp_pdu_def sizeof_r2t_pdu_def EAGAIN_def

section \<open>Caravan selection of the response PDU\<close>

text \<open>The segment that \<open>i10_target_try_send_response\<close> appends to a caravan.\<close>

definition rsp_seg :: "i10_target_queue \<Rightarrow> cmd_ref \<Rightarrow> kvec" where
  "rsp_seg q c =
     \<lparr>iov_base = (Buf_rsp_pdu c, unat (offset (the_cmd q c)) * sizeof_rsp_pdu),
      iov_len = of_int (sint (of_nat sizeof_rsp_pdu - offset (the_cmd q c) +
                  of_nat (i10_target_hdgst_len q) :: u32))\<rparr>"

text \<open>
  C1. What the code does with a response PDU on a queue that is not the admin queue,
  when neither caravan is full: the response of a write command (\<open>nvme_is_write\<close>) is
  appended to the second caravan (C2) with the command as its owner, and the first
  caravan is left as it was; the response of any other command, a read among them, is
  appended to the first caravan (C1), and the second is left as it was. This is the
  reverse of the claim, which sends the write's response to C1 and the read's to C2.
\<close>

theorem response_pdu_caravan:
  assumes "\<not> i10_target_is_admin_queue q"
    and "\<not> i10_target_is_caravan_full q" and "\<not> i10_target_is_caravan2_full q"
    and "i10_target_try_send_response c last_in_batch q w = (ret, q', w')"
  shows "if nvme_is_write (req_cmd (the_cmd q c))
         then caravan2_iovs q' = caravan2_iovs q @ [rsp_seg q c] \<and>
              caravan2_cmds q' = caravan2_cmds q @ [c] \<and>
              caravan_iovs q' = caravan_iovs q \<and> caravan_cmds q' = caravan_cmds q
         else caravan_iovs q' = caravan_iovs q @ [rsp_seg q c] \<and>
              caravan_cmds q' = caravan_cmds q @ [c] \<and>
              caravan2_iovs q' = caravan2_iovs q \<and> caravan2_cmds q' = caravan2_cmds q"
  using assms
  by (cases c)
     (auto simp: i10_target_try_send_response_def Let_def rsp_seg_def upd_cmd_def the_cmd_def)

theorem response_pdu_caravan_witness:
  "nvme_is_write (req_cmd (the_cmd write_done_queue (Slot 0))) \<and>
   (case i10_target_try_send_response (Slot 0) False write_done_queue idle_world of
      (ret, q', w') \<Rightarrow>
        caravan2_iovs q' = [\<lparr>iov_base = (Buf_rsp_pdu (Slot 0), 0), iov_len = 24\<rparr>] \<and>
        caravan2_cmds q' = [Slot 0] \<and> caravan_iovs q' = [] \<and> caravan_cmds q' = [])"
proof -
  have a: "\<not> i10_target_is_admin_queue write_done_queue" by code_simp
  have b: "\<not> i10_target_is_caravan_full write_done_queue" by code_simp
  have c: "\<not> i10_target_is_caravan2_full write_done_queue" by code_simp
  have d: "nvme_is_write (req_cmd (the_cmd write_done_queue (Slot 0)))" by code_simp
  have e: "caravan2_iovs write_done_queue = []" "caravan2_cmds write_done_queue = []"
    "caravan_iovs write_done_queue = []" "caravan_cmds write_done_queue = []"
    by code_simp+
  have f: "rsp_seg write_done_queue (Slot 0) =
           \<lparr>iov_base = (Buf_rsp_pdu (Slot 0), 0), iov_len = 24\<rparr>"
    by code_simp
  obtain ret q' w' where r:
    "i10_target_try_send_response (Slot 0) False write_done_queue idle_world = (ret, q', w')"
    by (cases "i10_target_try_send_response (Slot 0) False write_done_queue idle_world")
  from response_pdu_caravan [OF a b c r] d e f show ?thesis
    by (simp add: r)
qed

section \<open>The data digest on the send side\<close>

text \<open>
  A read of 512 bytes in slot 1 of the I/O queue, with data digest negotiated: the
  executor has filled its page and queued its completion on \<open>resp_list\<close>. Only the
  first bytes of the page are written out; the digest function sees those.
\<close>

definition read_ddgst_queue :: i10_target_queue where
  "read_ddgst_queue =
     (upd_cmd io_queue (Slot 1)
        (\<lambda>x. x\<lparr>req_cmd := (req_cmd x)\<lparr>opcode := 2, command_id := 9\<rparr>,
               req_transfer_len := 512, req_data_len := 512, req_sg := [512],
               sg_data := [1, 2, 3], cur_sg := Some 0,
               rsp_pdu := (rsp_pdu x)\<lparr>cqe_command_id := 9\<rparr>\<rparr>))
     \<lparr>free_list := [Slot 0, Slot 2, Slot 3], resp_list := [Slot 1], data_digest := True\<rparr>"

text \<open>A socket that takes whatever the next two calls offer.\<close>

definition accepting_world :: world where
  "accepting_world = idle_world\<lparr>tx_script := [Tx_accept 65536, Tx_accept 65536]\<rparr>"

text \<open>
  C5. What the code does with the data digest: \<open>i10_target_try_send_ddgst\<close> hands the
  digest to the socket with \<open>kernel_sendmsg\<close> on every queue, the admin queue or not,
  and leaves both caravans as they were. The claim has it appended to caravan C1.
\<close>

theorem ddgst_bypasses_caravan:
  "case i10_target_try_send_ddgst c q w of
     (ret, q', w') \<Rightarrow>
       caravan_iovs q' = caravan_iovs q \<and> caravan_len q' = caravan_len q \<and>
       caravan2_iovs q' = caravan2_iovs q \<and> caravan2_len q' = caravan2_len q \<and>
       (\<exists>r. trace w' = trace w @
          [Sendmsg [\<lparr>iov_base = (Buf_exp_ddgst c, unat (offset (the_cmd q c)) * 4),
                     iov_len = ucast (4 - offset (the_cmd q c))\<rparr>]
             (ucast (4 - offset (the_cmd q c))) MSG_DONTWAIT r])"
proof -
  have t: "trace (snd (sock_send w n)) = trace w" for n
    by (simp add: sock_send_def split: list.splits tx_ev.splits)
  show ?thesis
    using t [of "uint (ucast (4 - offset (the_cmd q c) :: u32) :: u64)"]
    by (cases c)
       (auto simp: i10_target_try_send_ddgst_def Let_def kernel_sendmsg_def emit_def upd_cmd_def
          NVME_TCP_DIGEST_LENGTH_def split: prod.splits)
qed

text \<open>
  One pass of \<open>i10_target_try_send\<close> over that read, with a budget of one command: the
  four bytes of the digest reach the socket first, in a call of their own, and the PDU
  header, the page and the response follow in the flush of the first caravan.
\<close>

theorem ddgst_bypasses_caravan_witness:
  "(case i10_target_try_send_ddgst (Slot 1) read_ddgst_queue accepting_world of
      (ret, q', w') \<Rightarrow>
        caravan_iovs q' = caravan_iovs read_ddgst_queue \<and>
        caravan_len q' = caravan_len read_ddgst_queue) \<and>
   (case i10_target_try_send read_ddgst_queue 1 0 accepting_world of
      Inl e \<Rightarrow> False
    | Inr (ret, q', w', sends) \<Rightarrow>
        trace w' =
          [Kmap (Buf_sg_page (Slot 1) 0),
           Sendmsg [\<lparr>iov_base = (Buf_exp_ddgst (Slot 1), 0), iov_len = 4\<rparr>] 4 MSG_DONTWAIT 4,
           Sendmsg
             [\<lparr>iov_base = (Buf_data_pdu (Slot 1), 0), iov_len = 24\<rparr>,
              \<lparr>iov_base = (Buf_sg_page (Slot 1) 0, 0), iov_len = 512\<rparr>,
              \<lparr>iov_base = (Buf_rsp_pdu (Slot 1), 0), iov_len = 24\<rparr>]
             560 (MSG_DONTWAIT OR MSG_EOR) 560,
           Kfree_iov (Slot 1), Sgl_free (Slot 1), Kunmap (Buf_sg_page (Slot 1) 0)])"
proof -
  have run:
    "case i10_target_try_send read_ddgst_queue 1 0 accepting_world of
       Inl e \<Rightarrow> False
     | Inr (ret, q', w', sends) \<Rightarrow>
         trace w' =
           [Kmap (Buf_sg_page (Slot 1) 0),
            Sendmsg [\<lparr>iov_base = (Buf_exp_ddgst (Slot 1), 0), iov_len = 4\<rparr>] 4 MSG_DONTWAIT 4,
            Sendmsg
              [\<lparr>iov_base = (Buf_data_pdu (Slot 1), 0), iov_len = 24\<rparr>,
               \<lparr>iov_base = (Buf_sg_page (Slot 1) 0, 0), iov_len = 512\<rparr>,
               \<lparr>iov_base = (Buf_rsp_pdu (Slot 1), 0), iov_len = 24\<rparr>]
              560 (MSG_DONTWAIT OR MSG_EOR) 560,
            Kfree_iov (Slot 1), Sgl_free (Slot 1), Kunmap (Buf_sg_page (Slot 1) 0)]"
    by (simp add: read_ddgst_queue_def accepting_world_def fixture_defs send_defs byte_sum_def)
  from ddgst_bypasses_caravan [where c = "Slot 1" and q = read_ddgst_queue and
      w = accepting_world] run
  show ?thesis
    by (auto split: prod.splits)
qed

section \<open>Short writes\<close>

text \<open>
  The bytes that a stage emitting a PDU of \<open>sz\<close> bytes still has to send, the flags of
  the response and R2T stages, and the effects of a short write on the command and on the
  world.
\<close>

definition hdr_left :: "nat \<Rightarrow> i10_target_queue \<Rightarrow> cmd_ref \<Rightarrow> int" where
  "hdr_left sz q c =
     sint (of_nat sz - offset (the_cmd q c) + of_nat (i10_target_hdgst_len q) :: u32)"

definition rsp_flags :: "i10_target_queue \<Rightarrow> bool \<Rightarrow> int" where
  "rsp_flags q last_in_batch =
     (if \<not> last_in_batch \<and> send_list_len q \<noteq> 0
      then MSG_DONTWAIT OR MSG_MORE else MSG_DONTWAIT OR MSG_EOR)"

definition add_offset :: "nat \<Rightarrow> i10_target_cmd \<Rightarrow> i10_target_cmd" where
  "add_offset k = (\<lambda>x. x\<lparr>offset := offset x + of_nat k\<rparr>)"

definition add_offset_wbytes :: "nat \<Rightarrow> i10_target_cmd \<Rightarrow> i10_target_cmd" where
  "add_offset_wbytes k =
     (\<lambda>x. x\<lparr>offset := offset x + of_nat k, wbytes_done := wbytes_done x + of_nat k\<rparr>)"

definition after_sendpage ::
  "world \<Rightarrow> tx_ev list \<Rightarrow> buf \<times> nat \<Rightarrow> int \<Rightarrow> int \<Rightarrow> int \<Rightarrow> world" where
  "after_sendpage w rest base sz flgs ret =
     emit (Sendpage base sz flgs ret) (w\<lparr>tx_script := rest\<rparr>)"

text \<open>
  A read of 512 bytes in slot 1 of the admin queue, held by the send state machine in
  \<open>SEND_DATA\<close> at the start of its only page; and a socket that takes 100 bytes, then
  the other 412.
\<close>

definition admin_read_queue :: i10_target_queue where
  "admin_read_queue =
     (upd_cmd admin_queue (Slot 1)
        (\<lambda>x. x\<lparr>req_cmd := (req_cmd x)\<lparr>opcode := 2, command_id := 9\<rparr>,
               req_transfer_len := 512, req_data_len := 512, req_sg := [512],
               sg_data := replicate 512 1, cur_sg := Some 0,
               state := I10_TARGET_SEND_DATA\<rparr>))
     \<lparr>free_list := [Slot 0, Slot 2, Slot 3], snd_cmd := Some (Slot 1)\<rparr>"

definition short_world :: world where
  "short_world = idle_world\<lparr>tx_script := [Tx_accept 100, Tx_accept 412]\<rparr>"

text \<open>
  C6, as amended. On the admin queue, where the stages write to the socket, let the
  socket accept \<open>k\<close> bytes, more than none and fewer than requested. In the stages
  \<open>SEND_DATA_PDU\<close>, \<open>SEND_R2T\<close> and \<open>SEND_RESPONSE\<close> the count is added to the command's
  \<open>offset\<close>, nothing else of the queue changes (the send state among it), and the stage
  reports \<open>-EAGAIN\<close>. In \<open>SEND_DATA\<close> the count is added to \<open>offset\<close> and to
  \<open>wbytes_done\<close>, nothing else changes, and the loop goes round again on the same
  scatterlist entry instead of reporting \<open>-EAGAIN\<close>.
\<close>

theorem short_write_keeps_stage:
  assumes "i10_target_is_admin_queue q"
    and "tx_script w = Tx_accept k # rest" and "0 < k"
  shows "(int k < hdr_left sizeof_data_pdu q c \<longrightarrow>
            i10_target_try_send_data_pdu c q w =
              (- EAGAIN, upd_cmd q c (add_offset k),
               after_sendpage w rest (Buf_data_pdu c, unat (offset (the_cmd q c)))
                 (hdr_left sizeof_data_pdu q c) (MSG_DONTWAIT OR MSG_MORE) (int k))) \<and>
         (int k < hdr_left sizeof_r2t_pdu q c \<longrightarrow>
            i10_target_try_send_r2t c l q w =
              (- EAGAIN, upd_cmd q c (add_offset k),
               after_sendpage w rest (Buf_r2t_pdu c, unat (offset (the_cmd q c)))
                 (hdr_left sizeof_r2t_pdu q c) (rsp_flags q l) (int k))) \<and>
         (int k < hdr_left sizeof_rsp_pdu q c \<longrightarrow>
            i10_target_try_send_response c l q w =
              (- EAGAIN, upd_cmd q c (add_offset k),
               after_sendpage w rest (Buf_rsp_pdu c, unat (offset (the_cmd q c)))
                 (hdr_left sizeof_rsp_pdu q c) (rsp_flags q l) (int k))) \<and>
         (\<forall>i. valid_ref q c \<and> cur_sg (the_cmd q c) = Some i \<and>
               i < length (req_sg (the_cmd q c)) \<and>
               k < unat (req_sg (the_cmd q c) ! i - offset (the_cmd q c)) \<longrightarrow>
            try_send_data_step c q w =
              Inr (upd_cmd q c (add_offset_wbytes k),
                   after_sendpage w rest (Buf_sg_page c i, unat (offset (the_cmd q c)))
                     (uint (req_sg (the_cmd q c) ! i - offset (the_cmd q c)))
                     (MSG_DONTWAIT OR MSG_MORE) (int k)))"
proof (intro conjI impI allI)
  assume "int k < hdr_left sizeof_data_pdu q c"
  with assms show "i10_target_try_send_data_pdu c q w =
              (- EAGAIN, upd_cmd q c (add_offset k),
               after_sendpage w rest (Buf_data_pdu c, unat (offset (the_cmd q c)))
                 (hdr_left sizeof_data_pdu q c) (MSG_DONTWAIT OR MSG_MORE) (int k))"
    by (simp add: i10_target_try_send_data_pdu_def Let_def hdr_left_def kernel_sendpage_def
        sock_send_def after_sendpage_def add_offset_def)
next
  assume "int k < hdr_left sizeof_r2t_pdu q c"
  with assms show "i10_target_try_send_r2t c l q w =
              (- EAGAIN, upd_cmd q c (add_offset k),
               after_sendpage w rest (Buf_r2t_pdu c, unat (offset (the_cmd q c)))
                 (hdr_left sizeof_r2t_pdu q c) (rsp_flags q l) (int k))"
    by (simp add: i10_target_try_send_r2t_def Let_def hdr_left_def kernel_sendpage_def
        sock_send_def after_sendpage_def add_offset_def rsp_flags_def)
next
  assume "int k < hdr_left sizeof_rsp_pdu q c"
  with assms show "i10_target_try_send_response c l q w =
              (- EAGAIN, upd_cmd q c (add_offset k),
               after_sendpage w rest (Buf_rsp_pdu c, unat (offset (the_cmd q c)))
                 (hdr_left sizeof_rsp_pdu q c) (rsp_flags q l) (int k))"
    by (simp add: i10_target_try_send_response_def Let_def hdr_left_def kernel_sendpage_def
        sock_send_def after_sendpage_def add_offset_def rsp_flags_def)
next
  fix i
  assume a: "valid_ref q c \<and> cur_sg (the_cmd q c) = Some i \<and>
             i < length (req_sg (the_cmd q c)) \<and>
             k < unat (req_sg (the_cmd q c) ! i - offset (the_cmd q c))"
  let ?left = "req_sg (the_cmd q c) ! i - offset (the_cmd q c)"
  have lt: "k < unat ?left" using a by simp
  then have ilt: "int k < uint ?left"
    by (simp only: unat_eq_nat_uint zless_nat_eq_int_zless)
  have ne: "offset (the_cmd q c) + of_nat k \<noteq> req_sg (the_cmd q c) ! i"
  proof
    assume eq: "offset (the_cmd q c) + of_nat k = req_sg (the_cmd q c) ! i"
    have "?left = of_nat k" unfolding eq [symmetric] by simp
    then have u: "unat ?left = k mod 2 ^ 32" by (simp add: unat_of_nat)
    have "unat ?left < 2 ^ 32" using unsigned_less [of ?left] by simp
    with lt have "k < 2 ^ 32" by (rule less_trans)
    then have "k mod 2 ^ 32 = k" by (rule mod_less)
    with u lt show False by simp
  qed
  have cm: "the_cmd (upd_cmd q c f) c = f (the_cmd q c)" for f
    using a by (cases c) (simp_all add: the_cmd_def upd_cmd_def valid_ref_def)
  from assms a ne cm ilt show "try_send_data_step c q w =
              Inr (upd_cmd q c (add_offset_wbytes k),
                   after_sendpage w rest (Buf_sg_page c i, unat (offset (the_cmd q c)))
                     (uint (req_sg (the_cmd q c) ! i - offset (the_cmd q c)))
                     (MSG_DONTWAIT OR MSG_MORE) (int k))"
    by (simp add: try_send_data_step_def Let_def kernel_sendpage_def
        sock_send_def after_sendpage_def add_offset_wbytes_def)
qed


text \<open>
  The claim as stated fails in \<open>SEND_DATA\<close>: the socket takes 100 of the 512 bytes of
  the page, yet the stage does not report \<open>-EAGAIN\<close>. It asks for the other 412 bytes in
  the same call, returns 1, and the command has left \<open>SEND_DATA\<close>.
\<close>

theorem short_write_data_counterexample:
  "case i10_target_try_send_data (Slot 1) admin_read_queue short_world of
     Inl e \<Rightarrow> False
   | Inr (ret, q', w') \<Rightarrow>
       ret = 1 \<and>
       state (the_cmd q' (Slot 1)) = I10_TARGET_SEND_RESPONSE \<and>
       trace w' =
         [Sendpage (Buf_sg_page (Slot 1) 0, 0) 512 (MSG_DONTWAIT OR MSG_MORE) 100,
          Sendpage (Buf_sg_page (Slot 1) 0, 100) 412 (MSG_DONTWAIT OR MSG_MORE) 412]"
  by (simp add: admin_read_queue_def short_world_def fixture_defs send_defs)

theorem short_write_keeps_stage_witness:
  "i10_target_try_send_response (Slot 1) False admin_read_queue
       (idle_world\<lparr>tx_script := [Tx_accept 10]\<rparr>) =
     (- EAGAIN, upd_cmd admin_read_queue (Slot 1) (add_offset 10),
      after_sendpage (idle_world\<lparr>tx_script := [Tx_accept 10]\<rparr>) []
        (Buf_rsp_pdu (Slot 1), 0) 24 (MSG_DONTWAIT OR MSG_EOR) 10) \<and>
   try_send_data_step (Slot 1) admin_read_queue short_world =
     Inr (upd_cmd admin_read_queue (Slot 1) (add_offset_wbytes 100),
          after_sendpage short_world [Tx_accept 412] (Buf_sg_page (Slot 1) 0, 0) 512
            (MSG_DONTWAIT OR MSG_MORE) 100) \<and>
   state (the_cmd (upd_cmd admin_read_queue (Slot 1) (add_offset_wbytes 100)) (Slot 1)) =
     I10_TARGET_SEND_DATA \<and>
   offset (the_cmd (upd_cmd admin_read_queue (Slot 1) (add_offset_wbytes 100)) (Slot 1)) = 100"
proof -
  have a: "i10_target_is_admin_queue admin_read_queue"
    by (simp add: admin_read_queue_def fixture_defs i10_target_is_admin_queue_def)
  have b: "tx_script short_world = Tx_accept 100 # [Tx_accept 412]"
    by (simp add: short_world_def idle_world_def)
  have c: "(0::nat) < 100" "(0::nat) < 10" by simp_all
  have b': "tx_script (idle_world\<lparr>tx_script := [Tx_accept 10]\<rparr>) = Tx_accept 10 # []"
    by simp
  have d: "int 10 < hdr_left sizeof_rsp_pdu admin_read_queue (Slot 1)"
    by (simp add: hdr_left_def admin_read_queue_def fixture_defs
        i10_target_hdgst_len_def sizeof_rsp_pdu_def)
  have e: "valid_ref admin_read_queue (Slot 1) \<and>
           cur_sg (the_cmd admin_read_queue (Slot 1)) = Some 0 \<and>
           0 < length (req_sg (the_cmd admin_read_queue (Slot 1))) \<and>
           100 < unat (req_sg (the_cmd admin_read_queue (Slot 1)) ! 0 -
                       offset (the_cmd admin_read_queue (Slot 1)))"
    by (simp add: admin_read_queue_def fixture_defs valid_ref_def)
  have f: "hdr_left sizeof_rsp_pdu admin_read_queue (Slot 1) = 24"
    "rsp_flags admin_read_queue False = MSG_DONTWAIT OR MSG_EOR"
    "unat (offset (the_cmd admin_read_queue (Slot 1))) = 0"
    "uint (req_sg (the_cmd admin_read_queue (Slot 1)) ! 0 -
           offset (the_cmd admin_read_queue (Slot 1))) = 512"
    by (simp_all add: hdr_left_def rsp_flags_def admin_read_queue_def fixture_defs
        i10_target_hdgst_len_def sizeof_rsp_pdu_def)
  have g: "state (the_cmd (upd_cmd admin_read_queue (Slot 1) (add_offset_wbytes 100)) (Slot 1)) =
             I10_TARGET_SEND_DATA"
    "offset (the_cmd (upd_cmd admin_read_queue (Slot 1) (add_offset_wbytes 100)) (Slot 1)) = 100"
    by (simp_all add: add_offset_wbytes_def admin_read_queue_def fixture_defs)
  from short_write_keeps_stage [OF a b c(1), of "Slot 1" False]
    short_write_keeps_stage [OF a b' c(2), of "Slot 1" False] d e f g
  show ?thesis
    by simp
qed

section \<open>Frame lemmas\<close>

text \<open>
  What an update of one command, or of one field of the queue, leaves alone; what the
  socket can return; and what a call of the socket adds to the trace.
\<close>

lemma the_cmd_upd_cmd:
  "valid_ref q c \<Longrightarrow> the_cmd (upd_cmd q c f) c = f (the_cmd q c)"
  by (cases c) (simp_all add: the_cmd_def upd_cmd_def valid_ref_def)

lemma the_cmd_cong:
  "cmds q' = cmds q \<Longrightarrow> connect q' = connect q \<Longrightarrow> the_cmd q' c = the_cmd q c"
  by (cases c) (simp_all add: the_cmd_def)

lemma valid_ref_cong: "cmds q' = cmds q \<Longrightarrow> valid_ref q' c = valid_ref q c"
  by (cases c) (simp_all add: valid_ref_def)

lemma upd_cmd_frame [simp]:
  "free_list (upd_cmd q c f) = free_list q"
  "snd_cmd (upd_cmd q c f) = snd_cmd q"
  "hdr_digest (upd_cmd q c f) = hdr_digest q"
  "nvme_sq_qid (upd_cmd q c f) = nvme_sq_qid q"
  "q_state (upd_cmd q c f) = q_state q"
  "send_list_len (upd_cmd q c f) = send_list_len q"
  "send_now2 (upd_cmd q c f) = send_now2 q"
  "caravan_iovs (upd_cmd q c f) = caravan_iovs q"
  "caravan_cmds (upd_cmd q c f) = caravan_cmds q"
  "caravan_mapped (upd_cmd q c f) = caravan_mapped q"
  "caravan_len (upd_cmd q c f) = caravan_len q"
  "caravan2_iovs (upd_cmd q c f) = caravan2_iovs q"
  "caravan2_cmds (upd_cmd q c f) = caravan2_cmds q"
  "caravan2_mapped (upd_cmd q c f) = caravan2_mapped q"
  "caravan2_len (upd_cmd q c f) = caravan2_len q"
  by (cases c; simp add: upd_cmd_def)+

lemma valid_ref_upd_cmd [simp]: "valid_ref (upd_cmd q c f) c' = valid_ref q c'"
  by (cases c; cases c'; simp add: upd_cmd_def valid_ref_def)

lemma the_cmd_frame [simp]:
  "the_cmd (q\<lparr>send_now2 := b\<rparr>) c = the_cmd q c"
  "the_cmd (q\<lparr>snd_cmd := sc\<rparr>) c = the_cmd q c"
  "the_cmd (q\<lparr>caravan2_iovs := iovs\<rparr>) c = the_cmd q c"
  "the_cmd (q\<lparr>caravan2_len := n\<rparr>) c = the_cmd q c"
  by (cases c; simp add: the_cmd_def)+

lemma valid_ref_frame [simp]:
  "valid_ref (q\<lparr>send_now2 := b\<rparr>) c = valid_ref q c"
  "valid_ref (q\<lparr>snd_cmd := sc\<rparr>) c = valid_ref q c"
  "valid_ref (q\<lparr>caravan2_iovs := iovs\<rparr>) c = valid_ref q c"
  "valid_ref (q\<lparr>caravan2_len := n\<rparr>) c = valid_ref q c"
  by (cases c; simp add: valid_ref_def)+

lemma upd_cmd_offset:
  "offset (the_cmd q c) = a \<Longrightarrow>
   upd_cmd q c (\<lambda>x. x\<lparr>offset := offset x + b\<rparr>) = upd_cmd q c (\<lambda>x. x\<lparr>offset := a + b\<rparr>)"
  by (cases c) (auto simp: upd_cmd_def the_cmd_def)

lemma sock_send_le: "fst (sock_send w n) \<le> max 0 n"
  by (auto simp: sock_send_def EAGAIN_def split: list.splits tx_ev.splits)

lemma kernel_sendpage_le: "fst (kernel_sendpage w b n f) \<le> max 0 n"
  using sock_send_le [of w n] by (auto simp: kernel_sendpage_def split: prod.splits)

lemma trace_kernel_sendpage:
  "kernel_sendpage w b n f = (r, w1) \<Longrightarrow> trace w1 = trace w @ [Sendpage b n f r]"
  by (auto simp: kernel_sendpage_def sock_send_def emit_def split: prod.splits list.splits tx_ev.splits)

lemma kernel_sendpage_fst:
  "kernel_sendpage w b n f = (r, w1) \<Longrightarrow> fst (sock_send w n) = r"
  by (auto simp: kernel_sendpage_def split: prod.splits)

lemma trace_sock_send: "trace (snd (sock_send w n)) = trace w"
  by (simp add: sock_send_def split: list.splits tx_ev.splits)

lemma sint_of_nat_small: "n < 2147483648 \<Longrightarrow> sint (of_nat n :: u32) = int n"
  using int_word_sint [of "int n", where 'a = 32] by simp

text \<open>The equations that evaluate a run of the receive path.\<close>

lemmas recv_defs = i10_target_try_recv_one_def recv_stage_def i10_target_try_recv_pdu.simps
  try_recv_pdu_step_def sock_recv_def store_def i10_target_pdu_valid_def i10_target_pdu_size_def
  pdu_hdr_type_def pdu_hdr_flags_def pdu_hdr_hlen_def pdu_hdr_plen_def le16_at_def le32_at_def
  i10_target_done_recv_pdu_def i10_target_handle_icreq_def icresp_bytes_def le_bytes_def
  i10_target_get_cmd_def nvmet_req_init_def nvmet_req_complete_def nvmet_req_execute_def
  i10_target_map_data_def pop_alloc_def sgl_alloc_def
  i10_target_has_inline_data_def i10_target_queue_response_def i10_target_fatal_error_def
  pdu_nvme_cmd_def i10_target_verify_hdgst_def i10_target_hdgst_def i10_target_check_ddgst_def
  i10_target_handle_h2c_data_pdu_def i10_target_map_pdu_iovec_def
  i10_target_unmap_pdu_iovec_def i10_target_handle_req_failure_def i10_target_alloc_crypto_def
  DIV_ROUND_UP_PAGE_def PAGE_SIZE_def
  sizeof_hdr_def sizeof_icreq_pdu_def sizeof_icresp_pdu_def sizeof_cmd_pdu_def
  sizeof_pdu_union_def nvme_tcp_icreq_def nvme_tcp_icresp_def nvme_tcp_cmd_def
  nvme_tcp_h2c_data_def NVME_TCP_F_HDGST_def NVME_TCP_F_DDGST_def
  NVME_TCP_HDR_DIGEST_ENABLE_def NVME_TCP_DATA_DIGEST_ENABLE_def NVME_TCP_PFV_1_0_def
  NVME_SGL_FMT_DATA_DESC_def NVME_SGL_FMT_OFFSET_def NVME_SC_INVALID_FIELD_def
  NVME_SC_INTERNAL_def NVME_SC_SGL_INVALID_OFFSET_def NVME_SC_DNR_def
  EIO_def ENOMEM_def EPROTO_def EINVAL_def i10_target_cmd_tag_def

section \<open>Ready-to-transfer\<close>

text \<open>
  The R2T PDU with its header digest, when there is one, and the flags of the
  \<open>kernel_sendpage\<close> that sends it.
\<close>

definition r2t_len :: "i10_target_queue \<Rightarrow> nat" where
  "r2t_len q = sizeof_r2t_pdu + i10_target_hdgst_len q"

definition r2t_flags :: "i10_target_queue \<Rightarrow> bool \<Rightarrow> int" where
  "r2t_flags q last_in_batch =
     (if \<not> last_in_batch \<and> send_list_len q \<noteq> 0
      then MSG_DONTWAIT OR MSG_MORE else MSG_DONTWAIT OR MSG_EOR)"

text \<open>
  A command enters \<open>SEND_R2T\<close> in \<open>i10_target_fetch_cmd\<close>, which takes it from the send
  list when the state machine holds no command (or the queue is disconnecting) and sets
  up an R2T PDU when the command is a write that still needs data.
\<close>

definition r2t_taken :: "i10_target_queue \<Rightarrow> world \<Rightarrow> cmd_ref \<Rightarrow> bool" where
  "r2t_taken q w c =
     ((snd_cmd q = None \<or> q_state q = I10_TARGET_Q_DISCONNECTING) \<and>
      fst (i10_target_fetch_cmd q w) = Some c \<and> valid_ref q c \<and>
      i10_target_need_data_in (the_cmd q c))"

text \<open>
  The state machine holds the command in \<open>SEND_R2T\<close>, and \<open>k\<close> bytes of its PDU have
  been sent.
\<close>

definition r2t_held :: "i10_target_queue \<Rightarrow> cmd_ref \<Rightarrow> nat \<Rightarrow> bool" where
  "r2t_held q c k =
     (snd_cmd q = Some c \<and> state (the_cmd q c) = I10_TARGET_SEND_R2T \<and>
      offset (the_cmd q c) = of_nat k \<and> k < r2t_len q)"

text \<open>
  The R2T PDU \<open>p\<close> is the one for command \<open>c\<close> as it stands in \<open>q\<close>. The \<open>ttag\<close> is what
  \<open>i10_target_cmd_tag\<close> returns: the slot index for a slot of the array, as far as the
  16 bits of the field can hold it, and the world's \<open>connect_tag\<close> for the embedded
  \<open>connect\<close> command.
\<close>

definition r2t_pdu_for :: "world \<Rightarrow> i10_target_queue \<Rightarrow> cmd_ref \<Rightarrow> nvme_tcp_r2t_pdu \<Rightarrow> bool" where
  "r2t_pdu_for w q c p =
     (hdr_type (r2t_hdr p) = nvme_tcp_r2t \<and>
      r2t_command_id p = command_id (req_cmd (the_cmd q c)) \<and>
      r2t_length p = req_transfer_len (the_cmd q c) - rbytes_done (the_cmd q c) \<and>
      r2t_offset p = rbytes_done (the_cmd q c) \<and>
      (case c of
         Slot i \<Rightarrow> ttag p = of_nat i \<and> (if i < 65536 then unat (ttag p) = i else True)
       | Connect \<Rightarrow> ttag p = connect_tag w))"

text \<open>
  What no pass of the stage changes: the PDU, the send state of the command, the free
  list, the owners in both caravans, and the first caravan.
\<close>

definition r2t_kept :: "cmd_ref \<Rightarrow> i10_target_queue \<Rightarrow> i10_target_queue \<Rightarrow> bool" where
  "r2t_kept c q q' =
     (r2t_pdu (the_cmd q' c) = r2t_pdu (the_cmd q c) \<and>
      state (the_cmd q' c) = I10_TARGET_SEND_R2T \<and>
      free_list q' = free_list q \<and> caravan_cmds q' = caravan_cmds q \<and>
      caravan2_cmds q' = caravan2_cmds q \<and> caravan_iovs q' = caravan_iovs q)"

lemma r2t_left:
  assumes "k < 24 + h" and "h \<le> 4"
  shows "sint (24 - of_nat k + of_nat h :: u32) = int (24 + h - k)"
proof -
  have "(24 - of_nat k + of_nat h :: u32) = of_nat (24 + h - k)"
    using assms by simp
  then have "sint (24 - of_nat k + of_nat h :: u32) = sint (of_nat (24 + h - k) :: u32)"
    by (simp only:)
  also have "\<dots> = int (24 + h - k)"
    by (rule sint_of_nat_small) (use assms in simp)
  finally show ?thesis .
qed

lemma r2t_stage:
  assumes st: "state (the_cmd q c) = I10_TARGET_SEND_R2T"
    and off: "offset (the_cmd q c) = of_nat k"
    and k: "k < r2t_len q"
  shows "i10_target_try_send_r2t c l q w =
     (if \<not> i10_target_is_admin_queue q
      then (if i10_target_is_caravan2_full q then (1, q\<lparr>send_now2 := True\<rparr>, w)
            else (1,
                  (upd_cmd
                     (q\<lparr>caravan2_iovs := caravan2_iovs q @
                          [\<lparr>iov_base = (Buf_r2t_pdu c, k * sizeof_r2t_pdu),
                            iov_len = of_nat (r2t_len q - k)\<rparr>],
                        caravan2_len := caravan2_len q + of_nat (r2t_len q - k)\<rparr>)
                     c (\<lambda>x. x\<lparr>offset := of_nat (r2t_len q)\<rparr>))\<lparr>snd_cmd := None\<rparr>,
                  w))
      else (let (r, w1) = kernel_sendpage w (Buf_r2t_pdu c, k) (int (r2t_len q - k))
                            (r2t_flags q l)
            in if r \<le> 0 then (r, q, w1)
               else if r < int (r2t_len q - k)
               then (- EAGAIN, upd_cmd q c (\<lambda>x. x\<lparr>offset := of_nat (k + nat r)\<rparr>), w1)
               else (1, (upd_cmd q c (\<lambda>x. x\<lparr>offset := of_nat (r2t_len q)\<rparr>))\<lparr>snd_cmd := None\<rparr>,
                     w1)))"
proof -
  have h: "i10_target_hdgst_len q \<le> 4"
    by (simp add: i10_target_hdgst_len_def NVME_TCP_DIGEST_LENGTH_def)
  from k have k': "k < 24 + i10_target_hdgst_len q"
    by (simp add: r2t_len_def sizeof_r2t_pdu_def)
  have left: "sint (of_nat sizeof_r2t_pdu - offset (the_cmd q c) +
                of_nat (i10_target_hdgst_len q) :: u32) = int (r2t_len q - k)"
    using r2t_left [OF k' h] by (simp add: off sizeof_r2t_pdu_def r2t_len_def)
  have uk: "unat (offset (the_cmd q c)) = k"
    using k' h by (simp add: off unat_of_nat)
  have full: "of_nat k + of_nat (r2t_len q - k) = (of_nat (r2t_len q) :: u32)"
    using k by (simp flip: of_nat_add)
  show ?thesis
  proof (cases "i10_target_is_admin_queue q")
    case False
    have u: "upd_cmd q' c (\<lambda>x. x\<lparr>offset := offset x + of_nat (r2t_len q - k)\<rparr>) =
             upd_cmd q' c (\<lambda>x. x\<lparr>offset := of_nat (r2t_len q)\<rparr>)"
      if "cmds q' = cmds q" "connect q' = connect q" for q'
      using upd_cmd_offset [of q' c "of_nat k" "of_nat (r2t_len q - k)"] that off
      by (simp only: the_cmd_cong [OF that] full)
    show ?thesis
      using False k
      by (simp add: i10_target_try_send_r2t_def Let_def left uk EAGAIN_def u
          del: of_nat_diff)
  next
    case True
    obtain r w1 where r: "kernel_sendpage w (Buf_r2t_pdu c, k) (int (r2t_len q - k))
                            (r2t_flags q l) = (r, w1)"
      by (cases "kernel_sendpage w (Buf_r2t_pdu c, k) (int (r2t_len q - k)) (r2t_flags q l)")
    from kernel_sendpage_le [of w "(Buf_r2t_pdu c, k)" "int (r2t_len q - k)" "r2t_flags q l"] r
    have le: "r \<le> int (r2t_len q - k)" by simp
    have u: "upd_cmd q c (\<lambda>x. x\<lparr>offset := offset x + of_int r\<rparr>) =
             upd_cmd q c (\<lambda>x. x\<lparr>offset := of_nat (k + nat r)\<rparr>)" if "0 < r"
      using upd_cmd_offset [of q c "of_nat k" "of_int r"] that off by simp
    have e: "of_nat (k + nat r) = (of_nat (r2t_len q) :: u32)" if "\<not> r < int (r2t_len q - k)"
    proof -
      from that le have "nat r = r2t_len q - k" by simp
      with k show ?thesis by simp
    qed
    show ?thesis
      using True r le k
      by (simp add: i10_target_try_send_r2t_def Let_def left uk r2t_flags_def u e)
  qed
qed

lemma r2t_setup:
  assumes "r2t_taken q w c"
  shows "case i10_target_fetch_cmd q w of
           (co, q1) \<Rightarrow>
             co = Some c \<and> valid_ref q1 c \<and> r2t_held q1 c 0 \<and>
             r2t_pdu_for w q c (r2t_pdu (the_cmd q1 c)) \<and>
             free_list q1 = free_list q \<and>
             caravan_iovs q1 = caravan_iovs q \<and> caravan_cmds q1 = caravan_cmds q \<and>
             caravan2_iovs q1 = caravan2_iovs q \<and> caravan2_cmds q1 = caravan2_cmds q"
proof -
  from assms have nin: "i10_target_need_data_in (the_cmd q c)" and v: "valid_ref q c"
    and f: "fst (i10_target_fetch_cmd q w) = Some c"
    by (simp_all add: r2t_taken_def)
  from nin have nout: "\<not> i10_target_need_data_out (the_cmd q c)"
    by (auto simp: i10_target_need_data_out_def i10_target_need_data_in_def
        i10_target_has_data_in_def)
  define q0 where "q0 = (case resp_send_list q of [] \<Rightarrow> i10_target_process_resp_list q
                         | c # rest \<Rightarrow> q)"
  have q0: "cmds q0 = cmds q" "connect q0 = connect q" "free_list q0 = free_list q"
    "caravan_iovs q0 = caravan_iovs q" "caravan_cmds q0 = caravan_cmds q"
    "caravan2_iovs q0 = caravan2_iovs q" "caravan2_cmds q0 = caravan2_cmds q"
    "hdr_digest q0 = hdr_digest q"
    by (simp_all add: q0_def i10_target_process_resp_list_def split: list.splits)
  from f obtain rest where r: "resp_send_list q0 = c # rest"
    by (auto simp: i10_target_fetch_cmd_def q0_def Let_def split: list.splits)
  define q1 where "q1 = q0\<lparr>snd_cmd := Some c, resp_send_list := rest,
                              send_list_len := send_list_len q0 - 1\<rparr>"
  have fe: "i10_target_fetch_cmd q w = (Some c, upd_cmd q1 c (setup_fetched q1 w c))"
    using r by (simp add: i10_target_fetch_cmd_def q0_def [symmetric] Let_def q1_def)
  have c1: "the_cmd q1 c = the_cmd q c"
    by (rule the_cmd_cong) (simp_all add: q1_def q0)
  have v1: "valid_ref q1 c"
    using v valid_ref_cong [of q1 q c] by (simp add: q1_def q0)
  have s: "setup_fetched q1 w c (the_cmd q c) = i10_target_setup_r2t_pdu q1 w c (the_cmd q c)"
    using nin nout by (simp add: setup_fetched_def)
  have tag: "unat (of_nat i :: u16) = i" if "i < 65536" for i
    using that by (simp add: unat_of_nat)
  define q2 where "q2 = upd_cmd q1 c (setup_fetched q1 w c)"
  have c2: "the_cmd q2 c = i10_target_setup_r2t_pdu q1 w c (the_cmd q c)"
    by (simp add: q2_def the_cmd_upd_cmd [OF v1] c1 s)
  have held: "r2t_held q2 c 0"
    by (simp add: r2t_held_def c2 i10_target_setup_r2t_pdu_def Let_def r2t_len_def
        sizeof_r2t_pdu_def) (simp add: q2_def q1_def)
  have pdu: "r2t_pdu_for w q c (r2t_pdu (the_cmd q2 c))"
    using tag
    by (simp add: r2t_pdu_for_def c2 i10_target_setup_r2t_pdu_def Let_def
        i10_target_cmd_tag_def split: cmd_ref.splits)
  have frame: "valid_ref q2 c" "free_list q2 = free_list q"
    "caravan_iovs q2 = caravan_iovs q" "caravan_cmds q2 = caravan_cmds q"
    "caravan2_iovs q2 = caravan2_iovs q" "caravan2_cmds q2 = caravan2_cmds q"
    using v1 by (simp_all add: q2_def q1_def q0)
  show ?thesis
    using held pdu frame by (simp add: fe q2_def [symmetric])
qed

lemma try_send_one_r2t:
  assumes sel: "(if snd_cmd q = None \<or> q_state q = I10_TARGET_Q_DISCONNECTING
                 then i10_target_fetch_cmd q w else (snd_cmd q, q)) = (Some c, q1)"
    and v: "valid_ref q1 c" and st: "state (the_cmd q1 c) = I10_TARGET_SEND_R2T"
    and res: "i10_target_try_send_r2t c l q1 w = (ret, q', w')"
    and st': "state (the_cmd q' c) = I10_TARGET_SEND_R2T"
  shows "i10_target_try_send_one q w l =
           Inr ((if ret < 0 then (if ret = - EAGAIN then 0 else ret) else 1), q', w')"
  unfolding i10_target_try_send_one_def sel
  by (simp add: send_stage_def bind_fault_def v st res st')

text \<open>
  C7, as amended. Let \<open>i10_target_try_send_one\<close> be called when the command \<open>c\<close> enters
  \<open>SEND_R2T\<close> (\<open>r2t_taken\<close>, with \<open>qh\<close> the queue after the fetch and \<open>k = 0\<close>), or when
  \<open>c\<close> is held in \<open>SEND_R2T\<close> with \<open>k\<close> bytes sent, on a queue that is not disconnecting
  (\<open>qh\<close> is then the queue itself). On entry the PDU that was set up carries
  \<open>r2t_length = transfer_len - rbytes_done\<close>, \<open>r2t_offset = rbytes_done\<close> and, as \<open>ttag\<close>,
  the slot index for a slot of the array with an index below 65536, but the world's
  \<open>connect_tag\<close> for the embedded \<open>connect\<close> command; the free list and the caravans
  are as before. The call then makes one pass of the stage. On a queue that is not the
  admin queue the pass appends the PDU from byte \<open>k\<close> on as one segment of the second
  caravan and clears \<open>snd_cmd\<close>; when that caravan is full it appends nothing, sets
  \<open>send_now2\<close> and keeps the command as it is. On the admin queue the pass asks the
  socket once, for the bytes from \<open>k\<close> on: when the socket takes none the command is
  kept at \<open>k\<close>; when it takes \<open>r\<close> of them and not all, the command is kept at
  \<open>k + r\<close>; when it takes them all, \<open>snd_cmd\<close> is cleared. No pass changes the PDU, the
  send state of the command, the free list or the owners in the caravans. So the bytes
  of the PDU leave once and in order, and the command is not released.
\<close>

theorem r2t_emission:
  assumes "r2t_taken q w c \<and> qh = snd (i10_target_fetch_cmd q w) \<and> k = 0 \<or>
           q_state q \<noteq> I10_TARGET_Q_DISCONNECTING \<and> valid_ref q c \<and> r2t_held q c k \<and> qh = q"
  shows "(if r2t_taken q w c
          then r2t_pdu_for w q c (r2t_pdu (the_cmd qh c)) \<and> r2t_held qh c 0 \<and>
               free_list qh = free_list q \<and>
               caravan_iovs qh = caravan_iovs q \<and> caravan_cmds qh = caravan_cmds q \<and>
               caravan2_iovs qh = caravan2_iovs q \<and> caravan2_cmds qh = caravan2_cmds q
          else True) \<and>
         (\<exists>ret q' w'.
            i10_target_try_send_one q w l = Inr (ret, q', w') \<and> r2t_kept c qh q' \<and>
            (if \<not> i10_target_is_admin_queue qh
             then ret = 1 \<and> w' = w \<and>
                  (if i10_target_is_caravan2_full qh
                   then r2t_held q' c k \<and> send_now2 q' \<and> caravan2_iovs q' = caravan2_iovs qh
                   else snd_cmd q' = None \<and>
                        caravan2_iovs q' = caravan2_iovs qh @
                          [\<lparr>iov_base = (Buf_r2t_pdu c, k * sizeof_r2t_pdu),
                            iov_len = of_nat (r2t_len qh - k)\<rparr>])
             else caravan2_iovs q' = caravan2_iovs qh \<and>
                  (\<exists>r. fst (sock_send w (int (r2t_len qh - k))) = r \<and>
                       trace w' = trace w @
                          [Sendpage (Buf_r2t_pdu c, k) (int (r2t_len qh - k)) (r2t_flags qh l) r] \<and>
                       (if r \<le> 0
                        then r2t_held q' c k \<and>
                             ret = (if r = 0 then 1 else if r = - EAGAIN then 0 else r)
                        else if r < int (r2t_len qh - k)
                        then r2t_held q' c (k + nat r) \<and> ret = 0
                        else r = int (r2t_len qh - k) \<and> snd_cmd q' = None \<and> ret = 1))))"
proof -
  have sel: "(if snd_cmd q = None \<or> q_state q = I10_TARGET_Q_DISCONNECTING
              then i10_target_fetch_cmd q w else (snd_cmd q, q)) = (Some c, qh)"
    and v: "valid_ref qh c" and held: "r2t_held qh c k"
    and first: "r2t_taken q w c \<Longrightarrow>
                r2t_pdu_for w q c (r2t_pdu (the_cmd qh c)) \<and> r2t_held qh c 0 \<and>
                free_list qh = free_list q \<and>
                caravan_iovs qh = caravan_iovs q \<and> caravan_cmds qh = caravan_cmds q \<and>
                caravan2_iovs qh = caravan2_iovs q \<and> caravan2_cmds qh = caravan2_cmds q"
  proof -
    from assms consider
      (enter) "r2t_taken q w c" "qh = snd (i10_target_fetch_cmd q w)" "k = 0"
      | (resume) "q_state q \<noteq> I10_TARGET_Q_DISCONNECTING" "valid_ref q c" "r2t_held q c k"
          "qh = q"
      by blast
    then have "(if snd_cmd q = None \<or> q_state q = I10_TARGET_Q_DISCONNECTING
              then i10_target_fetch_cmd q w else (snd_cmd q, q)) = (Some c, qh) \<and>
       valid_ref qh c \<and> r2t_held qh c k \<and>
       (r2t_taken q w c \<longrightarrow>
                r2t_pdu_for w q c (r2t_pdu (the_cmd qh c)) \<and> r2t_held qh c 0 \<and>
                free_list qh = free_list q \<and>
                caravan_iovs qh = caravan_iovs q \<and> caravan_cmds qh = caravan_cmds q \<and>
                caravan2_iovs qh = caravan2_iovs q \<and> caravan2_cmds qh = caravan2_cmds q)"
    proof cases
      case enter
      with r2t_setup [OF enter(1)] show ?thesis
        by (auto simp: r2t_taken_def split: prod.splits)
    next
      case resume
      then show ?thesis
        by (auto simp: r2t_taken_def r2t_held_def)
    qed
    then show "(if snd_cmd q = None \<or> q_state q = I10_TARGET_Q_DISCONNECTING
              then i10_target_fetch_cmd q w else (snd_cmd q, q)) = (Some c, qh)"
      and "valid_ref qh c" and "r2t_held qh c k"
      and "r2t_taken q w c \<Longrightarrow>
                r2t_pdu_for w q c (r2t_pdu (the_cmd qh c)) \<and> r2t_held qh c 0 \<and>
                free_list qh = free_list q \<and>
                caravan_iovs qh = caravan_iovs q \<and> caravan_cmds qh = caravan_cmds q \<and>
                caravan2_iovs qh = caravan2_iovs q \<and> caravan2_cmds qh = caravan2_cmds q"
      by simp_all
  qed
  from held have st: "state (the_cmd qh c) = I10_TARGET_SEND_R2T"
    and off: "offset (the_cmd qh c) = of_nat k" and k: "k < r2t_len qh"
    and sc: "snd_cmd qh = Some c"
    by (simp_all add: r2t_held_def)
  note stage = r2t_stage [OF st off k, of l w]
  note one = try_send_one_r2t [OF sel v st, of l]
  have pass: "\<exists>ret q' w'.
            i10_target_try_send_one q w l = Inr (ret, q', w') \<and> r2t_kept c qh q' \<and>
            (if \<not> i10_target_is_admin_queue qh
             then ret = 1 \<and> w' = w \<and>
                  (if i10_target_is_caravan2_full qh
                   then r2t_held q' c k \<and> send_now2 q' \<and> caravan2_iovs q' = caravan2_iovs qh
                   else snd_cmd q' = None \<and>
                        caravan2_iovs q' = caravan2_iovs qh @
                          [\<lparr>iov_base = (Buf_r2t_pdu c, k * sizeof_r2t_pdu),
                            iov_len = of_nat (r2t_len qh - k)\<rparr>])
             else caravan2_iovs q' = caravan2_iovs qh \<and>
                  (\<exists>r. fst (sock_send w (int (r2t_len qh - k))) = r \<and>
                       trace w' = trace w @
                          [Sendpage (Buf_r2t_pdu c, k) (int (r2t_len qh - k)) (r2t_flags qh l) r] \<and>
                       (if r \<le> 0
                        then r2t_held q' c k \<and>
                             ret = (if r = 0 then 1 else if r = - EAGAIN then 0 else r)
                        else if r < int (r2t_len qh - k)
                        then r2t_held q' c (k + nat r) \<and> ret = 0
                        else r = int (r2t_len qh - k) \<and> snd_cmd q' = None \<and> ret = 1)))"
  proof (cases "i10_target_is_admin_queue qh")
    case False
    show ?thesis
    proof (cases "i10_target_is_caravan2_full qh")
      case True
      from stage False True
      have "i10_target_try_send_r2t c l qh w = (1, qh\<lparr>send_now2 := True\<rparr>, w)" by simp
      from one [OF this] st
      have "i10_target_try_send_one q w l = Inr (1, qh\<lparr>send_now2 := True\<rparr>, w)" by simp
      with False True held show ?thesis
        by (simp add: r2t_kept_def r2t_held_def r2t_len_def i10_target_hdgst_len_def st)
    next
      case full: False
      define q' where "q' = (upd_cmd
                     (qh\<lparr>caravan2_iovs := caravan2_iovs qh @
                          [\<lparr>iov_base = (Buf_r2t_pdu c, k * sizeof_r2t_pdu),
                            iov_len = of_nat (r2t_len qh - k)\<rparr>],
                        caravan2_len := caravan2_len qh + of_nat (r2t_len qh - k)\<rparr>)
                     c (\<lambda>x. x\<lparr>offset := of_nat (r2t_len qh)\<rparr>))\<lparr>snd_cmd := None\<rparr>"
      have c': "the_cmd q' c = (the_cmd qh c)\<lparr>offset := of_nat (r2t_len qh)\<rparr>"
        using v by (simp add: q'_def the_cmd_upd_cmd)
      from stage False full
      have "i10_target_try_send_r2t c l qh w = (1, q', w)" by (simp add: q'_def)
      from one [OF this] st c'
      have "i10_target_try_send_one q w l = Inr (1, q', w)" by simp
      moreover have "r2t_kept c qh q'" "snd_cmd q' = None"
        "caravan2_iovs q' = caravan2_iovs qh @
                          [\<lparr>iov_base = (Buf_r2t_pdu c, k * sizeof_r2t_pdu),
                            iov_len = of_nat (r2t_len qh - k)\<rparr>]"
        by (simp_all add: r2t_kept_def c' st) (simp_all add: q'_def)
      ultimately show ?thesis
        using False full by simp
    qed
  next
    case True
    obtain r w1 where r: "kernel_sendpage w (Buf_r2t_pdu c, k) (int (r2t_len qh - k))
                            (r2t_flags qh l) = (r, w1)"
      by (cases "kernel_sendpage w (Buf_r2t_pdu c, k) (int (r2t_len qh - k)) (r2t_flags qh l)")
    from kernel_sendpage_le [of w "(Buf_r2t_pdu c, k)" "int (r2t_len qh - k)" "r2t_flags qh l"] r
    have le: "r \<le> int (r2t_len qh - k)" by simp
    note tr = trace_kernel_sendpage [OF r] kernel_sendpage_fst [OF r]
    consider (none) "r \<le> 0" | (part) "0 < r" "r < int (r2t_len qh - k)"
      | (whole) "r = int (r2t_len qh - k)"
      using le by linarith
    then show ?thesis
    proof cases
      case none
      from stage True r none k
      have "i10_target_try_send_r2t c l qh w = (r, qh, w1)" by simp
      from one [OF this st]
      have "i10_target_try_send_one q w l =
              Inr ((if r < 0 then (if r = - EAGAIN then 0 else r) else 1), qh, w1)" .
      with True none held tr show ?thesis
        by (auto simp: r2t_kept_def st EAGAIN_def)
    next
      case part
      define q' where "q' = upd_cmd qh c (\<lambda>x. x\<lparr>offset := of_nat (k + nat r)\<rparr>)"
      have c': "the_cmd q' c = (the_cmd qh c)\<lparr>offset := of_nat (k + nat r)\<rparr>"
        using v by (simp add: q'_def the_cmd_upd_cmd)
      from stage True r part k
      have "i10_target_try_send_r2t c l qh w = (- EAGAIN, q', w1)" by (simp add: q'_def)
      from one [OF this] st c'
      have "i10_target_try_send_one q w l = Inr (0, q', w1)" by (simp add: EAGAIN_def)
      moreover have len: "r2t_len q' = r2t_len qh"
        by (simp add: r2t_len_def i10_target_hdgst_len_def q'_def)
      have "k + nat r < r2t_len qh"
        using part by linarith
      then have "r2t_kept c qh q'" "r2t_held q' c (k + nat r)"
        "caravan2_iovs q' = caravan2_iovs qh"
        using sc
        by (simp_all add: r2t_kept_def r2t_held_def c' st len) (simp_all add: q'_def)
      ultimately show ?thesis
        using True part tr by auto
    next
      case whole
      define q' where "q' = (upd_cmd qh c (\<lambda>x. x\<lparr>offset := of_nat (r2t_len qh)\<rparr>))\<lparr>snd_cmd := None\<rparr>"
      have c': "the_cmd q' c = (the_cmd qh c)\<lparr>offset := of_nat (r2t_len qh)\<rparr>"
        using v by (simp add: q'_def the_cmd_upd_cmd)
      from stage True r whole k
      have "i10_target_try_send_r2t c l qh w = (1, q', w1)" by (simp add: q'_def)
      from one [OF this] st c'
      have "i10_target_try_send_one q w l = Inr (1, q', w1)" by simp
      moreover have "r2t_kept c qh q'" "snd_cmd q' = None"
        "caravan2_iovs q' = caravan2_iovs qh"
        by (simp_all add: r2t_kept_def c' st) (simp_all add: q'_def)
      ultimately show ?thesis
        using True whole k tr by auto
    qed
  qed
  from first pass show ?thesis by simp
qed

text \<open>
  The first command of a connection. After the connection request the peer sends the
  fabrics connect command, a write, with an SGL descriptor that is not of the inline
  type. \<open>i10_target_get_cmd\<close> hands out the embedded \<open>connect\<close> command, which is the
  only entry of the free list as long as \<open>queue->cmds\<close> is \<open>NULL\<close>.
\<close>

definition icreq_bytes :: "u8 list" where
  "icreq_bytes = [0, 0, 128, 0, 128, 0, 0, 0] @ replicate 120 0"

definition connect_capsule :: "u8 list" where
  "connect_capsule =
     [4, 0, 72, 0, 72, 0, 0, 0,
      0x7f, 0, 3, 0, 1, 0, 0, 0, 0, 0, 0, 0, 0, 0, 0, 0, 0, 0, 0, 0, 0, 0, 0, 0,
      0, 0, 0, 0, 0, 0, 0, 0, 0, 4, 0, 0, 0, 0, 0, 0x5a] @ replicate 24 0"

definition connect_world :: world where
  "connect_world =
     idle_world\<lparr>rx_script := [Rx_upto 128, Rx_upto 128, Rx_upto 128, Rx_upto 128],
                 rx_stream := icreq_bytes @ connect_capsule,
                 tx_script := [Tx_accept 128, Tx_accept 128], connect_tag := 0xBEEF\<rparr>"

text \<open>
  The claim as stated fails for that command: its R2T carries as \<open>ttag\<close> the difference
  \<open>&queue->connect - queue->cmds\<close> (here \<open>0xBEEF\<close>), which is no slot index; the array
  has no slot at all.
\<close>

theorem r2t_connect_counterexample:
  "case i10_target_try_recv_one (i10_target_alloc_queue 0 0 16384) connect_world of
     Inl f \<Rightarrow> False
   | Inr (r1, q1, w1) \<Rightarrow>
       (case i10_target_try_recv_one q1 w1 of
          Inl f \<Rightarrow> False
        | Inr (r2, q2, w2) \<Rightarrow>
            (case i10_target_try_send_one q2 w2 False of
               Inl f \<Rightarrow> False
             | Inr (r3, q3, w3) \<Rightarrow>
                 q_state q1 = I10_TARGET_Q_LIVE \<and> resp_list q2 = [Connect] \<and>
                 nvme_is_write (req_cmd (connect q2)) \<and>
                 trace w3 =
                   [Sendmsg [\<lparr>iov_base = (Buf_icresp, 0), iov_len = 128\<rparr>] 128 0 128,
                    Queue_work 0,
                    Sendpage (Buf_r2t_pdu Connect, 0) 24 (MSG_DONTWAIT OR MSG_EOR) 24] \<and>
                 state (connect q3) = I10_TARGET_SEND_R2T \<and> snd_cmd q3 = None \<and>
                 r2t_length (r2t_pdu (connect q3)) = 1024 \<and>
                 ttag (r2t_pdu (connect q3)) = 0xBEEF \<and> cmds q3 = [] \<and> nr_cmds q3 = 0))"
  by (simp add: connect_world_def icreq_bytes_def connect_capsule_def fixture_defs send_defs
      recv_defs i10_target_cmd_tag_def)

text \<open>
  A write of 8192 bytes without inline data in slot 1 of the I/O queue, at the head of
  the send list; and the same write held by the admin queue, after a first
  \<open>kernel_sendpage\<close> that took 10 bytes of its R2T PDU.
\<close>

definition r2t_queue :: i10_target_queue where
  "r2t_queue =
     (upd_cmd io_queue (Slot 1)
        (\<lambda>x. x\<lparr>req_cmd := (req_cmd x)\<lparr>opcode := 1, command_id := 5, sgl_length := 8192\<rparr>,
               req_transfer_len := 8192, req_data_len := 8192, req_sg := [4096, 4096],
               cur_sg := Some 0\<rparr>))
     \<lparr>free_list := [Slot 0, Slot 2, Slot 3], resp_send_list := [Slot 1], send_list_len := 1\<rparr>"

definition r2t_partial_queue :: i10_target_queue where
  "r2t_partial_queue =
     (upd_cmd admin_queue (Slot 1)
        (\<lambda>x. i10_target_setup_r2t_pdu admin_queue idle_world (Slot 1)
               (x\<lparr>req_cmd := (req_cmd x)\<lparr>opcode := 1, command_id := 5, sgl_length := 8192\<rparr>,
                  req_transfer_len := 8192, req_data_len := 8192, req_sg := [4096, 4096],
                  cur_sg := Some 0\<rparr>)\<lparr>offset := 10\<rparr>))
     \<lparr>free_list := [Slot 0, Slot 2, Slot 3], snd_cmd := Some (Slot 1)\<rparr>"

theorem r2t_emission_witness:
  "(\<exists>q'. i10_target_try_send_one r2t_queue idle_world False = Inr (1, q', idle_world) \<and>
         caravan2_iovs q' = [\<lparr>iov_base = (Buf_r2t_pdu (Slot 1), 0), iov_len = 24\<rparr>] \<and>
         caravan_iovs q' = [] \<and> caravan_cmds q' = [] \<and> caravan2_cmds q' = [] \<and>
         snd_cmd q' = None \<and> free_list q' = [Slot 0, Slot 2, Slot 3] \<and>
         r2t_length (r2t_pdu (cmds q' ! 1)) = 8192 \<and>
         r2t_offset (r2t_pdu (cmds q' ! 1)) = 0 \<and>
         unat (ttag (r2t_pdu (cmds q' ! 1))) = 1) \<and>
   (\<exists>q' w'. i10_target_try_send_one r2t_partial_queue
                   (idle_world\<lparr>tx_script := [Tx_accept 100]\<rparr>) False = Inr (1, q', w') \<and>
         trace w' = [Sendpage (Buf_r2t_pdu (Slot 1), 10) 14 (MSG_DONTWAIT OR MSG_EOR) 14] \<and>
         snd_cmd q' = None \<and> free_list q' = [Slot 0, Slot 2, Slot 3] \<and>
         caravan_cmds q' = [] \<and> caravan2_cmds q' = [] \<and>
         unat (ttag (r2t_pdu (cmds q' ! 1))) = 1)"
proof -
  define q1 where "q1 = snd (i10_target_fetch_cmd r2t_queue idle_world)"
  have a: "r2t_taken r2t_queue idle_world (Slot 1)"
    by (simp add: r2t_taken_def r2t_queue_def fixture_defs send_defs)
  have b: "\<not> i10_target_is_admin_queue q1" "\<not> i10_target_is_caravan2_full q1"
    "r2t_len q1 = 24"
    by (simp_all add: q1_def r2t_queue_def fixture_defs send_defs r2t_len_def)
  have c: "caravan2_iovs r2t_queue = []" "caravan_iovs r2t_queue = []"
    "caravan_cmds r2t_queue = []" "caravan2_cmds r2t_queue = []"
    "free_list r2t_queue = [Slot 0, Slot 2, Slot 3]"
    "req_transfer_len (cmds r2t_queue ! 1) = 8192" "rbytes_done (cmds r2t_queue ! 1) = 0"
    by (simp_all add: r2t_queue_def fixture_defs)
  from r2t_emission [where q = r2t_queue and w = idle_world and c = "Slot 1" and qh = q1
      and k = 0 and l = False] a b c
  have first: "\<exists>q'. i10_target_try_send_one r2t_queue idle_world False = Inr (1, q', idle_world) \<and>
         caravan2_iovs q' = [\<lparr>iov_base = (Buf_r2t_pdu (Slot 1), 0), iov_len = 24\<rparr>] \<and>
         caravan_iovs q' = [] \<and> caravan_cmds q' = [] \<and> caravan2_cmds q' = [] \<and>
         snd_cmd q' = None \<and> free_list q' = [Slot 0, Slot 2, Slot 3] \<and>
         r2t_length (r2t_pdu (cmds q' ! 1)) = 8192 \<and>
         r2t_offset (r2t_pdu (cmds q' ! 1)) = 0 \<and>
         unat (ttag (r2t_pdu (cmds q' ! 1))) = 1"
    by (auto simp: q1_def [symmetric] r2t_kept_def r2t_pdu_for_def the_cmd_def)
  have d: "q_state r2t_partial_queue \<noteq> I10_TARGET_Q_DISCONNECTING"
    "valid_ref r2t_partial_queue (Slot 1)" "r2t_held r2t_partial_queue (Slot 1) 10"
    "i10_target_is_admin_queue r2t_partial_queue" "r2t_len r2t_partial_queue = 24"
    "free_list r2t_partial_queue = [Slot 0, Slot 2, Slot 3]"
    "caravan_cmds r2t_partial_queue = []" "caravan2_cmds r2t_partial_queue = []"
    "unat (ttag (r2t_pdu (cmds r2t_partial_queue ! 1))) = 1"
    "send_list_len r2t_partial_queue = 0"
    by (simp_all add: r2t_partial_queue_def fixture_defs send_defs r2t_len_def r2t_held_def
        i10_target_cmd_tag_def)
  have e: "fst (sock_send (idle_world\<lparr>tx_script := [Tx_accept 100]\<rparr>) 14) = 14"
    "trace (idle_world\<lparr>tx_script := [Tx_accept 100]\<rparr>) = []"
    by (simp_all add: sock_send_def idle_world_def)
  from r2t_emission [where q = r2t_partial_queue and w = "idle_world\<lparr>tx_script := [Tx_accept 100]\<rparr>"
      and c = "Slot 1" and qh = r2t_partial_queue and k = 10 and l = False] d e
  have second: "\<exists>q' w'. i10_target_try_send_one r2t_partial_queue
                   (idle_world\<lparr>tx_script := [Tx_accept 100]\<rparr>) False = Inr (1, q', w') \<and>
         trace w' = [Sendpage (Buf_r2t_pdu (Slot 1), 10) 14 (MSG_DONTWAIT OR MSG_EOR) 14] \<and>
         snd_cmd q' = None \<and> free_list q' = [Slot 0, Slot 2, Slot 3] \<and>
         caravan_cmds q' = [] \<and> caravan2_cmds q' = [] \<and>
         unat (ttag (r2t_pdu (cmds q' ! 1))) = 1"
    by (auto simp: r2t_kept_def r2t_flags_def the_cmd_def)
  from first second show ?thesis by simp
qed

section \<open>Caravan flush\<close>

text \<open>
  The invariant of the two caravans: the byte count of each is the sum of the lengths of
  its segments, in the arithmetic of \<open>size_t\<close>.
\<close>

definition caravan_ok :: "i10_target_queue \<Rightarrow> bool" where
  "caravan_ok q =
     (caravan_len q = sum_list (map iov_len (caravan_iovs q)) \<and>
      caravan2_len q = sum_list (map iov_len (caravan2_iovs q)))"

text \<open>Between two flushes the six arrays of the caravans only grow at their ends.\<close>

definition appends_only :: "i10_target_queue \<Rightarrow> i10_target_queue \<Rightarrow> bool" where
  "appends_only q q' =
     (prefix (caravan_iovs q) (caravan_iovs q') \<and> prefix (caravan_cmds q) (caravan_cmds q') \<and>
      prefix (caravan_mapped q) (caravan_mapped q') \<and>
      prefix (caravan2_iovs q) (caravan2_iovs q') \<and>
      prefix (caravan2_cmds q) (caravan2_cmds q') \<and>
      prefix (caravan2_mapped q) (caravan2_mapped q'))"

definition caravan_step :: "i10_target_queue \<Rightarrow> i10_target_queue \<Rightarrow> bool" where
  "caravan_step q q' = (appends_only q q' \<and> (if caravan_ok q then caravan_ok q' else True))"

lemma caravan_step_refl [simp]: "caravan_step q q"
  by (simp add: caravan_step_def appends_only_def)

lemma caravan_step_trans: "caravan_step q q' \<Longrightarrow> caravan_step q' q'' \<Longrightarrow> caravan_step q q''"
  by (auto simp: caravan_step_def appends_only_def split: if_splits intro: prefix_order.trans)

lemma put_cmd_caravan [simp]:
  "caravan_iovs (i10_target_put_cmd q c) = caravan_iovs q"
  "caravan_cmds (i10_target_put_cmd q c) = caravan_cmds q"
  "caravan_mapped (i10_target_put_cmd q c) = caravan_mapped q"
  "caravan_len (i10_target_put_cmd q c) = caravan_len q"
  "caravan2_iovs (i10_target_put_cmd q c) = caravan2_iovs q"
  "caravan2_cmds (i10_target_put_cmd q c) = caravan2_cmds q"
  "caravan2_mapped (i10_target_put_cmd q c) = caravan2_mapped q"
  "caravan2_len (i10_target_put_cmd q c) = caravan2_len q"
  by (simp_all add: i10_target_put_cmd_def)

lemmas caravan_step_defs = caravan_step_def appends_only_def caravan_ok_def

lemma caravan_step_data_pdu:
  "i10_target_try_send_data_pdu c q w = (ret, q', w') \<Longrightarrow> caravan_step q q'"
  by (auto simp: i10_target_try_send_data_pdu_def Let_def caravan_step_defs
      split: if_splits prod.splits)

lemma caravan_step_r2t:
  "i10_target_try_send_r2t c l q w = (ret, q', w') \<Longrightarrow> caravan_step q q'"
  by (auto simp: i10_target_try_send_r2t_def Let_def caravan_step_defs
      split: if_splits prod.splits)

lemma caravan_step_ddgst:
  "i10_target_try_send_ddgst c q w = (ret, q', w') \<Longrightarrow> caravan_step q q'"
  by (auto simp: i10_target_try_send_ddgst_def Let_def caravan_step_defs
      split: if_splits prod.splits)

lemma caravan_step_response:
  "i10_target_try_send_response c l q w = (ret, q', w') \<Longrightarrow> caravan_step q q'"
  by (auto simp: i10_target_try_send_response_def Let_def caravan_step_defs
      split: if_splits prod.splits)

lemma caravan_step_data_step:
  "try_send_data_step c q w = Inl (Inr (ret, q', w')) \<Longrightarrow> caravan_step q q'"
  "try_send_data_step c q w = Inr (q', w') \<Longrightarrow> caravan_step q q'"
  by (auto simp: try_send_data_step_def Let_def caravan_step_defs
      split: if_splits prod.splits option.splits)

lemma caravan_step_data:
  "i10_target_try_send_data c q w = Inr (ret, q', w') \<Longrightarrow> caravan_step q q'"
proof (induction c q w rule: i10_target_try_send_data.induct)
  case (1 c q w)
  show ?case
  proof (cases "try_send_data_step c q w")
    case (Inl r)
    with "1.prems" show ?thesis
      by (simp add: i10_target_try_send_data.simps [of c q w] caravan_step_data_step(1))
  next
    case (Inr p)
    obtain q1 w1 where p: "p = (q1, w1)" by (cases p)
    with Inr "1.prems" have "i10_target_try_send_data c q1 w1 = Inr (ret, q', w')"
      by (simp add: i10_target_try_send_data.simps [of c q w])
    with "1.IH" Inr p have "caravan_step q1 q'" by simp
    moreover from Inr p have "caravan_step q q1" by (simp add: caravan_step_data_step(2))
    ultimately show ?thesis by (rule caravan_step_trans [rotated])
  qed
qed

lemma caravan_step_fetch:
  "i10_target_fetch_cmd q w = (co, q') \<Longrightarrow> caravan_step q q'"
  by (auto simp: i10_target_fetch_cmd_def i10_target_process_resp_list_def Let_def
      caravan_step_defs split: list.splits)

lemma caravan_step_stage:
  assumes "send_stage st f c (stop, ret, q1, w1) = Inr (stop', ret', q', w')"
    and "caravan_step q q1"
    and "\<And>r q2 w2. f c q1 w1 = Inr (r, q2, w2) \<Longrightarrow> caravan_step q1 q2"
  shows "caravan_step q q'"
  using assms
  by (auto simp: send_stage_def split: if_splits sum.splits intro: caravan_step_trans)

lemma caravan_step_try_send_one:
  assumes "i10_target_try_send_one q w l = Inr (ret, q', w')"
  shows "caravan_step q q'"
proof -
  obtain co q0 where f: "(if snd_cmd q = None \<or> q_state q = I10_TARGET_Q_DISCONNECTING
                     then i10_target_fetch_cmd q w else (snd_cmd q, q)) = (co, q0)"
    by (cases "(if snd_cmd q = None \<or> q_state q = I10_TARGET_Q_DISCONNECTING
                     then i10_target_fetch_cmd q w else (snd_cmd q, q))")
  then have s0: "caravan_step q q0"
    by (auto split: if_splits dest: caravan_step_fetch)
  show ?thesis
  proof (cases co)
    case None
    with assms f s0 show ?thesis
      by (simp add: i10_target_try_send_one_def)
  next
    case (Some c)
    with assms f obtain s1 s2 s3 s4 s5 where
      st: "send_stage I10_TARGET_SEND_DATA_PDU
             (\<lambda>c q w. Inr (i10_target_try_send_data_pdu c q w)) c (False, 0, q0, w) = Inr s1"
          "send_stage I10_TARGET_SEND_DATA i10_target_try_send_data c s1 = Inr s2"
          "send_stage I10_TARGET_SEND_DDGST
             (\<lambda>c q w. Inr (i10_target_try_send_ddgst c q w)) c s2 = Inr s3"
          "send_stage I10_TARGET_SEND_R2T
             (\<lambda>c q w. Inr (i10_target_try_send_r2t c l q w)) c s3 = Inr s4"
          "send_stage I10_TARGET_SEND_RESPONSE
             (\<lambda>c q w. Inr (i10_target_try_send_response c l q w)) c s4 = Inr s5"
      and q': "fst (snd (snd s5)) = q'"
      by (auto simp: i10_target_try_send_one_def bind_fault_def
          split: if_splits sum.splits prod.splits)
    obtain b1 r1 q1 w1 where s1: "s1 = (b1, r1, q1, w1)" by (cases s1)
    obtain b2 r2 q2 w2 where s2: "s2 = (b2, r2, q2, w2)" by (cases s2)
    obtain b3 r3 q3 w3 where s3: "s3 = (b3, r3, q3, w3)" by (cases s3)
    obtain b4 r4 q4 w4 where s4: "s4 = (b4, r4, q4, w4)" by (cases s4)
    obtain b5 r5 q5 w5 where s5: "s5 = (b5, r5, q5, w5)" by (cases s5)
    have c1: "caravan_step q q1"
      by (rule caravan_step_stage [OF st(1) [unfolded s1] s0]) (auto dest: caravan_step_data_pdu)
    have c2: "caravan_step q q2"
      by (rule caravan_step_stage [OF st(2) [unfolded s1 s2] c1]) (rule caravan_step_data)
    have c3: "caravan_step q q3"
      by (rule caravan_step_stage [OF st(3) [unfolded s2 s3] c2]) (auto dest: caravan_step_ddgst)
    have c4: "caravan_step q q4"
      by (rule caravan_step_stage [OF st(4) [unfolded s3 s4] c3]) (auto dest: caravan_step_r2t)
    have "caravan_step q q5"
      by (rule caravan_step_stage [OF st(5) [unfolded s4 s5] c4])
         (auto dest: caravan_step_response)
    with q' s5 show ?thesis by simp
  qed
qed

text \<open>
  What a flush does after the send: per owning command \<open>kfree(iov)\<close> and \<open>sgl_free\<close>, then
  \<open>kunmap\<close> per mapped page; and the commands that \<open>i10_target_put_cmd\<close> adds to the free
  list, which are the owners other than the \<open>connect\<close> command.
\<close>

definition release_events :: "cmd_ref list \<Rightarrow> buf list \<Rightarrow> event list" where
  "release_events cs ps = concat (map (\<lambda>c. [Kfree_iov c, Sgl_free c]) cs) @ map Kunmap ps"

definition released :: "cmd_ref list \<Rightarrow> cmd_ref list" where
  "released cs = filter (\<lambda>c. c \<noteq> Connect) cs"

lemma trace_fold_free:
  "trace (fold (\<lambda>c. emit (Sgl_free c) \<circ> emit (Kfree_iov c)) cs w) =
   trace w @ concat (map (\<lambda>c. [Kfree_iov c, Sgl_free c]) cs)"
  by (induction cs arbitrary: w) (simp_all add: emit_def)

lemma trace_fold_kunmap:
  "trace (fold (\<lambda>p. emit (Kunmap p)) ps w) = trace w @ map Kunmap ps"
  by (induction ps arbitrary: w) (simp_all add: emit_def)

lemma fold_put_cmd:
  "fold (\<lambda>c q'. i10_target_put_cmd q' c) cs q = q\<lparr>free_list := free_list q @ released cs\<rparr>"
  by (induction cs arbitrary: q) (simp_all add: i10_target_put_cmd_def released_def)

text \<open>
  The owners of a caravan can be put on the free list: no two of them are the same
  command, and none is linked in a list.
\<close>

definition owners_unlinked :: "i10_target_queue \<Rightarrow> cmd_ref list \<Rightarrow> bool" where
  "owners_unlinked q cs =
     (distinct (released cs) \<and> (\<forall>c \<in> set (released cs). entry_unlinked q c))"

text \<open>
  The calls of a flush of the segments \<open>iovs\<close> with the owners \<open>owners\<close> and the pages
  \<open>pages\<close>: one \<open>kernel_sendmsg\<close> over the segments that asks for the sum of their
  lengths, whatever the socket returns, then the release.
\<close>

definition flush_trace ::
  "world \<Rightarrow> kvec list \<Rightarrow> cmd_ref list \<Rightarrow> buf list \<Rightarrow> world \<Rightarrow> bool" where
  "flush_trace w iovs owners pages w' =
     (trace w' =
        trace w @
        Sendmsg iovs (sum_list (map iov_len iovs)) (MSG_DONTWAIT OR MSG_EOR)
          (fst (sock_send w (uint (sum_list (map iov_len iovs))))) #
        release_events owners pages)"

lemma send_caravan_flushed:
  assumes "caravan_ok q" and "\<not> i10_target_sndbuf_nospace w (caravan_len q)"
  shows "\<exists>w'. send_caravan q w =
               (False,
                q\<lparr>free_list := free_list q @ released (caravan_cmds q),
                  caravan_iovs := [], caravan_cmds := [], caravan_mapped := [],
                  caravan_len := 0, send_now := False\<rparr>,
                w') \<and>
              flush_trace w (caravan_iovs q) (caravan_cmds q) (caravan_mapped q) w'"
  using assms trace_sock_send [of w "uint (caravan_len q)"]
  by (auto simp: send_caravan_def Let_def kernel_sendmsg_def flush_trace_def release_events_def
      trace_fold_free trace_fold_kunmap fold_put_cmd caravan_ok_def emit_def
      split: prod.splits)

lemma send_caravan2_flushed:
  assumes "caravan_ok q" and "\<not> i10_target_sndbuf_nospace w (caravan2_len q)"
  shows "\<exists>w'. send_caravan2 q w =
               (False,
                q\<lparr>free_list := free_list q @ released (caravan2_cmds q),
                  caravan2_iovs := [], caravan2_cmds := [], caravan2_mapped := [],
                  caravan2_len := 0, send_now2 := False\<rparr>,
                w') \<and>
              flush_trace w (caravan2_iovs q) (caravan2_cmds q) (caravan2_mapped q) w'"
  using assms trace_sock_send [of w "uint (caravan2_len q)"]
  by (auto simp: send_caravan2_def Let_def kernel_sendmsg_def flush_trace_def release_events_def
      trace_fold_free trace_fold_kunmap fold_put_cmd caravan_ok_def emit_def
      split: prod.splits)

lemma send_caravan_nospace:
  "i10_target_sndbuf_nospace w (caravan_len q) \<Longrightarrow>
   send_caravan q w = (True, q, emit Set_nospace w)"
  "i10_target_sndbuf_nospace w (caravan2_len q) \<Longrightarrow>
   send_caravan2 q w = (True, q, emit Set_nospace w)"
  by (simp_all add: send_caravan_def send_caravan2_def)

lemma send_caravan_ok:
  "caravan_ok q \<Longrightarrow> send_caravan q w = (stop, q', w') \<Longrightarrow> caravan_ok q'"
  "caravan_ok q \<Longrightarrow> send_caravan2 q w = (stop, q', w') \<Longrightarrow> caravan_ok q'"
  by (auto simp: send_caravan_def send_caravan2_def Let_def fold_put_cmd caravan_ok_def
      split: if_splits prod.splits)

lemma try_send_loop_ok:
  "try_send_loop n r0 q w s = Inr (ret, q', w', s') \<Longrightarrow> caravan_ok q \<Longrightarrow> caravan_ok q'"
proof (induction n arbitrary: r0 q w s)
  case 0
  then show ?case by simp
next
  case (Suc n)
  from Suc.prems(1) obtain r1 q1 w1 where
    one: "i10_target_try_send_one q w (n = 0) = Inr (r1, q1, w1)"
    by (auto split: sum.splits)
  from caravan_step_try_send_one [OF one] Suc.prems(2) have ok1: "caravan_ok q1"
    by (simp add: caravan_step_def)
  obtain stop1 q2 w2 where
    f1: "(if (send_now q1 \<or> r1 \<le> 0 \<or> n = 0) \<and> caravan_len q1 \<noteq> 0
          then send_caravan q1 w1 else (False, q1, w1)) = (stop1, q2, w2)"
    by (cases "(if (send_now q1 \<or> r1 \<le> 0 \<or> n = 0) \<and> caravan_len q1 \<noteq> 0
          then send_caravan q1 w1 else (False, q1, w1))")
  with ok1 have ok2: "caravan_ok q2"
    by (auto split: if_splits dest: send_caravan_ok(1))
  obtain stop2 q3 w3 where
    f2: "(if (send_now2 q2 \<or> r1 \<le> 0 \<or> n = 0) \<and> caravan2_len q2 \<noteq> 0
          then send_caravan2 q2 w2 else (False, q2, w2)) = (stop2, q3, w3)"
    by (cases "(if (send_now2 q2 \<or> r1 \<le> 0 \<or> n = 0) \<and> caravan2_len q2 \<noteq> 0
          then send_caravan2 q2 w2 else (False, q2, w2))")
  with ok2 have ok3: "caravan_ok q3"
    by (auto split: if_splits dest: send_caravan_ok(2))
  from Suc.prems(1) one f1 f2 ok2 ok3 Suc.IH show ?case
    by (auto simp: Let_def split: if_splits)
qed

text \<open>
  C3, as amended. A new queue has both caravans empty and satisfies the invariant
  \<open>caravan_ok\<close>. Every call of \<open>i10_target_try_send_one\<close> only appends to the caravans
  and keeps the invariant, and so does a whole pass of \<open>i10_target_try_send\<close>, with its
  interleaved flushes. A flush that finds no room in the send buffer leaves the queue as
  it is. A flush of a caravan that finds room issues one \<open>kernel_sendmsg\<close> over exactly
  the segments of that caravan and asks for \<open>caravan_len\<close> bytes, the sum of their
  lengths; what the socket returns is not looked at. It then applies
  \<open>i10_target_put_cmd\<close> to exactly the owners of that caravan, in order, which appends
  them to the free list except for the \<open>connect\<close> command (the owners being unlinked
  commands), and empties that caravan. Nothing else in the queue changes: a flush of
  the first caravan leaves the second as it is, and the other way round. So each caravan
  holds, at each flush, exactly what was appended to it since its last flush.
\<close>

theorem caravan_flush_accounting:
  "(caravan_ok (i10_target_alloc_queue queue_idx queue_cpu ids) \<and>
    caravan_iovs (i10_target_alloc_queue queue_idx queue_cpu ids) = [] \<and>
    caravan_cmds (i10_target_alloc_queue queue_idx queue_cpu ids) = [] \<and>
    caravan_mapped (i10_target_alloc_queue queue_idx queue_cpu ids) = [] \<and>
    caravan2_iovs (i10_target_alloc_queue queue_idx queue_cpu ids) = [] \<and>
    caravan2_cmds (i10_target_alloc_queue queue_idx queue_cpu ids) = [] \<and>
    caravan2_mapped (i10_target_alloc_queue queue_idx queue_cpu ids) = []) \<and>
   (\<forall>ret q' w'. i10_target_try_send_one q w l = Inr (ret, q', w') \<longrightarrow>
      appends_only q q' \<and> (caravan_ok q \<longrightarrow> caravan_ok q')) \<and>
   (\<forall>ret q' w' s'. try_send_loop n r0 q w s = Inr (ret, q', w', s') \<and> caravan_ok q \<longrightarrow>
      caravan_ok q') \<and>
   (i10_target_sndbuf_nospace w (caravan_len q) \<longrightarrow>
      send_caravan q w = (True, q, emit Set_nospace w)) \<and>
   (i10_target_sndbuf_nospace w (caravan2_len q) \<longrightarrow>
      send_caravan2 q w = (True, q, emit Set_nospace w)) \<and>
   (caravan_ok q \<and> \<not> i10_target_sndbuf_nospace w (caravan_len q) \<and>
    owners_unlinked q (caravan_cmds q) \<longrightarrow>
      (\<exists>w'. send_caravan q w =
               (False,
                q\<lparr>free_list := free_list q @ released (caravan_cmds q),
                  caravan_iovs := [], caravan_cmds := [], caravan_mapped := [],
                  caravan_len := 0, send_now := False\<rparr>,
                w') \<and>
            flush_trace w (caravan_iovs q) (caravan_cmds q) (caravan_mapped q) w')) \<and>
   (caravan_ok q \<and> \<not> i10_target_sndbuf_nospace w (caravan2_len q) \<and>
    owners_unlinked q (caravan2_cmds q) \<longrightarrow>
      (\<exists>w'. send_caravan2 q w =
               (False,
                q\<lparr>free_list := free_list q @ released (caravan2_cmds q),
                  caravan2_iovs := [], caravan2_cmds := [], caravan2_mapped := [],
                  caravan2_len := 0, send_now2 := False\<rparr>,
                w') \<and>
            flush_trace w (caravan2_iovs q) (caravan2_cmds q) (caravan2_mapped q) w'))"
proof (intro conjI allI impI)
  fix ret q' w'
  assume "i10_target_try_send_one q w l = Inr (ret, q', w')"
  then have s: "caravan_step q q'" by (rule caravan_step_try_send_one)
  then show "appends_only q q'" by (simp add: caravan_step_def)
  assume "caravan_ok q"
  with s show "caravan_ok q'" by (simp add: caravan_step_def)
next
  fix ret q' w' s'
  assume "try_send_loop n r0 q w s = Inr (ret, q', w', s') \<and> caravan_ok q"
  then show "caravan_ok q'" by (auto dest: try_send_loop_ok)
next
  assume "i10_target_sndbuf_nospace w (caravan_len q)"
  then show "send_caravan q w = (True, q, emit Set_nospace w)"
    by (rule send_caravan_nospace)
next
  assume "i10_target_sndbuf_nospace w (caravan2_len q)"
  then show "send_caravan2 q w = (True, q, emit Set_nospace w)"
    by (rule send_caravan_nospace)
next
  assume a: "caravan_ok q \<and> \<not> i10_target_sndbuf_nospace w (caravan_len q) \<and>
             owners_unlinked q (caravan_cmds q)"
  show "\<exists>w'. send_caravan q w =
               (False,
                q\<lparr>free_list := free_list q @ released (caravan_cmds q),
                  caravan_iovs := [], caravan_cmds := [], caravan_mapped := [],
                  caravan_len := 0, send_now := False\<rparr>,
                w') \<and>
            flush_trace w (caravan_iovs q) (caravan_cmds q) (caravan_mapped q) w'"
    by (rule send_caravan_flushed) (simp_all add: a)
next
  assume a: "caravan_ok q \<and> \<not> i10_target_sndbuf_nospace w (caravan2_len q) \<and>
             owners_unlinked q (caravan2_cmds q)"
  show "\<exists>w'. send_caravan2 q w =
               (False,
                q\<lparr>free_list := free_list q @ released (caravan2_cmds q),
                  caravan2_iovs := [], caravan2_cmds := [], caravan2_mapped := [],
                  caravan2_len := 0, send_now2 := False\<rparr>,
                w') \<and>
            flush_trace w (caravan2_iovs q) (caravan2_cmds q) (caravan2_mapped q) w'"
    by (rule send_caravan2_flushed) (simp_all add: a)
qed (simp_all add: caravan_ok_def i10_target_alloc_queue_def i10_target_prepare_receive_pdu_def)

text \<open>
  The I/O queue when its fabrics connect command has completed: the response of the
  embedded \<open>connect\<close> command is queued. The socket answers the flush with \<open>-EPIPE\<close>.
  The flush asked for 24 bytes and none was sent, and the owner is not on the free list
  afterwards: the claim as stated fails on both counts.
\<close>

definition connect_rsp_queue :: i10_target_queue where
  "connect_rsp_queue =
     io_queue\<lparr>connect := zero_cmd\<lparr>req_cmd := \<lparr>opcode = 0x7f, fctype = 1, command_id = 3,
                                            sgl_length = 1024, sgl_type = 1\<rparr>,
                                req_transfer_len := 1024, req_data_len := 1024,
                                rbytes_done := 1024, pdu_len := 1024, req_sg := [1024]\<rparr>,
              resp_list := [Connect]\<rparr>"

theorem caravan_flush_counterexample:
  "case i10_target_try_send connect_rsp_queue 1 0 (idle_world\<lparr>tx_script := [Tx_err 32]\<rparr>) of
     Inl e \<Rightarrow> False
   | Inr (ret, q', w', sends) \<Rightarrow>
       trace w' =
         [Sendmsg [\<lparr>iov_base = (Buf_rsp_pdu Connect, 0), iov_len = 24\<rparr>] 24
            (MSG_DONTWAIT OR MSG_EOR) (- 32),
          Kfree_iov Connect, Sgl_free Connect] \<and>
       caravan2_iovs q' = [] \<and> caravan2_cmds q' = [] \<and>
       free_list q' = free_list connect_rsp_queue \<and> Connect \<notin> set (free_list q')"
  by (simp add: connect_rsp_queue_def fixture_defs send_defs)

text \<open>
  The I/O queue with both caravans loaded: the first holds a read (PDU header, page and
  response, owned by slot 1), the second the response of slot 2. The first caravan is
  flushed, which leaves the second as it is, then the second. With 100 bytes of room in
  the send buffer the flush of the first caravan does nothing.
\<close>

definition loaded_queue :: i10_target_queue where
  "loaded_queue =
     io_queue
       \<lparr>free_list := [Slot 0, Slot 3],
        caravan_iovs := [\<lparr>iov_base = (Buf_data_pdu (Slot 1), 0), iov_len = 24\<rparr>,
                         \<lparr>iov_base = (Buf_sg_page (Slot 1) 0, 0), iov_len = 512\<rparr>,
                         \<lparr>iov_base = (Buf_rsp_pdu (Slot 1), 0), iov_len = 24\<rparr>],
        caravan_len := 560, caravan_cmds := [Slot 1],
        caravan_mapped := [Buf_sg_page (Slot 1) 0],
        caravan2_iovs := [\<lparr>iov_base = (Buf_rsp_pdu (Slot 2), 0), iov_len = 24\<rparr>],
        caravan2_len := 24, caravan2_cmds := [Slot 2]\<rparr>"

definition flushed_queue :: i10_target_queue where
  "flushed_queue =
     loaded_queue\<lparr>free_list := [Slot 0, Slot 3, Slot 1], caravan_iovs := [],
                    caravan_cmds := [], caravan_mapped := [], caravan_len := 0\<rparr>"

theorem caravan_flush_accounting_witness:
  "(\<exists>w'. send_caravan loaded_queue accepting_world = (False, flushed_queue, w') \<and>
          trace w' =
            [Sendmsg (caravan_iovs loaded_queue) 560 (MSG_DONTWAIT OR MSG_EOR) 560,
             Kfree_iov (Slot 1), Sgl_free (Slot 1), Kunmap (Buf_sg_page (Slot 1) 0)]) \<and>
   caravan2_iovs flushed_queue = [\<lparr>iov_base = (Buf_rsp_pdu (Slot 2), 0), iov_len = 24\<rparr>] \<and>
   caravan2_cmds flushed_queue = [Slot 2] \<and> caravan2_len flushed_queue = 24 \<and>
   (\<exists>w'. send_caravan2 flushed_queue accepting_world =
           (False,
            flushed_queue\<lparr>free_list := [Slot 0, Slot 3, Slot 1, Slot 2], caravan2_iovs := [],
                            caravan2_cmds := [], caravan2_mapped := [], caravan2_len := 0,
                            send_now2 := False\<rparr>,
            w') \<and>
          trace w' =
            [Sendmsg [\<lparr>iov_base = (Buf_rsp_pdu (Slot 2), 0), iov_len = 24\<rparr>] 24
               (MSG_DONTWAIT OR MSG_EOR) 24,
             Kfree_iov (Slot 2), Sgl_free (Slot 2)]) \<and>
   send_caravan loaded_queue (idle_world\<lparr>wspace := 100\<rparr>) =
     (True, loaded_queue, emit Set_nospace (idle_world\<lparr>wspace := 100\<rparr>))"
proof -
  have a: "caravan_ok loaded_queue" "caravan_ok flushed_queue"
    "owners_unlinked loaded_queue (caravan_cmds loaded_queue)"
    "owners_unlinked flushed_queue (caravan2_cmds flushed_queue)"
    by (simp_all add: caravan_ok_def owners_unlinked_def entry_unlinked_def released_def
        flushed_queue_def loaded_queue_def fixture_defs)
  have b: "\<not> i10_target_sndbuf_nospace accepting_world (caravan_len loaded_queue)"
    "\<not> i10_target_sndbuf_nospace accepting_world (caravan2_len flushed_queue)"
    "i10_target_sndbuf_nospace (idle_world\<lparr>wspace := 100\<rparr>) (caravan_len loaded_queue)"
    by (simp_all add: i10_target_sndbuf_nospace_def flushed_queue_def loaded_queue_def
        accepting_world_def fixture_defs)
  have c: "caravan_cmds loaded_queue = [Slot 1]"
    "caravan_mapped loaded_queue = [Buf_sg_page (Slot 1) 0]"
    "free_list loaded_queue = [Slot 0, Slot 3]"
    "caravan2_iovs flushed_queue = [\<lparr>iov_base = (Buf_rsp_pdu (Slot 2), 0), iov_len = 24\<rparr>]"
    "caravan2_cmds flushed_queue = [Slot 2]" "caravan2_len flushed_queue = 24"
    "caravan2_mapped flushed_queue = []" "free_list flushed_queue = [Slot 0, Slot 3, Slot 1]"
    "sum_list (map iov_len (caravan_iovs loaded_queue)) = 560"
    "send_now loaded_queue = False" "send_now2 flushed_queue = False"
    by (simp_all add: flushed_queue_def loaded_queue_def fixture_defs)
  have d: "fst (sock_send accepting_world 560) = 560" "fst (sock_send accepting_world 24) = 24"
    "trace accepting_world = []"
    by (simp_all add: sock_send_def accepting_world_def idle_world_def)
  have e: "loaded_queue\<lparr>free_list := [Slot 0, Slot 3, Slot 1], caravan_iovs := [],
                          caravan_cmds := [], caravan_mapped := [], caravan_len := 0,
                          send_now := False\<rparr> = flushed_queue"
    using c(10) by (simp add: flushed_queue_def)
  from caravan_flush_accounting [where q = loaded_queue and w = accepting_world] a b c d e
  have one: "\<exists>w'. send_caravan loaded_queue accepting_world = (False, flushed_queue, w') \<and>
          trace w' =
            [Sendmsg (caravan_iovs loaded_queue) 560 (MSG_DONTWAIT OR MSG_EOR) 560,
             Kfree_iov (Slot 1), Sgl_free (Slot 1), Kunmap (Buf_sg_page (Slot 1) 0)]"
    by (simp add: flush_trace_def released_def release_events_def)
  from caravan_flush_accounting [where q = flushed_queue and w = accepting_world] a b c d
  have two: "\<exists>w'. send_caravan2 flushed_queue accepting_world =
           (False,
            flushed_queue\<lparr>free_list := [Slot 0, Slot 3, Slot 1, Slot 2], caravan2_iovs := [],
                            caravan2_cmds := [], caravan2_mapped := [], caravan2_len := 0,
                            send_now2 := False\<rparr>,
            w') \<and>
          trace w' =
            [Sendmsg [\<lparr>iov_base = (Buf_rsp_pdu (Slot 2), 0), iov_len = 24\<rparr>] 24
               (MSG_DONTWAIT OR MSG_EOR) 24,
             Kfree_iov (Slot 2), Sgl_free (Slot 2)]"
    by (simp add: flush_trace_def released_def release_events_def)
  from caravan_flush_accounting [where q = loaded_queue and w = "idle_world\<lparr>wspace := 100\<rparr>"] b
  have three: "send_caravan loaded_queue (idle_world\<lparr>wspace := 100\<rparr>) =
     (True, loaded_queue, emit Set_nospace (idle_world\<lparr>wspace := 100\<rparr>))"
    by simp
  from one two three c show ?thesis by simp
qed

section \<open>The transfer tag of inbound data\<close>

text \<open>What the set-up of the command array leaves alone, and what it yields.\<close>

lemma alloc_cmd_frame:
  "i10_target_alloc_cmd q w c = (ret, q', w') \<Longrightarrow> cmds q' = cmds q \<and> nr_cmds q' = nr_cmds q"
  by (auto simp: i10_target_alloc_cmd_def Let_def split: prod.splits if_splits)

lemma alloc_cmds_loop_frame:
  "alloc_cmds_loop n i q w = (ret, q', w') \<Longrightarrow> cmds q' = cmds q \<and> nr_cmds q' = nr_cmds q"
proof (induction n arbitrary: i q w)
  case 0
  then show ?case by simp
next
  case (Suc n)
  obtain r1 q1 w1 where a: "i10_target_alloc_cmd q w (Slot i) = (r1, q1, w1)"
    by (cases "i10_target_alloc_cmd q w (Slot i)")
  from alloc_cmd_frame [OF a] have f: "cmds q1 = cmds q" "nr_cmds q1 = nr_cmds q" by simp_all
  show ?case
  proof (cases "r1 = 0")
    case True
    with Suc.prems a have "alloc_cmds_loop n (Suc i) q1 w1 = (ret, q', w')" by simp
    from Suc.IH [OF this] f show ?thesis by simp
  next
    case False
    with Suc.prems a f show ?thesis by simp
  qed
qed

lemma install_queue_cmds:
  assumes "i10_target_install_queue sq_size q w = (0, q', w')"
  shows "nr_cmds q' = 2 * unat sq_size \<and> length (cmds q') = nr_cmds q'"
  using assms
  by (auto simp: i10_target_install_queue_def i10_target_alloc_cmds_def Let_def
      NVME_SC_INTERNAL_def EINVAL_def split: prod.splits if_splits
      dest!: alloc_cmds_loop_frame)

lemma map_iovec_loop_fault:
  "map_iovec_loop c sg j len off = Inl f \<Longrightarrow> \<exists>k. f = Bad_sg_entry c k"
  by (induction sg arbitrary: j len) (auto simp: Let_def split: if_splits sum.splits)

text \<open>
  C9. \<open>i10_target_handle_h2c_data_pdu\<close> forms \<open>&queue->cmds[data->ttag]\<close> from the
  transfer tag of the wire and never compares the tag with \<open>nr_cmds\<close>. When the tag is
  \<open>nr_cmds\<close> or more, the first read through the pointer is outside the array of the
  queue (the fault \<open>Bad_cmds_index\<close> of the model); this holds whenever the array has at
  most \<open>nr_cmds\<close> slots, which includes the queue without an array. When the array has
  its \<open>nr_cmds\<close> slots and the tag is below \<open>nr_cmds\<close>, the lookup stays inside the
  array. A successful \<open>i10_target_install_queue\<close> leaves an array of
  \<open>nr_cmds = 2 * sq_size\<close> slots.
\<close>

theorem h2c_ttag_unchecked:
  "(length (cmds q) \<le> nr_cmds q \<and> nr_cmds q \<le> unat (le16_at (pdu q) 10) \<longrightarrow>
      i10_target_handle_h2c_data_pdu q w = Inl (Bad_cmds_index (unat (le16_at (pdu q) 10)))) \<and>
   (length (cmds q) = nr_cmds q \<and> unat (le16_at (pdu q) 10) < nr_cmds q \<longrightarrow>
      (\<forall>i. i10_target_handle_h2c_data_pdu q w \<noteq> Inl (Bad_cmds_index i))) \<and>
   (\<forall>q' w'. i10_target_install_queue sq_size q w = (0, q', w') \<longrightarrow>
      nr_cmds q' = 2 * unat sq_size \<and> length (cmds q') = nr_cmds q')"
proof (intro conjI impI allI)
  assume "length (cmds q) \<le> nr_cmds q \<and> nr_cmds q \<le> unat (le16_at (pdu q) 10)"
  then show "i10_target_handle_h2c_data_pdu q w =
             Inl (Bad_cmds_index (unat (le16_at (pdu q) 10)))"
    by (simp add: i10_target_handle_h2c_data_pdu_def Let_def)
next
  fix i
  assume a: "length (cmds q) = nr_cmds q \<and> unat (le16_at (pdu q) 10) < nr_cmds q"
  define t where "t = unat (le16_at (pdu q) 10)"
  define q1 where "q1 = upd_cmd q (Slot t) (\<lambda>x. x\<lparr>pdu_len := le32_at (pdu q) 16, pdu_recv := 0\<rparr>)"
  have m: "i10_target_map_pdu_iovec (Slot t) q1 w \<noteq> Inl (Bad_cmds_index i)"
    by (auto simp: i10_target_map_pdu_iovec_def Let_def split: sum.splits option.splits if_splits
        dest: map_iovec_loop_fault)
  from a m show "i10_target_handle_h2c_data_pdu q w \<noteq> Inl (Bad_cmds_index i)"
    by (auto simp: i10_target_handle_h2c_data_pdu_def Let_def t_def [symmetric]
        q1_def [symmetric] split: sum.splits prod.splits)
next
  fix q' w'
  assume "i10_target_install_queue sq_size q w = (0, q', w')"
  then show "nr_cmds q' = 2 * unat sq_size" "length (cmds q') = nr_cmds q'"
    by (simp_all add: install_queue_cmds)
qed


text \<open>
  An h2c data PDU without payload that names the transfer tag \<open>t\<close>, and the I/O queue
  with its four slots when that PDU is in the scratch buffer.
\<close>

definition h2c_pdu :: "u8 \<Rightarrow> u8 list" where
  "h2c_pdu t = [6, 0, 24, 24, 24, 0, 0, 0, 0, 0, t, 0, 0, 0, 0, 0, 0, 0, 0, 0, 0, 0, 0, 0]"

definition h2c_queue :: "u8 \<Rightarrow> i10_target_queue" where
  "h2c_queue t = io_queue\<lparr>pdu := h2c_pdu t @ replicate 104 0\<rparr>"

definition h2c_world :: "u8 \<Rightarrow> world" where
  "h2c_world t = idle_world\<lparr>rx_script := [Rx_upto 128, Rx_upto 128], rx_stream := h2c_pdu t\<rparr>"

theorem h2c_ttag_unchecked_witness:
  "nr_cmds io_queue = 4 \<and> length (cmds io_queue) = 4 \<and>
   i10_target_handle_h2c_data_pdu (h2c_queue 4) idle_world = Inl (Bad_cmds_index 4) \<and>
   i10_target_try_recv_one io_queue (h2c_world 4) = Inl (Bad_cmds_index 4) \<and>
   (\<forall>i. i10_target_handle_h2c_data_pdu (h2c_queue 3) idle_world \<noteq> Inl (Bad_cmds_index i)) \<and>
   (\<exists>q' w'. i10_target_try_recv_one io_queue (h2c_world 3) = Inr (1, q', w')) \<and>
   (\<exists>w'. i10_target_install_queue 2
            ((i10_target_alloc_queue 1 0 16384)
               \<lparr>nvme_sq_qid := 1, nvme_sq_ctrl := True, q_state := I10_TARGET_Q_LIVE,
                 free_list := []\<rparr>) idle_world = (0, io_queue, w'))"
proof -
  have a: "nr_cmds (h2c_queue 4) = 4" "length (cmds (h2c_queue 4)) = 4"
    "unat (le16_at (pdu (h2c_queue 4)) 10) = 4"
    "nr_cmds (h2c_queue 3) = 4" "length (cmds (h2c_queue 3)) = 4"
    "unat (le16_at (pdu (h2c_queue 3)) 10) = 3"
    "nr_cmds io_queue = 4" "length (cmds io_queue) = 4"
    by (simp_all add: h2c_queue_def h2c_pdu_def le16_at_def fixture_defs)
  have run: "i10_target_try_recv_one io_queue (h2c_world 4) = Inl (Bad_cmds_index 4)"
    "\<exists>q' w'. i10_target_try_recv_one io_queue (h2c_world 3) = Inr (1, q', w')"
    by (simp_all add: h2c_world_def h2c_pdu_def fixture_defs recv_defs send_defs
        recv_data_loop.simps i10_target_try_recv_data_def)
  have inst: "\<exists>w'. i10_target_install_queue 2
            ((i10_target_alloc_queue 1 0 16384)
               \<lparr>nvme_sq_qid := 1, nvme_sq_ctrl := True, q_state := I10_TARGET_Q_LIVE,
                 free_list := []\<rparr>) idle_world = (0, io_queue, w')"
  proof -
    have "fst (i10_target_install_queue 2
            ((i10_target_alloc_queue 1 0 16384)
               \<lparr>nvme_sq_qid := 1, nvme_sq_ctrl := True, q_state := I10_TARGET_Q_LIVE,
                 free_list := []\<rparr>) idle_world) = 0"
      by code_simp
    then show ?thesis
      by (cases "i10_target_install_queue 2
            ((i10_target_alloc_queue 1 0 16384)
               \<lparr>nvme_sq_qid := 1, nvme_sq_ctrl := True, q_state := I10_TARGET_Q_LIVE,
                 free_list := []\<rparr>) idle_world") (simp add: io_queue_def)
  qed
  then obtain wi where "i10_target_install_queue 2
            ((i10_target_alloc_queue 1 0 16384)
               \<lparr>nvme_sq_qid := 1, nvme_sq_ctrl := True, q_state := I10_TARGET_Q_LIVE,
                 free_list := []\<rparr>) idle_world = (0, io_queue, wi)" ..
  with h2c_ttag_unchecked [where sq_size = 2 and w = idle_world
      and q = "(i10_target_alloc_queue 1 0 16384)
               \<lparr>nvme_sq_qid := 1, nvme_sq_ctrl := True, q_state := I10_TARGET_Q_LIVE,
                 free_list := []\<rparr>"]
  have sz: "nr_cmds io_queue = 4" "length (cmds io_queue) = 4"
    by auto
  from h2c_ttag_unchecked [where q = "h2c_queue 4" and w = idle_world] a
  have one: "i10_target_handle_h2c_data_pdu (h2c_queue 4) idle_world = Inl (Bad_cmds_index 4)"
    by simp
  from h2c_ttag_unchecked [where q = "h2c_queue 3" and w = idle_world] a
  have two: "\<forall>i. i10_target_handle_h2c_data_pdu (h2c_queue 3) idle_world \<noteq>
                 Inl (Bad_cmds_index i)"
    by simp
  from sz one two run inst show ?thesis by simp
qed


section \<open>A connection request of the wrong length\<close>

definition icresp_seg :: kvec where
  "icresp_seg = \<lparr>iov_base = (Buf_icresp, 0), iov_len = of_nat sizeof_icresp_pdu\<rparr>"

definition fatal_event :: "i10_target_queue \<Rightarrow> event" where
  "fatal_event q = (if nvme_sq_ctrl q then Ctrl_fatal_error else Sock_shutdown)"

definition icreq_valid_fields :: "u8 list \<Rightarrow> bool" where
  "icreq_valid_fields p = (le16_at p 8 = NVME_TCP_PFV_1_0 \<and> p ! 10 = 0 \<and> le32_at p 12 = 0)"

definition icreq_wants_digest :: "u8 list \<Rightarrow> bool" where
  "icreq_wants_digest p =
     (p ! 11 AND NVME_TCP_HDR_DIGEST_ENABLE \<noteq> 0 \<or> p ! 11 AND NVME_TCP_DATA_DIGEST_ENABLE \<noteq> 0)"

lemma trace_pop_alloc: "trace (snd (pop_alloc w)) = trace w"
  by (simp add: pop_alloc_def split: list.splits)

lemma trace_alloc_crypto: "trace (snd (i10_target_alloc_crypto w)) = trace w"
  using trace_pop_alloc [of w] trace_pop_alloc [of "snd (pop_alloc w)"]
    trace_pop_alloc [of "snd (pop_alloc (snd (pop_alloc w)))"]
  by (auto simp: i10_target_alloc_crypto_def Let_def split: prod.splits)

text \<open>
  C10, as amended. Let the connection request carry a \<open>plen\<close> that is not the size of
  the PDU, and valid \<open>pfv\<close>, \<open>hpda\<close> and \<open>maxr2t\<close>. \<open>i10_target_fatal_error\<close> sets the
  receive state to \<open>RECV_ERR\<close> and notifies the controller or, without a controller,
  shuts the socket down; \<open>i10_target_handle_icreq\<close> makes that call first and does not
  return after it. When a digest is asked for and \<open>i10_target_alloc_crypto\<close> fails it
  returns that error. Otherwise it calls \<open>kernel_sendmsg\<close> for the connection response.
  When that send fails it returns the error, the queue stays in its state and the
  receive state stays \<open>RECV_ERR\<close>; when the send does not fail it returns 0, the queue
  is \<open>LIVE\<close>, and \<open>i10_target_prepare_receive_pdu\<close> has put the receive state back to
  \<open>RECV_PDU\<close>.
\<close>

theorem icreq_plen_mismatch:
  assumes "pdu_hdr_plen (pdu q) \<noteq> of_nat sizeof_icreq_pdu" and "icreq_valid_fields (pdu q)"
  shows "case i10_target_fatal_error q w of
           (qe, we) \<Rightarrow>
             rcv_state qe = I10_TARGET_RECV_ERR \<and> trace we = trace w @ [fatal_event q] \<and>
             (case i10_target_handle_icreq q w of
                (ret, q', w') \<Rightarrow>
                  (case (if icreq_wants_digest (pdu q) then i10_target_alloc_crypto we
                         else (0, we)) of
                     (a, wa) \<Rightarrow>
                       if a \<noteq> 0
                       then ret = a \<and> trace w' = trace w @ [fatal_event q] \<and>
                            q_state q' = q_state q \<and> rcv_state q' = I10_TARGET_RECV_ERR
                       else trace w' =
                              trace w @
                              [fatal_event q,
                               Sendmsg [icresp_seg] (of_nat sizeof_icresp_pdu) 0
                                 (fst (sock_send wa (int sizeof_icresp_pdu)))] \<and>
                            (if fst (sock_send wa (int sizeof_icresp_pdu)) < 0
                             then ret = fst (sock_send wa (int sizeof_icresp_pdu)) \<and>
                                  q_state q' = q_state q \<and>
                                  rcv_state q' = I10_TARGET_RECV_ERR
                             else ret = 0 \<and> q_state q' = I10_TARGET_Q_LIVE \<and>
                                  rcv_state q' = I10_TARGET_RECV_PDU)))"
proof -
  obtain qe we where fe: "i10_target_fatal_error q w = (qe, we)"
    by (cases "i10_target_fatal_error q w")
  then have e: "rcv_state qe = I10_TARGET_RECV_ERR" "trace we = trace w @ [fatal_event q]"
    "pdu qe = pdu q" "q_state qe = q_state q"
    by (auto simp: i10_target_fatal_error_def fatal_event_def emit_def)
  obtain a wa where ac: "(if icreq_wants_digest (pdu q) then i10_target_alloc_crypto we
                          else (0, we)) = (a, wa)"
    by (cases "(if icreq_wants_digest (pdu q) then i10_target_alloc_crypto we else (0, we))")
  then have tr: "trace wa = trace we"
    using trace_alloc_crypto [of we] by (auto split: if_splits)
  obtain r ws where ss: "sock_send wa 128 = (r, ws)"
    by (cases "sock_send wa 128")
  then have ts: "trace ws = trace wa"
    using trace_sock_send [of wa 128] by simp
  define hdg where "hdg = (pdu q ! 11 AND NVME_TCP_HDR_DIGEST_ENABLE \<noteq> 0)"
  define ddg where "ddg = (pdu q ! 11 AND NVME_TCP_DATA_DIGEST_ENABLE \<noteq> 0)"
  define q2 where "q2 = qe\<lparr>hdr_digest := hdg, data_digest := ddg,
                           pdu := icresp_bytes hdg ddg @ drop sizeof_icresp_pdu (pdu q)\<rparr>"
  define w2 where "w2 = emit (Sendmsg [icresp_seg] (of_nat sizeof_icresp_pdu) 0 r) ws"
  have wd: "icreq_wants_digest (pdu q) = (hdg \<or> ddg)"
    by (simp add: icreq_wants_digest_def hdg_def ddg_def)
  have ac': "(if hdg \<or> ddg then i10_target_alloc_crypto we else (0, we)) = (a, wa)"
    using ac by (simp add: wd)
  have km: "kernel_sendmsg wa [icresp_seg] (of_nat sizeof_icresp_pdu) 0 = (r, w2)"
    using ss by (simp add: kernel_sendmsg_def w2_def sizeof_icresp_pdu_def)
  have h: "i10_target_handle_icreq q w =
             (if a \<noteq> 0 then (a, qe\<lparr>hdr_digest := hdg, data_digest := ddg\<rparr>, wa)
              else if r < 0 then (r, q2, w2)
              else (0, i10_target_prepare_receive_pdu (q2\<lparr>q_state := I10_TARGET_Q_LIVE\<rparr>), w2))"
    using assms
    by (simp add: i10_target_handle_icreq_def fe e icreq_valid_fields_def Let_def
        hdg_def [symmetric] ddg_def [symmetric] ac' km [unfolded icresp_seg_def]
        q2_def)
  have t2: "trace w2 = trace w @ [fatal_event q,
              Sendmsg [icresp_seg] (of_nat sizeof_icresp_pdu) 0 r]"
    by (simp add: w2_def emit_def ts tr e)
  have s1: "fst (sock_send wa (int sizeof_icresp_pdu)) = r"
    using ss by (simp add: sizeof_icresp_pdu_def)
  show ?thesis
    by (simp add: fe e h ac s1 t2 tr q2_def i10_target_prepare_receive_pdu_def)
qed


text \<open>
  A connection request whose \<open>plen\<close> is 100 instead of 128, with \<open>pfv\<close>, \<open>hpda\<close> and
  \<open>maxr2t\<close> valid and no digest asked for.
\<close>

definition short_icreq :: "u8 list" where
  "short_icreq = [0, 0, 128, 0, 100, 0, 0, 0] @ replicate 120 0"

text \<open>
  The claim as stated fails when the send of the response fails, as it does with
  \<open>-EPIPE\<close> on the socket that the fatal-error path has just shut down: no response is
  sent and the queue is not \<open>LIVE\<close>.
\<close>

theorem icreq_plen_counterexample:
  "case i10_target_try_recv_one (i10_target_alloc_queue 0 0 16384)
          (idle_world\<lparr>rx_script := [Rx_upto 128, Rx_upto 128], rx_stream := short_icreq,
                       tx_script := [Tx_err 32]\<rparr>) of
     Inl f \<Rightarrow> False
   | Inr (ret, q', w') \<Rightarrow>
       ret = - EPIPE \<and>
       trace w' = [Sock_shutdown, Sendmsg [icresp_seg] 128 0 (- EPIPE)] \<and>
       q_state q' = I10_TARGET_Q_CONNECTING \<and> rcv_state q' = I10_TARGET_RECV_ERR"
  by (simp add: short_icreq_def fixture_defs recv_defs send_defs icresp_seg_def EPIPE_def)

text \<open>The same request in the scratch PDU of a new queue; the socket takes the response.\<close>

definition icreq_queue :: i10_target_queue where
  "icreq_queue = (i10_target_alloc_queue 0 0 16384)\<lparr>pdu := short_icreq\<rparr>"

theorem icreq_plen_mismatch_witness:
  "pdu_hdr_plen (pdu icreq_queue) = 100 \<and> icreq_valid_fields (pdu icreq_queue) \<and>
   rcv_state (fst (i10_target_fatal_error icreq_queue idle_world)) = I10_TARGET_RECV_ERR \<and>
   (case i10_target_handle_icreq icreq_queue (idle_world\<lparr>tx_script := [Tx_accept 128]\<rparr>) of
      (ret, q', w') \<Rightarrow>
        ret = 0 \<and> q_state q' = I10_TARGET_Q_LIVE \<and> rcv_state q' = I10_TARGET_RECV_PDU \<and>
        trace w' = [Sock_shutdown, Sendmsg [icresp_seg] 128 0 128])"
proof -
  have a: "pdu_hdr_plen (pdu icreq_queue) = 100" "icreq_valid_fields (pdu icreq_queue)"
    "\<not> icreq_wants_digest (pdu icreq_queue)" "fatal_event icreq_queue = Sock_shutdown"
    by (simp_all add: icreq_queue_def short_icreq_def fixture_defs recv_defs
        icreq_valid_fields_def icreq_wants_digest_def fatal_event_def)
  have b: "fst (sock_send (snd (i10_target_fatal_error icreq_queue
                                  (idle_world\<lparr>tx_script := [Tx_accept 128]\<rparr>))) 128) = 128"
    "trace (idle_world\<lparr>tx_script := [Tx_accept 128]\<rparr>) = []"
    by (simp_all add: icreq_queue_def fixture_defs recv_defs send_defs)
  from icreq_plen_mismatch [where q = icreq_queue and w = idle_world] a
  have one: "rcv_state (fst (i10_target_fatal_error icreq_queue idle_world)) =
             I10_TARGET_RECV_ERR"
    by (simp add: sizeof_icreq_pdu_def split: prod.splits)
  from icreq_plen_mismatch [where q = icreq_queue
      and w = "idle_world\<lparr>tx_script := [Tx_accept 128]\<rparr>"] a b
  have two: "case i10_target_handle_icreq icreq_queue
                    (idle_world\<lparr>tx_script := [Tx_accept 128]\<rparr>) of
      (ret, q', w') \<Rightarrow>
        ret = 0 \<and> q_state q' = I10_TARGET_Q_LIVE \<and> rcv_state q' = I10_TARGET_RECV_PDU \<and>
        trace w' = [Sock_shutdown, Sendmsg [icresp_seg] 128 0 128]"
    by (simp add: sizeof_icreq_pdu_def sizeof_icresp_pdu_def split: prod.splits)
  from a one two show ?thesis by simp
qed


section \<open>The header digest on the receive side\<close>

lemma store_read_before:
  assumes "h + 4 \<le> len" and "len \<le> length p"
  shows "take 4 (drop h (take len p @ xs)) = take 4 (drop h p)"
proof -
  have "take 4 (drop h (take len p @ xs)) = take 4 (drop h (take len p))"
    using assms by simp
  also have "\<dots> = take 4 (take (len - h) (drop h p))"
    by (simp add: drop_take)
  also have "\<dots> = take 4 (drop h p)"
    using assms by (simp add: min_def)
  finally show ?thesis .
qed

lemma store_read_at:
  assumes "h + length bs \<le> length p"
  shows "take (length bs) (drop h (take h p @ bs @ xs)) = bs"
  using assms by simp

text \<open>
  C2. What the code does with the header digest. \<open>i10_target_try_recv_pdu\<close> calls
  \<open>i10_target_verify_hdgst\<close> with \<open>queue->offset\<close> as length, which is \<open>hlen\<close> plus the
  four bytes of the digest. For every PDU with the digest flag and every such length
  (\<open>hlen + 4\<close> or more) the computed digest is written behind the received one, both
  reads at \<open>pdu + hlen\<close> give the received bytes, and the verification returns 0,
  whatever the received digest is and whatever the transform computes. Called with
  \<open>hlen\<close> as length it would compare the received digest with the digest of the header.
\<close>

theorem header_digest_not_verified:
  assumes "pdu_hdr_flags p AND NVME_TCP_F_HDGST \<noteq> 0"
    and "unat (pdu_hdr_hlen p) + 4 \<le> length p"
  shows "(unat (pdu_hdr_hlen p) + 4 \<le> len \<and> len + 4 \<le> length p \<longrightarrow>
            (\<exists>p'. i10_target_verify_hdgst w p len = Inr (0, p') \<and> take len p' = take len p)) \<and>
         (\<exists>p'. i10_target_verify_hdgst w p (unat (pdu_hdr_hlen p)) =
                 Inr (if take 4 (drop (unat (pdu_hdr_hlen p)) p) =
                         le_bytes 4 (crc32c w (take (unat (pdu_hdr_hlen p)) p))
                      then 0 else - EPROTO, p'))"
proof -
  define h where "h = unat (pdu_hdr_hlen p)"
  have d: "length (le_bytes 4 x) = 4" for x :: u32
    by (simp add: le_bytes_def)
  have one: "\<exists>p'. i10_target_verify_hdgst w p len = Inr (0, p') \<and> take len p' = take len p"
    if "h + 4 \<le> len" "len + 4 \<le> length p"
    using that assms store_read_before [of h len p]
    by (simp add: i10_target_verify_hdgst_def i10_target_hdgst_def store_def Let_def d
        h_def [symmetric])
  have two: "\<exists>p'. i10_target_verify_hdgst w p h =
                 Inr (if take 4 (drop h p) = le_bytes 4 (crc32c w (take h p))
                      then 0 else - EPROTO, p')"
    using assms store_read_at [of h "le_bytes 4 (crc32c w (take h p))" p]
    by (auto simp: i10_target_verify_hdgst_def i10_target_hdgst_def store_def Let_def d
        h_def [symmetric])
  from one two show ?thesis
    by (simp add: h_def)
qed


text \<open>
  A command capsule with a header digest: a flush command (opcode 0, no data) with
  command identifier 9, followed by four bytes that are not the digest of the header.
  The I/O queue has negotiated the header digest.
\<close>

definition hdgst_capsule :: "u8 list" where
  "hdgst_capsule =
     [4, 1, 72, 0, 76, 0, 0, 0,
      0, 0, 9, 0, 0, 0, 0, 0, 0, 0, 0, 0, 0, 0, 0, 0, 0, 0, 0, 0, 0, 0, 0, 0,
      0, 0, 0, 0, 0, 0, 0, 0, 0, 0, 0, 0, 0, 0, 0, 0, 0, 0, 0, 0, 0, 0, 0, 0,
      0, 0, 0, 0, 0, 0, 0, 0, 0, 0, 0, 0, 0, 0, 0, 0,
      0xde, 0xad, 0xbe, 0xef]"

definition hdgst_queue :: i10_target_queue where
  "hdgst_queue = io_queue\<lparr>hdr_digest := True\<rparr>"

definition hdgst_world :: world where
  "hdgst_world =
     idle_world\<lparr>rx_script := [Rx_upto 128, Rx_upto 128], rx_stream := hdgst_capsule\<rparr>"

theorem header_digest_not_verified_witness:
  "crc32c hdgst_world (take 72 hdgst_capsule) = 162 \<and>
   take 4 (drop 72 hdgst_capsule) = [0xde, 0xad, 0xbe, 0xef] \<and>
   (\<exists>p'. i10_target_verify_hdgst hdgst_world (hdgst_capsule @ replicate 52 0) 76 =
           Inr (0, p')) \<and>
   (\<exists>p'. i10_target_verify_hdgst hdgst_world (hdgst_capsule @ replicate 52 0) 72 =
           Inr (- EPROTO, p')) \<and>
   (case i10_target_try_recv_one hdgst_queue hdgst_world of
      Inl f \<Rightarrow> False
    | Inr (ret, q', w') \<Rightarrow>
        ret = 1 \<and> rcv_state q' = I10_TARGET_RECV_PDU \<and> free_list q' = [Slot 1, Slot 2, Slot 3] \<and>
        trace w' = [Req_execute (Slot 0)])"
proof -
  have a: "pdu_hdr_flags (hdgst_capsule @ replicate 52 0) AND NVME_TCP_F_HDGST \<noteq> 0"
    "unat (pdu_hdr_hlen (hdgst_capsule @ replicate 52 0)) = 72"
    "length (hdgst_capsule @ replicate 52 0) = 128"
    "crc32c hdgst_world (take 72 hdgst_capsule) = 162"
    "take 4 (drop 72 hdgst_capsule) = [0xde, 0xad, 0xbe, 0xef]"
    "take 72 (hdgst_capsule @ replicate 52 0) = take 72 hdgst_capsule"
    "take 4 (drop 72 (hdgst_capsule @ replicate 52 0)) = take 4 (drop 72 hdgst_capsule)"
    by (simp_all add: hdgst_capsule_def hdgst_world_def idle_world_def byte_sum_def
        pdu_hdr_flags_def pdu_hdr_hlen_def NVME_TCP_F_HDGST_def)
  have b: "le_bytes 4 (162 :: u32) \<noteq> [0xde, 0xad, 0xbe, 0xef]"
    by (simp add: le_bytes_def upt_conv_Cons)
  have run: "case i10_target_try_recv_one hdgst_queue hdgst_world of
      Inl f \<Rightarrow> False
    | Inr (ret, q', w') \<Rightarrow>
        ret = 1 \<and> rcv_state q' = I10_TARGET_RECV_PDU \<and> free_list q' = [Slot 1, Slot 2, Slot 3] \<and>
        trace w' = [Req_execute (Slot 0)]"
    by (simp add: hdgst_queue_def hdgst_world_def hdgst_capsule_def fixture_defs recv_defs
        send_defs)
  from header_digest_not_verified [where p = "hdgst_capsule @ replicate 52 0"
      and w = hdgst_world and len = 76] a b
  have "(\<exists>p'. i10_target_verify_hdgst hdgst_world (hdgst_capsule @ replicate 52 0) 76 =
           Inr (0, p')) \<and>
   (\<exists>p'. i10_target_verify_hdgst hdgst_world (hdgst_capsule @ replicate 52 0) 72 =
           Inr (- EPROTO, p'))"
    by auto
  with a run show ?thesis by simp
qed

end
